theory Spec2Isabelle
  imports Main
begin

section \<open>The MongoDB instance resource of the Alicloud provider\<close>

text \<open>
  A shallow embedding of \<^verbatim>\<open>alicloud/resource_alicloud_mongodb_instance.go\<close>: the request
  builder and the four lifecycle handlers (Create, Read, Update, Delete). The handlers
  mutate the resource data \<^verbatim>\<open>d\<close> and talk to remote services; here they are functions
  from a world (the resource data and the list of remote calls issued so far) to an
  optional error and the new world. What a remote service answers is a parameter: a
  function of the calls issued so far and of the call's arguments. Logging
  (\<^verbatim>\<open>addDebug\<close>) has no effect on either and is left out.
\<close>

subsection \<open>Go library functions used by the file\<close>

text \<open>Strings are byte sequences, as in Go. \<^verbatim>\<open>strings.Contains\<close>: a contiguous occurrence.\<close>

definition HasPrefix :: "string \<Rightarrow> string \<Rightarrow> bool" where
  "HasPrefix s p = (take (length p) s = p)"

fun Contains :: "string \<Rightarrow> string \<Rightarrow> bool" where
  "Contains [] substr = (substr = [])"
| "Contains (c # cs) substr = (if HasPrefix (c # cs) substr then True else Contains cs substr)"

text \<open>
  \<^verbatim>\<open>strings.Split\<close> and \<^verbatim>\<open>strings.SplitAfter\<close>; the file only splits at one-byte
  separators (\<^verbatim>\<open>"("\<close>, \<^verbatim>\<open>")"\<close>, \<^verbatim>\<open>","\<close>), so the separator is a byte here. Both return at
  least one piece; the empty-list branch of the case is never taken.
\<close>

fun Split :: "string \<Rightarrow> char \<Rightarrow> string list" where
  "Split [] sep = [[]]"
| "Split (c # cs) sep =
     (if c = sep then [] # Split cs sep
      else (case Split cs sep of [] \<Rightarrow> [[c]] | p # ps \<Rightarrow> (c # p) # ps))"

fun SplitAfter :: "string \<Rightarrow> char \<Rightarrow> string list" where
  "SplitAfter [] sep = [[]]"
| "SplitAfter (c # cs) sep =
     (if c = sep then [c] # SplitAfter cs sep
      else (case SplitAfter cs sep of [] \<Rightarrow> [[c]] | p # ps \<Rightarrow> (c # p) # ps))"

fun Join :: "string list \<Rightarrow> string \<Rightarrow> string" where
  "Join [] sep = []"
| "Join [x] sep = x"
| "Join (x # y # ys) sep = x @ sep @ Join (y # ys) sep"

text \<open>
  \<^verbatim>\<open>strings.ToUpper\<close> on the bytes \<^verbatim>\<open>a\<close> to \<^verbatim>\<open>z\<close>; other bytes are kept (Go also maps
  letters outside ASCII, which the network type constant does not hold).
\<close>

definition upperByte :: "char \<Rightarrow> char" where
  "upperByte c =
     (let n = (of_char c :: nat) in if 97 \<le> n \<and> n \<le> 122 then char_of (n - 32) else c)"

definition ToUpper :: "string \<Rightarrow> string" where
  "ToUpper s = map upperByte s"

text \<open>
  The conversion \<^verbatim>\<open>string(b)\<close> of a byte \<^verbatim>\<open>b\<close>: the UTF-8 encoding of the code point
  \<^verbatim>\<open>b\<close>, one byte below 128 and two bytes from 128 on.
\<close>

definition byteToString :: "char \<Rightarrow> string" where
  "byteToString b =
     (let n = (of_char b :: nat)
      in if n < 128 then [b] else [char_of (192 + n div 64), char_of (128 + n mod 64)])"

text \<open>\<^verbatim>\<open>strconv.Itoa\<close> and \<^verbatim>\<open>strconv.Atoi\<close> (base 10, an optional sign, 64-bit range).\<close>

definition digitChar :: "nat \<Rightarrow> char" where
  "digitChar n = char_of (48 + n)"

function natDigits :: "nat \<Rightarrow> string" where
  "natDigits n = (if n < 10 then [digitChar n] else natDigits (n div 10) @ [digitChar (n mod 10)])"
  by pat_completeness auto
termination
  by (relation "measure (\<lambda>n. n)") auto

definition Itoa :: "int \<Rightarrow> string" where
  "Itoa i = (if i < 0 then CHR ''-'' # natDigits (nat (- i)) else natDigits (nat i))"

definition isDigit :: "char \<Rightarrow> bool" where
  "isDigit c = (48 \<le> (of_char c :: nat) \<and> (of_char c :: nat) \<le> 57)"

definition digitsValue :: "string \<Rightarrow> nat" where
  "digitsValue ds = foldl (\<lambda>acc c. 10 * acc + ((of_char c :: nat) - 48)) 0 ds"

definition Atoi :: "string \<Rightarrow> int option" where
  "Atoi s =
     (let neg = (case s of [] \<Rightarrow> False | c # _ \<Rightarrow> c = CHR ''-'');
          ds = (case s of [] \<Rightarrow> []
                | c # cs \<Rightarrow> if c = CHR ''+'' \<or> c = CHR ''-'' then cs else s)
      in if ds = [] then None
         else if list_all isDigit ds then
           (let n = int (digitsValue ds)
            in if neg then (if n \<le> 2 ^ 63 then Some (- n) else None)
               else (if n < 2 ^ 63 then Some n else None))
         else None)"

text \<open>Durations in seconds.\<close>

definition minute :: nat where
  "minute = 60"

subsection \<open>Errors\<close>

text \<open>
  An error is what a remote service or a helper returned, wrapped by \<^verbatim>\<open>WrapError\<close> or
  \<^verbatim>\<open>WrapErrorf\<close> on the way up, or built by \<^verbatim>\<open>fmt.Errorf\<close> (the format and its
  arguments). \<open>RetryTimeout\<close> is what \<^verbatim>\<open>resource.Retry\<close> returns when its budget ends
  before any attempt has answered. \<open>Panic\<close> stands for a run-time panic (an index out
  of range): the handler does not return, and every wrapper passes it on unchanged.
\<close>

datatype error =
    RemoteError string string
  | Errorf string "string list"
  | Wrapped error
  | WrappedMsg error "string list"
  | RetryTimeout
  | Panic string

fun WrapError :: "error \<Rightarrow> error" where
  "WrapError (Panic m) = Panic m"
| "WrapError e = Wrapped e"

fun WrapErrorf :: "error \<Rightarrow> string list \<Rightarrow> error" where
  "WrapErrorf (Panic m) args = Panic m"
| "WrapErrorf e args = WrappedMsg e args"

subsection \<open>The resource data\<close>

text \<open>
  The schema's attributes, as \<^verbatim>\<open>d.Get\<close> reads them: an unset string is empty, an unset
  integer is 0, a set is the list its \<^verbatim>\<open>List()\<close> yields.
\<close>

record attributes =
  engine_version :: string
  db_instance_class :: string
  db_instance_storage :: int
  replication_factor :: int
  storage_engine :: string
  instance_charge_type :: string
  period :: int
  zone_id :: string
  vswitch_id :: string
  name :: string
  security_ip_list :: "string list"
  account_password :: string
  kms_encrypted_password :: string
  kms_encryption_context :: "(string \<times> string) list"
  backup_period :: "string list"
  backup_time :: string
  retention_period :: int
  maintain_start_time :: string
  maintain_end_time :: string

text \<open>
  \<^verbatim>\<open>schema.ResourceData\<close>: the identifier, the attributes, the keys whose planned value
  differs from the stored one (\<^verbatim>\<open>d.HasChange\<close>), the new-resource mark the framework
  sets before it calls Create, the partial mode with its keys, and the configured
  timeouts (seconds). The handlers test \<^verbatim>\<open>d.HasChange\<close> only before their first
  \<^verbatim>\<open>d.Set\<close> (Read, which sets attributes, is their last step), so the changed keys
  are a list that no handler alters.
\<close>

record ResourceData =
  Id :: string
  attrs :: attributes
  changed :: "string list"
  isNew :: bool
  partial :: bool
  partialMap :: "string list"
  timeoutCreate :: nat
  timeoutUpdate :: nat
  timeoutDelete :: nat

definition HasChange :: "ResourceData \<Rightarrow> string \<Rightarrow> bool" where
  "HasChange d k = (k \<in> set (changed d))"

definition IsNewResource :: "ResourceData \<Rightarrow> bool" where
  "IsNewResource d = isNew d"

definition SetId :: "string \<Rightarrow> ResourceData \<Rightarrow> ResourceData" where
  "SetId v d = d\<lparr>Id := v\<rparr>"

definition Partial :: "bool \<Rightarrow> ResourceData \<Rightarrow> ResourceData" where
  "Partial on d = (if on then d\<lparr>partial := True\<rparr> else d\<lparr>partial := False, partialMap := []\<rparr>)"

definition SetPartial :: "string \<Rightarrow> ResourceData \<Rightarrow> ResourceData" where
  "SetPartial k d = (if partial d then d\<lparr>partialMap := partialMap d @ [k]\<rparr> else d)"

subsection \<open>Requests, responses and remote calls\<close>

record CreateDBInstanceRequest =
  RegionId :: string
  EngineVersion :: string
  Engine :: string
  DBInstanceStorage :: string
  DBInstanceClass :: string
  DBInstanceDescription :: string
  AccountPassword :: string
  ZoneId :: string
  StorageEngine :: string
  ReplicationFactor :: string
  NetworkType :: string
  VSwitchId :: string
  VpcId :: string
  ChargeType :: string
  Period :: string
  SecurityIPList :: string
  ClientToken :: string

text \<open>\<^verbatim>\<open>dds.CreateCreateDBInstanceRequest()\<close>: every field empty.\<close>

definition CreateCreateDBInstanceRequest :: CreateDBInstanceRequest where
  "CreateCreateDBInstanceRequest =
     \<lparr>RegionId = [], EngineVersion = [], Engine = [], DBInstanceStorage = [],
      DBInstanceClass = [], DBInstanceDescription = [], AccountPassword = [], ZoneId = [],
      StorageEngine = [], ReplicationFactor = [], NetworkType = [], VSwitchId = [],
      VpcId = [], ChargeType = [], Period = [], SecurityIPList = [], ClientToken = []\<rparr>"

text \<open>\<^verbatim>\<open>requests.NewInteger\<close>: the integer in decimal.\<close>

definition NewInteger :: "int \<Rightarrow> string" where
  "NewInteger i = Itoa i"

record ModifyDBInstanceSpecRequest =
  spec_DBInstanceId :: string
  spec_DBInstanceClass :: string
  spec_DBInstanceStorage :: string
  spec_ReplicationFactor :: string

record ModifyDBInstanceMaintainTimeRequest =
  mt_RegionId :: string
  mt_DBInstanceId :: string
  mt_MaintainStartTime :: string
  mt_MaintainEndTime :: string

text \<open>What the subnet lookup, the instance lookup and the backup policy lookup return.\<close>

record VSwitch =
  vsw_ZoneId :: string
  vsw_VSwitchId :: string
  vsw_VpcId :: string

record DBInstance =
  inst_DBInstanceDescription :: string
  inst_EngineVersion :: string
  inst_DBInstanceClass :: string
  inst_DBInstanceStorage :: int
  inst_ZoneId :: string
  inst_ChargeType :: string
  inst_VSwitchId :: string
  inst_StorageEngine :: string
  inst_MaintainStartTime :: string
  inst_MaintainEndTime :: string
  inst_ReplicationFactor :: string

record BackupPolicy =
  PreferredBackupTime :: string
  PreferredBackupPeriod :: string
  BackupRetentionPeriod :: string

text \<open>
  \<^verbatim>\<open>BuildStateConf(pending, target, timeout, delay, refresh)\<close>; the refresh function is
  \<^verbatim>\<open>RdsMongodbDBInstanceStateRefreshFunc(id, failStates)\<close>, kept as its two arguments.
\<close>

record StateChangeConf =
  Pending :: "string list"
  Target :: "string list"
  Timeout :: nat
  Delay :: nat
  RefreshId :: string
  FailStates :: "string list"

definition BuildStateConf ::
  "string list \<Rightarrow> string list \<Rightarrow> nat \<Rightarrow> nat \<Rightarrow> string \<times> string list \<Rightarrow> StateChangeConf" where
  "BuildStateConf pending target timeout delay refresh =
     \<lparr>Pending = pending, Target = target, Timeout = timeout, Delay = delay,
      RefreshId = fst refresh, FailStates = snd refresh\<rparr>"

definition RdsMongodbDBInstanceStateRefreshFunc :: "string \<Rightarrow> string list \<Rightarrow> string \<times> string list" where
  "RdsMongodbDBInstanceStateRefreshFunc ident failStates = (ident, failStates)"

text \<open>The calls the handlers issue to services outside the file, with their arguments.\<close>

datatype call =
    Decrypt string "(string \<times> string) list"
  | DescribeVSwitch string
  | CreateDBInstance CreateDBInstanceRequest
  | WaitForState StateChangeConf
  | MotifyMongoDBBackupPolicy ResourceData
  | ModifyDBInstanceMaintainTime ModifyDBInstanceMaintainTimeRequest
  | ModifyDBInstanceDescription string string
  | ModifyMongoDBSecurityIps string string
  | ResetAccountPassword ResourceData string
  | ModifyDBInstanceSpec ModifyDBInstanceSpecRequest
  | DeleteDBInstance string
  | DescribeMongoDBInstance string
  | DescribeMongoDBBackupPolicy string
  | GetSecurityIps string

subsection \<open>The provider: constants, helpers and services outside the file\<close>

text \<open>
  The file uses constants and helpers declared elsewhere in the provider, and services
  reached through the client. They are parameters here. A service's answer may depend
  on the calls issued before it (the first argument). \<open>Invoke_result\<close> answers the calls
  that return nothing but an error: \<open>WaitForState\<close>, the modify calls, the password
  reset and the delete call. \<open>Retry_attempts\<close> is how many attempts \<^verbatim>\<open>resource.Retry\<close>
  fits into a budget (seconds). \<open>SetList\<close> is the framework's set of strings: the list
  that \<^verbatim>\<open>List()\<close> yields for the set built from the given entries, duplicates dropped,
  in the order of the framework's hash.
\<close>

record provider =
  client_Region :: string
  client_RegionId :: string
  MULTI_IZ_SYMBOL :: string
  LOCAL_HOST_IP :: string
  COMMA_SEPARATED :: string
  Classic :: string
  Vpc :: string
  PrePaid :: string
  Trim :: "string \<Rightarrow> string"
  buildClientToken :: "string \<Rightarrow> string"
  NotFoundError :: "error \<Rightarrow> bool"
  NotFoundMongoDBInstance :: "error \<Rightarrow> bool"
  IsExceptedErrors :: "error \<Rightarrow> string list \<Rightarrow> bool"
  Decrypt_result :: "call list \<Rightarrow> string \<Rightarrow> (string \<times> string) list \<Rightarrow> error + string"
  DescribeVSwitch_result :: "call list \<Rightarrow> string \<Rightarrow> error + VSwitch"
  CreateDBInstance_result :: "call list \<Rightarrow> CreateDBInstanceRequest \<Rightarrow> error + string"
  DescribeMongoDBInstance_result :: "call list \<Rightarrow> string \<Rightarrow> error + DBInstance"
  DescribeMongoDBBackupPolicy_result :: "call list \<Rightarrow> string \<Rightarrow> error + BackupPolicy"
  GetSecurityIps_result :: "call list \<Rightarrow> string \<Rightarrow> error + string list"
  Invoke_result :: "call list \<Rightarrow> call \<Rightarrow> error option"
  Retry_attempts :: "call list \<Rightarrow> nat \<Rightarrow> nat"
  SetList :: "string list \<Rightarrow> string list"

text \<open>
  Modelled from the spec: \<^verbatim>\<open>expandStringList\<close> is declared elsewhere in the provider;
  the spec joins the user's set, so the conversion keeps every entry in order.
\<close>

definition expandStringList :: "string list \<Rightarrow> string list" where
  "expandStringList configured = configured"

text \<open>The world: the resource data and the calls issued so far, oldest first.\<close>

record world =
  rd :: ResourceData
  calls :: "call list"

definition issue :: "call \<Rightarrow> world \<Rightarrow> world" where
  "issue c w = w\<lparr>calls := calls w @ [c]\<rparr>"

definition onData :: "(ResourceData \<Rightarrow> ResourceData) \<Rightarrow> world \<Rightarrow> world" where
  "onData f w = w\<lparr>rd := f (rd w)\<rparr>"

definition setAttrs :: "(attributes \<Rightarrow> attributes) \<Rightarrow> world \<Rightarrow> world" where
  "setAttrs f w = w\<lparr>rd := (rd w)\<lparr>attrs := f (attrs (rd w))\<rparr>\<rparr>"

subsection \<open>buildMongoDBCreateRequest\<close>

text \<open>
  The credential of the create request (the \<^verbatim>\<open>request.AccountPassword\<close> block): the
  clear-text password; when that is empty, the branch guarded by \<^verbatim>\<open>v == ""\<close> on the
  KMS ciphertext decrypts \<^verbatim>\<open>v\<close>.
\<close>

definition createCredential ::
  "provider \<Rightarrow> CreateDBInstanceRequest \<Rightarrow> world \<Rightarrow> (error + CreateDBInstanceRequest) \<times> world" where
  "createCredential pv request w =
     (let a = attrs (rd w);
          request = request\<lparr>AccountPassword := account_password a\<rparr>
      in if AccountPassword request = [] then
           (let v = kms_encrypted_password a
            in if v = [] then
                 (case Decrypt_result pv (calls w) v (kms_encryption_context a) of
                    Inl err \<Rightarrow> (Inl (WrapError err), issue (Decrypt v (kms_encryption_context a)) w)
                  | Inr plaintext \<Rightarrow>
                      (Inr (request\<lparr>AccountPassword := plaintext\<rparr>),
                       issue (Decrypt v (kms_encryption_context a)) w))
               else (Inr request, w))
         else (Inr request, w))"

text \<open>
  The zone check of a subnet \<^verbatim>\<open>vsw\<close> against the declared zone: an empty zone adopts
  the subnet's; a zone that contains \<^verbatim>\<open>MULTI_IZ_SYMBOL\<close> must list the last byte of the
  subnet's zone between its first \<^verbatim>\<open>(\<close> and the following \<^verbatim>\<open>)\<close>; any other zone must
  equal the subnet's. The two index expressions panic when out of range.
\<close>

definition checkZone ::
  "provider \<Rightarrow> CreateDBInstanceRequest \<Rightarrow> VSwitch \<Rightarrow> error + CreateDBInstanceRequest" where
  "checkZone pv request vsw =
     (if ZoneId request = [] then Inr (request\<lparr>ZoneId := vsw_ZoneId vsw\<rparr>)
      else if Contains (ZoneId request) (MULTI_IZ_SYMBOL pv) then
        (case SplitAfter (ZoneId request) CHR ''('' of
           p # q # ps \<Rightarrow>
             (case Split q CHR '')'' of
                zonestr # rs \<Rightarrow>
                  (if vsw_ZoneId vsw = [] then Inl (Panic ''index out of range'')
                   else if \<not> Contains zonestr (byteToString (last (vsw_ZoneId vsw))) then
                     Inl (WrapError (Errorf ''The specified vswitch %s isn't in the multi zone %s.''
                            [vsw_VSwitchId vsw, ZoneId request]))
                   else Inr request)
              | [] \<Rightarrow> Inl (Panic ''index out of range''))
         | _ \<Rightarrow> Inl (Panic ''index out of range''))
      else if ZoneId request \<noteq> vsw_ZoneId vsw then
        Inl (WrapError (Errorf ''The specified vswitch %s isn't in the zone %s.''
               [vsw_VSwitchId vsw, ZoneId request]))
      else Inr request)"

text \<open>The network placement (from \<^verbatim>\<open>request.NetworkType = string(Classic)\<close> on).\<close>

definition createNetwork ::
  "provider \<Rightarrow> CreateDBInstanceRequest \<Rightarrow> world \<Rightarrow> (error + CreateDBInstanceRequest) \<times> world" where
  "createNetwork pv request w =
     (let request = request\<lparr>NetworkType := Classic pv\<rparr>;
          vswitchId = Trim pv (vswitch_id (attrs (rd w)))
      in if vswitchId \<noteq> [] then
           (case DescribeVSwitch_result pv (calls w) vswitchId of
              Inl err \<Rightarrow> (Inl (WrapError err), issue (DescribeVSwitch vswitchId) w)
            | Inr vsw \<Rightarrow>
                (case checkZone pv request vsw of
                   Inl err \<Rightarrow> (Inl err, issue (DescribeVSwitch vswitchId) w)
                 | Inr request \<Rightarrow>
                     (Inr (request\<lparr>VSwitchId := vswitchId, NetworkType := ToUpper (Vpc pv),
                                   VpcId := vsw_VpcId vsw\<rparr>),
                      issue (DescribeVSwitch vswitchId) w)))
         else (Inr request, w))"

text \<open>The billing period, the allowed-IP string and the client token.\<close>

definition createBillingAndIps ::
  "provider \<Rightarrow> CreateDBInstanceRequest \<Rightarrow> ResourceData \<Rightarrow> CreateDBInstanceRequest" where
  "createBillingAndIps pv request d =
     (let a = attrs d;
          request = request\<lparr>ChargeType := instance_charge_type a\<rparr>;
          request = (if ChargeType request = PrePaid pv \<and> period a \<noteq> 0
                     then request\<lparr>Period := NewInteger (period a)\<rparr> else request);
          request = request\<lparr>SecurityIPList := LOCAL_HOST_IP pv\<rparr>;
          request = (if length (security_ip_list a) > 0
                     then request\<lparr>SecurityIPList :=
                            Join (expandStringList (security_ip_list a)) (COMMA_SEPARATED pv)\<rparr>
                     else request)
      in request\<lparr>ClientToken := buildClientToken pv ''CreateDBInstance''\<rparr>)"

text \<open>
  The builder returns the request or an error. (On a decryption error the Go function
  also returns the request built so far; its only caller reads the error alone.)
\<close>

definition buildMongoDBCreateRequest ::
  "provider \<Rightarrow> world \<Rightarrow> (error + CreateDBInstanceRequest) \<times> world" where
  "buildMongoDBCreateRequest pv w =
     (let a = attrs (rd w);
          request = CreateCreateDBInstanceRequest
            \<lparr>RegionId := client_Region pv,
             EngineVersion := Trim pv (engine_version a),
             Engine := ''MongoDB'',
             DBInstanceStorage := NewInteger (db_instance_storage a),
             DBInstanceClass := Trim pv (db_instance_class a),
             DBInstanceDescription := name a\<rparr>
      in case createCredential pv request w of
           (Inl err, w1) \<Rightarrow> (Inl err, w1)
         | (Inr request, w1) \<Rightarrow>
             (let request = request\<lparr>ZoneId := zone_id a, StorageEngine := storage_engine a\<rparr>;
                  request = (if replication_factor a \<noteq> 0
                             then request\<lparr>ReplicationFactor := Itoa (replication_factor a)\<rparr>
                             else request)
              in case createNetwork pv request w1 of
                   (Inl err, w2) \<Rightarrow> (Inl err, w2)
                 | (Inr request, w2) \<Rightarrow> (Inr (createBillingAndIps pv request (rd w2)), w2)))"

subsection \<open>resourceAlicloudMongoDBInstanceRead\<close>

text \<open>
  The attributes Read mirrors from the backup policy and from the instance. The two
  set attributes (\<^verbatim>\<open>backup_period\<close>, \<^verbatim>\<open>security_ip_list\<close>) store the set of the entries
  handed to \<^verbatim>\<open>d.Set\<close>. The policy's retention period is a string, and \<^verbatim>\<open>d.Set\<close> of a
  string on the integer attribute \<^verbatim>\<open>retention_period\<close> returns an error that Read does
  not look at: the attribute stays as it is.
\<close>

definition setBackupPolicy :: "provider \<Rightarrow> BackupPolicy \<Rightarrow> attributes \<Rightarrow> attributes" where
  "setBackupPolicy pv backupPolicy a =
     a\<lparr>backup_time := PreferredBackupTime backupPolicy,
       backup_period := SetList pv (Split (PreferredBackupPeriod backupPolicy) CHR '','')\<rparr>"

definition setInstance :: "provider \<Rightarrow> DBInstance \<Rightarrow> string list \<Rightarrow> attributes \<Rightarrow> attributes" where
  "setInstance pv instance ips a =
     (let a = a\<lparr>security_ip_list := SetList pv ips,
                name := inst_DBInstanceDescription instance,
                engine_version := inst_EngineVersion instance,
                db_instance_class := inst_DBInstanceClass instance,
                db_instance_storage := inst_DBInstanceStorage instance,
                zone_id := inst_ZoneId instance,
                instance_charge_type := inst_ChargeType instance,
                vswitch_id := inst_VSwitchId instance,
                storage_engine := inst_StorageEngine instance,
                maintain_start_time := inst_MaintainStartTime instance,
                maintain_end_time := inst_MaintainEndTime instance\<rparr>
      in case Atoi (inst_ReplicationFactor instance) of
           Some replication_factor' \<Rightarrow> a\<lparr>replication_factor := replication_factor'\<rparr>
         | None \<Rightarrow> a)"

definition resourceAlicloudMongoDBInstanceRead :: "provider \<Rightarrow> world \<Rightarrow> error option \<times> world" where
  "resourceAlicloudMongoDBInstanceRead pv w =
     (case DescribeMongoDBInstance_result pv (calls w) (Id (rd w)) of
        Inl err \<Rightarrow>
          (let w1 = issue (DescribeMongoDBInstance (Id (rd w))) w
           in if NotFoundError pv err then (None, onData (SetId []) w1)
              else (Some (WrapError err), w1))
      | Inr instance \<Rightarrow>
          (let w1 = issue (DescribeMongoDBInstance (Id (rd w))) w
           in case DescribeMongoDBBackupPolicy_result pv (calls w1) (Id (rd w1)) of
                Inl err \<Rightarrow> (Some (WrapError err), issue (DescribeMongoDBBackupPolicy (Id (rd w1))) w1)
              | Inr backupPolicy \<Rightarrow>
                  (let w2 = setAttrs (setBackupPolicy pv backupPolicy)
                              (issue (DescribeMongoDBBackupPolicy (Id (rd w1))) w1)
                   in case GetSecurityIps_result pv (calls w2) (Id (rd w2)) of
                        Inl err \<Rightarrow> (Some (WrapError err), issue (GetSecurityIps (Id (rd w2))) w2)
                      | Inr ips \<Rightarrow>
                          (None, setAttrs (setInstance pv instance ips)
                                   (issue (GetSecurityIps (Id (rd w2))) w2)))))"

subsection \<open>resourceAlicloudMongoDBInstanceUpdate\<close>

text \<open>
  Update is a sequence of blocks, one per group of attributes; a block that fails
  returns its error and ends the handler. \<open>andThen\<close> is that sequencing.
\<close>

definition andThen ::
  "error option \<times> world \<Rightarrow> (world \<Rightarrow> error option \<times> world) \<Rightarrow> error option \<times> world" where
  "andThen r k = (case r of (Some err, w) \<Rightarrow> (Some err, w) | (None, w) \<Rightarrow> k w)"

text \<open>A call that returns only an error: issue it and read the answer.\<close>

definition invoke :: "provider \<Rightarrow> call \<Rightarrow> world \<Rightarrow> error option \<times> world" where
  "invoke pv c w = (Invoke_result pv (calls w) c, issue c w)"

text \<open>Block 1: \<^verbatim>\<open>backup_time\<close>, \<^verbatim>\<open>backup_period\<close>.\<close>

definition updateBackupPolicy :: "provider \<Rightarrow> world \<Rightarrow> error option \<times> world" where
  "updateBackupPolicy pv w =
     (if HasChange (rd w) ''backup_time'' \<or> HasChange (rd w) ''backup_period'' then
        (case invoke pv (MotifyMongoDBBackupPolicy (rd w)) w of
           (Some err, w1) \<Rightarrow> (Some (WrapError err), w1)
         | (None, w1) \<Rightarrow>
             (None, onData (SetPartial ''backup_period'') (onData (SetPartial ''backup_time'') w1)))
      else (None, w))"

text \<open>Block 2: \<^verbatim>\<open>maintain_start_time\<close>, \<^verbatim>\<open>maintain_end_time\<close>.\<close>

definition updateMaintainTime :: "provider \<Rightarrow> world \<Rightarrow> error option \<times> world" where
  "updateMaintainTime pv w =
     (if HasChange (rd w) ''maintain_start_time'' \<or> HasChange (rd w) ''maintain_end_time'' then
        (let request = \<lparr>mt_RegionId = client_RegionId pv,
                        mt_DBInstanceId = Id (rd w),
                        mt_MaintainStartTime = maintain_start_time (attrs (rd w)),
                        mt_MaintainEndTime = maintain_end_time (attrs (rd w))\<rparr>
         in case invoke pv (ModifyDBInstanceMaintainTime request) w of
              (Some err, w1) \<Rightarrow>
                (Some (WrapErrorf err [Id (rd w), ''ModifyDBInstanceMaintainTime'']), w1)
            | (None, w1) \<Rightarrow>
                (None, onData (SetPartial ''maintain_end_time'')
                         (onData (SetPartial ''maintain_start_time'') w1)))
      else (None, w))"

text \<open>Block 4: \<^verbatim>\<open>name\<close>.\<close>

definition updateName :: "provider \<Rightarrow> world \<Rightarrow> error option \<times> world" where
  "updateName pv w =
     (if HasChange (rd w) ''name'' then
        (case invoke pv (ModifyDBInstanceDescription (Id (rd w)) (name (attrs (rd w)))) w of
           (Some err, w1) \<Rightarrow>
             (Some (WrapErrorf err [Id (rd w), ''ModifyDBInstanceDescription'']), w1)
         | (None, w1) \<Rightarrow> (None, onData (SetPartial ''name'') w1))
      else (None, w))"

text \<open>Block 5: \<^verbatim>\<open>security_ip_list\<close>. \<open>updateIpString\<close> is the string it submits.\<close>

definition updateIpString :: "provider \<Rightarrow> ResourceData \<Rightarrow> string" where
  "updateIpString pv d =
     (let ipList = expandStringList (security_ip_list (attrs d));
          ipstr = Join ipList (COMMA_SEPARATED pv)
      in if ipstr = [] then LOCAL_HOST_IP pv else ipstr)"

definition updateSecurityIps :: "provider \<Rightarrow> world \<Rightarrow> error option \<times> world" where
  "updateSecurityIps pv w =
     (if HasChange (rd w) ''security_ip_list'' then
        (case invoke pv (ModifyMongoDBSecurityIps (Id (rd w)) (updateIpString pv (rd w))) w of
           (Some err, w1) \<Rightarrow> (Some (WrapError err), w1)
         | (None, w1) \<Rightarrow> (None, onData (SetPartial ''security_ip_list'') w1))
      else (None, w))"

text \<open>
  Block 6: \<^verbatim>\<open>account_password\<close>, \<^verbatim>\<open>kms_encrypted_password\<close>. \<open>updateCredential\<close> is the
  \<^verbatim>\<open>if\<close>/\<^verbatim>\<open>else\<close> that resolves the password: the clear text when it is not empty, the
  decrypted ciphertext otherwise.
\<close>

definition updateCredential :: "provider \<Rightarrow> world \<Rightarrow> (error + string) \<times> world" where
  "updateCredential pv w =
     (let accountPassword = account_password (attrs (rd w))
      in if accountPassword \<noteq> [] then
           (Inr accountPassword, onData (SetPartial ''account_password'') w)
         else
           (let kmsPassword = kms_encrypted_password (attrs (rd w));
                ctx = kms_encryption_context (attrs (rd w))
            in case Decrypt_result pv (calls w) kmsPassword ctx of
                 Inl err \<Rightarrow> (Inl (WrapError err), issue (Decrypt kmsPassword ctx) w)
               | Inr plaintext \<Rightarrow>
                   (Inr plaintext,
                    onData (SetPartial ''kms_encryption_context'')
                      (onData (SetPartial ''kms_encrypted_password'')
                         (issue (Decrypt kmsPassword ctx) w)))))"

definition updateAccountPassword :: "provider \<Rightarrow> world \<Rightarrow> error option \<times> world" where
  "updateAccountPassword pv w =
     (if HasChange (rd w) ''account_password'' \<or> HasChange (rd w) ''kms_encrypted_password'' then
        (case updateCredential pv w of
           (Inl err, w1) \<Rightarrow> (Some err, w1)
         | (Inr accountPassword, w1) \<Rightarrow>
             (case invoke pv (ResetAccountPassword (rd w1) accountPassword) w1 of
                (Some err, w2) \<Rightarrow> (Some (WrapError err), w2)
              | (None, w2) \<Rightarrow> (None, w2)))
      else (None, w))"

text \<open>
  Block 7: \<^verbatim>\<open>db_instance_storage\<close>, \<^verbatim>\<open>db_instance_class\<close>, \<^verbatim>\<open>replication_factor\<close>. One
  state configuration (wait for \<^verbatim>\<open>Running\<close>) is built and used before the request and
  twice after it.
\<close>

definition specStateConf :: "ResourceData \<Rightarrow> StateChangeConf" where
  "specStateConf d =
     BuildStateConf [''DBInstanceClassChanging'', ''DBInstanceNetTypeChanging''] [''Running'']
       (timeoutUpdate d) (1 * minute) (RdsMongodbDBInstanceStateRefreshFunc (Id d) [''Deleting''])"

definition specRequest :: "ResourceData \<Rightarrow> ModifyDBInstanceSpecRequest" where
  "specRequest d =
     \<lparr>spec_DBInstanceId = Id d,
      spec_DBInstanceClass = db_instance_class (attrs d),
      spec_DBInstanceStorage = Itoa (db_instance_storage (attrs d)),
      spec_ReplicationFactor = Itoa (replication_factor (attrs d))\<rparr>"

definition updateSpec :: "provider \<Rightarrow> world \<Rightarrow> error option \<times> world" where
  "updateSpec pv w =
     (if HasChange (rd w) ''db_instance_storage'' \<or> HasChange (rd w) ''db_instance_class'' \<or>
         HasChange (rd w) ''replication_factor'' then
        (let request = specRequest (rd w);
             stateConf = specStateConf (rd w)
         in case invoke pv (WaitForState stateConf) w of
              (Some err, w1) \<Rightarrow> (Some (WrapError err), w1)
            | (None, w1) \<Rightarrow>
                (case invoke pv (ModifyDBInstanceSpec request) w1 of
                   (Some err, w2) \<Rightarrow>
                     (Some (WrapErrorf err [Id (rd w), ''ModifyDBInstanceSpec'']), w2)
                 | (None, w2) \<Rightarrow>
                     (case invoke pv (WaitForState stateConf) w2 of
                        (Some err, w3) \<Rightarrow> (Some (WrapError err), w3)
                      | (None, w3) \<Rightarrow>
                          (let w4 = onData (SetPartial ''replication_factor'')
                                      (onData (SetPartial ''db_instance_storage'')
                                         (onData (SetPartial ''db_instance_class'') w3))
                           in case invoke pv (WaitForState stateConf) w4 of
                                (Some err, w5) \<Rightarrow> (Some (WrapError err), w5)
                              | (None, w5) \<Rightarrow> (None, w5)))))
      else (None, w))"

text \<open>The blocks after the new-resource check, ending with the final Read.\<close>

definition updateExisting :: "provider \<Rightarrow> world \<Rightarrow> error option \<times> world" where
  "updateExisting pv w =
     andThen (updateName pv w) (\<lambda>w.
     andThen (updateSecurityIps pv w) (\<lambda>w.
     andThen (updateAccountPassword pv w) (\<lambda>w.
     andThen (updateSpec pv w) (\<lambda>w.
     resourceAlicloudMongoDBInstanceRead pv (onData (Partial False) w)))))"

definition resourceAlicloudMongoDBInstanceUpdate :: "provider \<Rightarrow> world \<Rightarrow> error option \<times> world" where
  "resourceAlicloudMongoDBInstanceUpdate pv w =
     andThen (updateBackupPolicy pv (onData (Partial True) w)) (\<lambda>w.
     andThen (updateMaintainTime pv w) (\<lambda>w.
     if IsNewResource (rd w)
     then resourceAlicloudMongoDBInstanceRead pv (onData (Partial False) w)
     else updateExisting pv w))"

subsection \<open>resourceAlicloudMongoDBInstanceCreate\<close>

definition createStateConf :: "ResourceData \<Rightarrow> StateChangeConf" where
  "createStateConf d =
     BuildStateConf [''Creating''] [''Running''] (timeoutCreate d) (1 * minute)
       (RdsMongodbDBInstanceStateRefreshFunc (Id d) [''Deleting''])"

definition resourceAlicloudMongoDBInstanceCreate :: "provider \<Rightarrow> world \<Rightarrow> error option \<times> world" where
  "resourceAlicloudMongoDBInstanceCreate pv w =
     (case buildMongoDBCreateRequest pv w of
        (Inl err, w1) \<Rightarrow> (Some (WrapError err), w1)
      | (Inr request, w1) \<Rightarrow>
          (case CreateDBInstance_result pv (calls w1) request of
             Inl err \<Rightarrow>
               (Some (WrapErrorf err [''alicloud_mongodb_instance'', ''CreateDBInstance'']),
                issue (CreateDBInstance request) w1)
           | Inr DBInstanceId \<Rightarrow>
               (let w2 = onData (SetId DBInstanceId) (issue (CreateDBInstance request) w1)
                in case invoke pv (WaitForState (createStateConf (rd w2))) w2 of
                     (Some err, w3) \<Rightarrow> (Some (WrapError err), w3)
                   | (None, w3) \<Rightarrow> resourceAlicloudMongoDBInstanceUpdate pv w3)))"

subsection \<open>resourceAlicloudMongoDBInstanceDelete\<close>

text \<open>
  \<^verbatim>\<open>resource.Retry\<close> around the delete call. The first argument counts the attempts the
  budget still allows; \<open>lastErr\<close> is the error of the previous attempt. The loop ends on
  success, on an error that \<^verbatim>\<open>NotFoundMongoDBInstance\<close> accepts (not retryable), or when
  the budget is used up, with the last error (\<open>RetryTimeout\<close> when there is none).
\<close>

fun retryDelete ::
  "nat \<Rightarrow> provider \<Rightarrow> string \<Rightarrow> error option \<Rightarrow> world \<Rightarrow> error option \<times> world" where
  "retryDelete 0 pv ident lastErr w =
     (case lastErr of None \<Rightarrow> (Some RetryTimeout, w) | Some err \<Rightarrow> (Some err, w))"
| "retryDelete (Suc n) pv ident lastErr w =
     (case invoke pv (DeleteDBInstance ident) w of
        (Some err, w1) \<Rightarrow>
          (if NotFoundMongoDBInstance pv err then (Some err, w1)
           else retryDelete n pv ident (Some err) w1)
      | (None, w1) \<Rightarrow> (None, w1))"

definition deleteStateConf :: "ResourceData \<Rightarrow> StateChangeConf" where
  "deleteStateConf d =
     BuildStateConf [''Creating'', ''Deleting''] [] (timeoutDelete d) (1 * minute)
       (RdsMongodbDBInstanceStateRefreshFunc (Id d) [])"

definition resourceAlicloudMongoDBInstanceDelete :: "provider \<Rightarrow> world \<Rightarrow> error option \<times> world" where
  "resourceAlicloudMongoDBInstanceDelete pv w =
     (case retryDelete (Retry_attempts pv (calls w) (10 * 5 * minute)) pv (Id (rd w)) None w of
        (Some err, w1) \<Rightarrow>
          (if IsExceptedErrors pv err [''InvalidDBInstanceId.NotFound''] then (None, w1)
           else (Some (WrapErrorf err [Id (rd w), ''DeleteDBInstance'']), w1))
      | (None, w1) \<Rightarrow>
          (case invoke pv (WaitForState (deleteStateConf (rd w1))) w1 of
             (Some err, w2) \<Rightarrow> (Some (WrapError err), w2)
           | (None, w2) \<Rightarrow> (None, w2)))"

subsection \<open>What the handlers added to the call list\<close>

definition newCalls :: "world \<Rightarrow> error option \<times> world \<Rightarrow> call list" where
  "newCalls w r = drop (length (calls w)) (calls (snd r))"

fun isReadCall :: "call \<Rightarrow> bool" where
  "isReadCall (DescribeMongoDBInstance i) = True"
| "isReadCall (DescribeMongoDBBackupPolicy i) = True"
| "isReadCall (GetSecurityIps i) = True"
| "isReadCall c = False"

fun isSpecCall :: "call \<Rightarrow> bool" where
  "isSpecCall (ModifyDBInstanceSpec request) = True"
| "isSpecCall c = False"

fun isCreateCall :: "call \<Rightarrow> bool" where
  "isCreateCall (CreateDBInstance request) = True"
| "isCreateCall c = False"

fun isDecryptCall :: "call \<Rightarrow> bool" where
  "isDecryptCall (Decrypt v ctx) = True"
| "isDecryptCall c = False"

fun callName :: "call \<Rightarrow> string" where
  "callName (Decrypt v ctx) = ''Decrypt''"
| "callName (DescribeVSwitch v) = ''DescribeVSwitch''"
| "callName (CreateDBInstance request) = ''CreateDBInstance''"
| "callName (WaitForState conf) = ''WaitForState''"
| "callName (MotifyMongoDBBackupPolicy d) = ''MotifyMongoDBBackupPolicy''"
| "callName (ModifyDBInstanceMaintainTime request) = ''ModifyDBInstanceMaintainTime''"
| "callName (ModifyDBInstanceDescription i v) = ''ModifyDBInstanceDescription''"
| "callName (ModifyMongoDBSecurityIps i v) = ''ModifyMongoDBSecurityIps''"
| "callName (ResetAccountPassword d v) = ''ResetAccountPassword''"
| "callName (ModifyDBInstanceSpec request) = ''ModifyDBInstanceSpec''"
| "callName (DeleteDBInstance i) = ''DeleteDBInstance''"
| "callName (DescribeMongoDBInstance i) = ''DescribeMongoDBInstance''"
| "callName (DescribeMongoDBBackupPolicy i) = ''DescribeMongoDBBackupPolicy''"
| "callName (GetSecurityIps i) = ''GetSecurityIps''"

text \<open>The keys Update looks at with \<^verbatim>\<open>d.HasChange\<close>.\<close>

definition watchedKeys :: "string list" where
  "watchedKeys =
     [''backup_time'', ''backup_period'', ''maintain_start_time'', ''maintain_end_time'',
      ''name'', ''security_ip_list'', ''account_password'', ''kms_encrypted_password'',
      ''db_instance_storage'', ''db_instance_class'', ''replication_factor'']"

text \<open>
  The shape of a first reconciliation's calls: at most one backup policy call, then at
  most one maintenance window call, then calls of Read only.
\<close>

definition onlyReads :: "call list \<Rightarrow> bool" where
  "onlyReads cs = list_all isReadCall cs"

definition afterBackup :: "call list \<Rightarrow> bool" where
  "afterBackup cs =
     (case cs of ModifyDBInstanceMaintainTime request # rest \<Rightarrow> onlyReads rest | _ \<Rightarrow> onlyReads cs)"

definition firstPass :: "call list \<Rightarrow> bool" where
  "firstPass cs =
     (case cs of MotifyMongoDBBackupPolicy d # rest \<Rightarrow> afterBackup rest | _ \<Rightarrow> afterBackup cs)"

text \<open>
  The first reconciliation as the specification words it: the backup window, the
  maintenance window, then a Read. It is compared with Update on a new resource.
\<close>

definition firstReconciliation :: "provider \<Rightarrow> world \<Rightarrow> error option \<times> world" where
  "firstReconciliation pv w =
     andThen (updateBackupPolicy pv (onData (Partial True) w)) (\<lambda>w.
     andThen (updateMaintainTime pv w) (\<lambda>w.
     resourceAlicloudMongoDBInstanceRead pv (onData (Partial False) w)))"

text \<open>
  The credential block of the builder does not fail: it returns a request, whatever
  request it was given.
\<close>

definition credentialResolved :: "provider \<Rightarrow> world \<Rightarrow> bool" where
  "credentialResolved pv w =
     (case fst (createCredential pv CreateCreateDBInstanceRequest w) of
        Inl err \<Rightarrow> False | Inr request \<Rightarrow> True)"

text \<open>A request that carries the subnet, its network and the VPC network type.\<close>

definition adoptsNetwork :: "provider \<Rightarrow> world \<Rightarrow> VSwitch \<Rightarrow> CreateDBInstanceRequest \<Rightarrow> bool" where
  "adoptsNetwork pv w vsw request =
     (VSwitchId request = Trim pv (vswitch_id (attrs (rd w))) \<and>
      VpcId request = vsw_VpcId vsw \<and>
      NetworkType request = ToUpper (Vpc pv))"

text \<open>
  The delete calls of a Delete that starts after the calls \<open>h\<close>: \<open>retried\<close> says that
  the first \<open>k\<close> of them fail with errors that \<^verbatim>\<open>NotFoundMongoDBInstance\<close> does not
  accept, and \<open>deleteAnswer\<close> is the answer to the one after \<open>k\<close> of them.
\<close>

fun retried :: "provider \<Rightarrow> string \<Rightarrow> call list \<Rightarrow> nat \<Rightarrow> bool" where
  "retried pv ident h 0 = True"
| "retried pv ident h (Suc k) =
     ((case Invoke_result pv h (DeleteDBInstance ident) of
         None \<Rightarrow> False
       | Some err \<Rightarrow> \<not> NotFoundMongoDBInstance pv err) \<and>
      retried pv ident (h @ [DeleteDBInstance ident]) k)"

definition deleteAnswer :: "provider \<Rightarrow> world \<Rightarrow> nat \<Rightarrow> error option" where
  "deleteAnswer pv w k =
     Invoke_result pv (calls w @ replicate k (DeleteDBInstance (Id (rd w)))) (DeleteDBInstance (Id (rd w)))"

fun isDeleteCall :: "call \<Rightarrow> bool" where
  "isDeleteCall (DeleteDBInstance i) = True"
| "isDeleteCall c = False"

text \<open>
  The modify-spec call between its waits. \<open>specGuarded pv h cs\<close> reads the calls \<open>cs\<close>
  issued after the calls \<open>h\<close>: every \<^verbatim>\<open>ModifyDBInstanceSpec\<close> call stands right after a
  wait for \<^verbatim>\<open>Running\<close> that returned no error and, when the service accepted it,
  right before another wait for \<^verbatim>\<open>Running\<close>.
\<close>

fun isRunningWait :: "call \<Rightarrow> bool" where
  "isRunningWait (WaitForState conf) = (Target conf = [''Running''])"
| "isRunningWait c = False"

definition precededByWait :: "provider \<Rightarrow> call list \<Rightarrow> bool" where
  "precededByWait pv h =
     (case rev h of [] \<Rightarrow> False
      | c # before \<Rightarrow> isRunningWait c \<and> Invoke_result pv (rev before) c = None)"

definition nextIsWait :: "call list \<Rightarrow> bool" where
  "nextIsWait cs = (case cs of [] \<Rightarrow> False | c # rest \<Rightarrow> isRunningWait c)"

fun specGuarded :: "provider \<Rightarrow> call list \<Rightarrow> call list \<Rightarrow> bool" where
  "specGuarded pv h [] = True"
| "specGuarded pv h (c # cs) =
     ((if isSpecCall c
       then precededByWait pv h \<and> (if Invoke_result pv h c = None then nextIsWait cs else True)
       else True) \<and>
      specGuarded pv (h @ [c]) cs)"

definition guarded :: "provider \<Rightarrow> world \<Rightarrow> world \<Rightarrow> bool" where
  "guarded pv w w' = (\<exists>S. calls w' = calls w @ S \<and> specGuarded pv (calls w) S)"

text \<open>A handler step that only adds calls, none of them a modify-spec call.\<close>

definition noSpec :: "world \<Rightarrow> world \<Rightarrow> bool" where
  "noSpec w w' = (\<exists>S. calls w' = calls w @ S \<and> list_all (\<lambda>c. \<not> isSpecCall c) S)"

text \<open>
  The identifier across a handler. \<open>absentSeen pv h\<close>: the last of the calls \<open>h\<close> is an
  instance lookup, and it failed with an error that \<^verbatim>\<open>NotFoundError\<close> accepts.
  \<open>idKept pv w r\<close>: the outcome \<open>r\<close> of a handler started in \<open>w\<close> has the identifier of
  \<open>w\<close>, or the handler returned no error, the identifier is cleared and the handler's
  last call was such a lookup.
\<close>

definition absentSeen :: "provider \<Rightarrow> call list \<Rightarrow> bool" where
  "absentSeen pv h =
     (case rev h of [] \<Rightarrow> False
      | c # before \<Rightarrow>
          (case c of
             DescribeMongoDBInstance i \<Rightarrow>
               (case DescribeMongoDBInstance_result pv (rev before) i of
                  Inl err \<Rightarrow> NotFoundError pv err
                | Inr instance \<Rightarrow> False)
           | _ \<Rightarrow> False))"

definition idKept :: "provider \<Rightarrow> world \<Rightarrow> error option \<times> world \<Rightarrow> bool" where
  "idKept pv w r =
     (Id (rd (snd r)) = Id (rd w) \<or>
      (fst r = None \<and> Id (rd (snd r)) = [] \<and> absentSeen pv (calls (snd r))))"

text \<open>
  The blocks of Update that run before the capacity block on a stored resource, in the
  order of the source: backup window, maintenance window, name, allowed IPs, password.
  \<open>sameResource\<close> relates two worlds whose resource data agree on everything the
  capacity block reads.
\<close>

definition updateBeforeSpec :: "provider \<Rightarrow> world \<Rightarrow> error option \<times> world" where
  "updateBeforeSpec pv w =
     andThen (updateBackupPolicy pv (onData (Partial True) w)) (\<lambda>w.
     andThen (updateMaintainTime pv w) (\<lambda>w.
     andThen (updateName pv w) (\<lambda>w.
     andThen (updateSecurityIps pv w) (\<lambda>w.
     updateAccountPassword pv w))))"

definition sameResource :: "world \<Rightarrow> world \<Rightarrow> bool" where
  "sameResource w w' =
     (Id (rd w') = Id (rd w) \<and> attrs (rd w') = attrs (rd w) \<and> changed (rd w') = changed (rd w) \<and>
      isNew (rd w') = isNew (rd w) \<and> timeoutUpdate (rd w') = timeoutUpdate (rd w))"

subsection \<open>A concrete provider and resource\<close>

text \<open>
  A provider whose services always succeed, and a stored resource with nothing to
  change; the examples below vary them.
\<close>

definition trimSpaces :: "string \<Rightarrow> string" where
  "trimSpaces s = rev (dropWhile (\<lambda>c. c = CHR '' '') (rev (dropWhile (\<lambda>c. c = CHR '' '') s)))"

fun errorCode :: "error \<Rightarrow> string" where
  "errorCode (RemoteError code msg) = code"
| "errorCode (Wrapped e) = errorCode e"
| "errorCode (WrappedMsg e args) = errorCode e"
| "errorCode e = []"

definition exampleInstance :: DBInstance where
  "exampleInstance =
     \<lparr>inst_DBInstanceDescription = ''orders'', inst_EngineVersion = ''4.0'',
      inst_DBInstanceClass = ''dds.mongo.mid'', inst_DBInstanceStorage = 10,
      inst_ZoneId = ''cn-hangzhou-b'', inst_ChargeType = ''PostPaid'',
      inst_VSwitchId = ''vsw-A'', inst_StorageEngine = ''WiredTiger'',
      inst_MaintainStartTime = ''02:00Z'', inst_MaintainEndTime = ''03:00Z'',
      inst_ReplicationFactor = ''3''\<rparr>"

definition exampleProvider :: provider where
  "exampleProvider =
     \<lparr>client_Region = ''cn-hangzhou'', client_RegionId = ''cn-hangzhou'',
      MULTI_IZ_SYMBOL = ''MAZ'', LOCAL_HOST_IP = ''127.0.0.1'', COMMA_SEPARATED = '','',
      Classic = ''Classic'', Vpc = ''Vpc'', PrePaid = ''PrePaid'',
      Trim = trimSpaces,
      buildClientToken = (\<lambda>action. ''token-'' @ action),
      NotFoundError = (\<lambda>e. errorCode e = ''InvalidDBInstanceId.NotFound''),
      NotFoundMongoDBInstance = (\<lambda>e. errorCode e = ''InvalidDBInstanceId.NotFound''),
      IsExceptedErrors = (\<lambda>e codes. errorCode e \<in> set codes),
      Decrypt_result = (\<lambda>h v ctx. Inr (''plain:'' @ v)),
      DescribeVSwitch_result =
        (\<lambda>h v. Inr \<lparr>vsw_ZoneId = ''cn-hangzhou-b'', vsw_VSwitchId = v, vsw_VpcId = ''vpc-1''\<rparr>),
      CreateDBInstance_result = (\<lambda>h request. Inr ''dds-new''),
      DescribeMongoDBInstance_result = (\<lambda>h i. Inr exampleInstance),
      DescribeMongoDBBackupPolicy_result =
        (\<lambda>h i. Inr \<lparr>PreferredBackupTime = ''23:00Z-24:00Z'',
                     PreferredBackupPeriod = ''Monday,Friday'', BackupRetentionPeriod = ''7''\<rparr>),
      GetSecurityIps_result = (\<lambda>h i. Inr [''10.0.0.1'']),
      Invoke_result = (\<lambda>h c. None),
      Retry_attempts = (\<lambda>h budget. budget div 600),
      SetList = remdups\<rparr>"

definition exampleAttrs :: attributes where
  "exampleAttrs =
     \<lparr>engine_version = ''4.0'', db_instance_class = ''dds.mongo.mid'', db_instance_storage = 10,
      replication_factor = 3, storage_engine = ''WiredTiger'', instance_charge_type = ''PostPaid'',
      period = 0, zone_id = [], vswitch_id = ''vsw-A'', name = ''orders'',
      security_ip_list = [], account_password = ''secret'', kms_encrypted_password = [],
      kms_encryption_context = [], backup_period = [''Monday''], backup_time = ''23:00Z-24:00Z'',
      retention_period = 7, maintain_start_time = ''02:00Z'', maintain_end_time = ''03:00Z''\<rparr>"

definition exampleData :: ResourceData where
  "exampleData =
     \<lparr>Id = ''dds-1'', attrs = exampleAttrs, changed = [], isNew = False, partial = False,
      partialMap = [], timeoutCreate = 1800, timeoutUpdate = 1800, timeoutDelete = 1800\<rparr>"

definition exampleWorld :: world where
  "exampleWorld = \<lparr>rd = exampleData, calls = []\<rparr>"

definition busy :: error where
  "busy = RemoteError ''OperationDenied.DBInstanceStatus'' ''the instance is busy''"

definition gone :: error where
  "gone = RemoteError ''InvalidDBInstanceId.NotFound'' ''no such instance''"

text \<open>A configuration with no clear-text password and a KMS ciphertext.\<close>

definition kmsWorld :: world where
  "kmsWorld =
     setAttrs (\<lambda>a. a\<lparr>account_password := [], kms_encrypted_password := ''AQICAHh''\<rparr>) exampleWorld"

text \<open>A resource right after Create, with a backup time, a name and a storage size to apply.\<close>

definition freshWorld :: world where
  "freshWorld =
     onData (\<lambda>d. d\<lparr>isNew := True, changed := [''backup_time'', ''name'', ''db_instance_storage'']\<rparr>)
       exampleWorld"

text \<open>The subnet of the examples, and configurations that declare a zone.\<close>

definition exampleVSwitch :: VSwitch where
  "exampleVSwitch = \<lparr>vsw_ZoneId = ''cn-hangzhou-b'', vsw_VSwitchId = ''vsw-A'', vsw_VpcId = ''vpc-1''\<rparr>"

definition multiZoneWorld :: world where
  "multiZoneWorld = setAttrs (\<lambda>a. a\<lparr>zone_id := ''cn-hangzhou-MAZ1(b,c)''\<rparr>) exampleWorld"

definition plainZoneWorld :: world where
  "plainZoneWorld = setAttrs (\<lambda>a. a\<lparr>zone_id := ''cn-hangzhou-c''\<rparr>) exampleWorld"

text \<open>Changed allowed-IP sets: empty, two addresses, and the empty string alone.\<close>

definition emptyIpWorld :: world where
  "emptyIpWorld = onData (\<lambda>d. d\<lparr>changed := [''security_ip_list'']\<rparr>) exampleWorld"

definition ipWorld :: world where
  "ipWorld = setAttrs (\<lambda>a. a\<lparr>security_ip_list := [''10.0.0.1'', ''10.0.0.2'']\<rparr>) emptyIpWorld"

definition blankIpWorld :: world where
  "blankIpWorld = setAttrs (\<lambda>a. a\<lparr>security_ip_list := [[]]\<rparr>) emptyIpWorld"

text \<open>The two addresses on a resource whose subnet lies outside its declared zone.\<close>

definition ipMismatchWorld :: world where
  "ipMismatchWorld = setAttrs (\<lambda>a. a\<lparr>zone_id := ''cn-hangzhou-c''\<rparr>) ipWorld"

text \<open>
  Providers whose lookups fail: the instance is gone, the instance lookup is refused,
  the backup policy lookup reports the instance gone.
\<close>

definition absentProvider :: provider where
  "absentProvider = exampleProvider\<lparr>DescribeMongoDBInstance_result := (\<lambda>h i. Inl gone)\<rparr>"

definition busyProvider :: provider where
  "busyProvider = exampleProvider\<lparr>DescribeMongoDBInstance_result := (\<lambda>h i. Inl busy)\<rparr>"

definition policyGoneProvider :: provider where
  "policyGoneProvider = exampleProvider\<lparr>DescribeMongoDBBackupPolicy_result := (\<lambda>h i. Inl gone)\<rparr>"

text \<open>A provider that refuses the first two delete calls and reports the instance gone at the third.\<close>

definition staleProvider :: provider where
  "staleProvider =
     exampleProvider\<lparr>Invoke_result :=
       (\<lambda>h c. if isDeleteCall c
              then (if length (filter isDeleteCall h) < 2 then Some busy else Some gone)
              else None)\<rparr>"

text \<open>A changed storage size, and a provider whose every wait times out.\<close>

definition waitTimeout :: error where
  "waitTimeout = Errorf ''timeout while waiting for state to become 'Running' '' []"

definition timeoutProvider :: provider where
  "timeoutProvider =
     exampleProvider\<lparr>Invoke_result := (\<lambda>h c. if callName c = ''WaitForState'' then Some waitTimeout else None)\<rparr>"

definition resizeWorld :: world where
  "resizeWorld =
     setAttrs (\<lambda>a. a\<lparr>db_instance_storage := 20\<rparr>)
       (onData (\<lambda>d. d\<lparr>changed := [''db_instance_storage'']\<rparr>) exampleWorld)"

text \<open>A resource the framework hands to Create: no identifier yet, marked new.\<close>

definition createWorld :: world where
  "createWorld = onData (\<lambda>d. d\<lparr>Id := [], isNew := True\<rparr>) exampleWorld"

text \<open>
  A changed name together with a changed storage size; providers that refuse the name
  change and the spec change.
\<close>

definition nameRejectProvider :: provider where
  "nameRejectProvider =
     exampleProvider\<lparr>Invoke_result :=
       (\<lambda>h c. if callName c = ''ModifyDBInstanceDescription'' then Some busy else None)\<rparr>"

definition specRejectProvider :: provider where
  "specRejectProvider =
     exampleProvider\<lparr>Invoke_result :=
       (\<lambda>h c. if callName c = ''ModifyDBInstanceSpec'' then Some busy else None)\<rparr>"

definition renameResizeWorld :: world where
  "renameResizeWorld =
     setAttrs (\<lambda>a. a\<lparr>db_instance_storage := 20, name := ''billing''\<rparr>)
       (onData (\<lambda>d. d\<lparr>changed := [''name'', ''db_instance_storage'']\<rparr>) exampleWorld)"

text \<open>
  A configuration with neither a password nor a ciphertext whose subnet lies outside
  its declared zone, and a decryption service that refuses the empty ciphertext.
\<close>

definition emptyCiphertext :: error where
  "emptyCiphertext = RemoteError ''InvalidParameter'' ''the ciphertext is empty''"

definition strictKmsProvider :: provider where
  "strictKmsProvider =
     exampleProvider\<lparr>Decrypt_result :=
       (\<lambda>h v ctx. if v = [] then Inl emptyCiphertext else Inr (''plain:'' @ v))\<rparr>"

definition bareZoneWorld :: world where
  "bareZoneWorld =
     setAttrs (\<lambda>a. a\<lparr>account_password := [], zone_id := ''cn-hangzhou-c''\<rparr>) createWorld"

section \<open>Properties\<close>

subsection \<open>The credential of the create request and of the password reset\<close>

text \<open>
  C1. The policy is: the clear-text password when there is one, else the decrypted KMS
  ciphertext when there is one, else nothing and no decryption. The create request
  departs from it: with no clear-text password and a ciphertext present, the guard
  \<^verbatim>\<open>v == ""\<close> skips the decryption, so the request carries an empty password and no
  call is issued. The theorem states what the code does there.
\<close>

theorem create_credential_skips_ciphertext:
  assumes "account_password (attrs (rd w)) = []"
    and "kms_encrypted_password (attrs (rd w)) \<noteq> []"
  shows "createCredential pv request w = (Inr (request\<lparr>AccountPassword := []\<rparr>), w)"
  using assms by (simp add: createCredential_def Let_def)

theorem create_credential_skips_ciphertext_witness:
  "account_password (attrs (rd kmsWorld)) = [] \<and>
   kms_encrypted_password (attrs (rd kmsWorld)) \<noteq> [] \<and>
   createCredential exampleProvider CreateCreateDBInstanceRequest kmsWorld =
     (Inr (CreateCreateDBInstanceRequest\<lparr>AccountPassword := []\<rparr>), kmsWorld)"
proof -
  have h1: "account_password (attrs (rd kmsWorld)) = []"
    by (simp add: kmsWorld_def setAttrs_def)
  have h2: "kms_encrypted_password (attrs (rd kmsWorld)) \<noteq> []"
    by (simp add: kmsWorld_def setAttrs_def)
  show ?thesis
    using h1 h2 create_credential_skips_ciphertext [OF h1 h2] by simp
qed

text \<open>The whole builder at that configuration: an empty password, and only the subnet lookup.\<close>

lemma build_with_ciphertext_only:
  "map_sum id AccountPassword (fst (buildMongoDBCreateRequest exampleProvider kmsWorld)) = Inr [] \<and>
   calls (snd (buildMongoDBCreateRequest exampleProvider kmsWorld)) = [DescribeVSwitch ''vsw-A''] \<and>
   filter isDecryptCall (calls (snd (buildMongoDBCreateRequest exampleProvider kmsWorld))) = []"
  by (simp add: buildMongoDBCreateRequest_def createCredential_def createNetwork_def checkZone_def
      createBillingAndIps_def kmsWorld_def setAttrs_def exampleWorld_def exampleData_def
      exampleAttrs_def exampleProvider_def issue_def trimSpaces_def Let_def
      CreateCreateDBInstanceRequest_def)

text \<open>
  With neither a password nor a ciphertext the create request does call the decryption
  service, on the empty ciphertext.
\<close>

lemma create_credential_decrypts_nothing:
  assumes "account_password (attrs (rd w)) = []"
    and "kms_encrypted_password (attrs (rd w)) = []"
  shows "calls (snd (createCredential pv request w)) =
           calls w @ [Decrypt [] (kms_encryption_context (attrs (rd w)))]"
  using assms by (simp add: createCredential_def Let_def issue_def split: sum.splits)

text \<open>
  The password reset of Update follows the policy where the create request does not: a
  clear-text password is used without a call, and without one the ciphertext is
  decrypted.
\<close>

lemma update_credential_clear_text:
  assumes "account_password (attrs (rd w)) \<noteq> []"
  shows "fst (updateCredential pv w) = Inr (account_password (attrs (rd w))) \<and>
         calls (snd (updateCredential pv w)) = calls w"
  using assms by (simp add: updateCredential_def Let_def onData_def)

lemma update_credential_decrypts:
  assumes "account_password (attrs (rd w)) = []"
    and "Decrypt_result pv (calls w) (kms_encrypted_password (attrs (rd w)))
           (kms_encryption_context (attrs (rd w))) = Inr plaintext"
  shows "fst (updateCredential pv w) = Inr plaintext"
  using assms by (simp add: updateCredential_def Let_def)

subsection \<open>Update without changes\<close>

lemma HasChange_Partial [simp]: "HasChange (Partial on d) k = HasChange d k"
  by (simp add: HasChange_def Partial_def)

lemma read_calls:
  "\<exists>cs. calls (snd (resourceAlicloudMongoDBInstanceRead pv w)) = calls w @ cs \<and> list_all isReadCall cs"
  by (simp add: resourceAlicloudMongoDBInstanceRead_def issue_def onData_def setAttrs_def Let_def
      split: sum.splits)

lemma read_newCalls: "list_all isReadCall (newCalls w (resourceAlicloudMongoDBInstanceRead pv w))"
proof -
  obtain cs where "calls (snd (resourceAlicloudMongoDBInstanceRead pv w)) = calls w @ cs"
    and "list_all isReadCall cs"
    using read_calls by blast
  then show ?thesis by (simp add: newCalls_def)
qed

text \<open>
  C8. When none of the watched keys has a change, Update issues no call of its own: it
  is the final Read (between switching the partial mode on and off), and every call
  issued is one of Read's three lookups. This holds for a new resource as well as for
  a stored one.
\<close>

theorem update_without_changes:
  assumes "set (changed (rd w)) \<inter> set watchedKeys = {}"
  shows "resourceAlicloudMongoDBInstanceUpdate pv w =
           resourceAlicloudMongoDBInstanceRead pv (onData (Partial False) (onData (Partial True) w)) \<and>
         list_all isReadCall (newCalls w (resourceAlicloudMongoDBInstanceUpdate pv w))"
proof -
  have no: "\<And>k. k \<in> set watchedKeys \<Longrightarrow> \<not> HasChange (rd w) k"
    using assms by (auto simp: HasChange_def)
  have eq: "resourceAlicloudMongoDBInstanceUpdate pv w =
           resourceAlicloudMongoDBInstanceRead pv (onData (Partial False) (onData (Partial True) w))"
    using no
    by (simp add: resourceAlicloudMongoDBInstanceUpdate_def updateExisting_def andThen_def
        updateBackupPolicy_def updateMaintainTime_def updateName_def updateSecurityIps_def
        updateAccountPassword_def updateSpec_def watchedKeys_def onData_def)
  have "calls (onData (Partial False) (onData (Partial True) w)) = calls w"
    by (simp add: onData_def)
  then have "newCalls w (resourceAlicloudMongoDBInstanceUpdate pv w) =
     newCalls (onData (Partial False) (onData (Partial True) w))
       (resourceAlicloudMongoDBInstanceRead pv (onData (Partial False) (onData (Partial True) w)))"
    by (simp add: eq newCalls_def)
  then show ?thesis using eq read_newCalls by simp
qed

theorem update_without_changes_witness:
  "set (changed (rd exampleWorld)) \<inter> set watchedKeys = {} \<and>
   \<not> IsNewResource (rd exampleWorld) \<and>
   resourceAlicloudMongoDBInstanceUpdate exampleProvider exampleWorld =
     resourceAlicloudMongoDBInstanceRead exampleProvider
       (onData (Partial False) (onData (Partial True) exampleWorld)) \<and>
   list_all isReadCall (newCalls exampleWorld (resourceAlicloudMongoDBInstanceUpdate exampleProvider exampleWorld))"
proof -
  have h: "set (changed (rd exampleWorld)) \<inter> set watchedKeys = {}"
    by (simp add: exampleWorld_def exampleData_def)
  have n: "\<not> IsNewResource (rd exampleWorld)"
    by (simp add: exampleWorld_def exampleData_def IsNewResource_def)
  show ?thesis
    using h n update_without_changes [OF h, of exampleProvider] by blast
qed

text \<open>The calls of that run.\<close>

lemma update_example_calls:
  "newCalls exampleWorld (resourceAlicloudMongoDBInstanceUpdate exampleProvider exampleWorld) =
     [DescribeMongoDBInstance ''dds-1'', DescribeMongoDBBackupPolicy ''dds-1'', GetSecurityIps ''dds-1'']"
  by (simp add: resourceAlicloudMongoDBInstanceUpdate_def updateExisting_def andThen_def
        updateBackupPolicy_def updateMaintainTime_def updateName_def updateSecurityIps_def
        updateAccountPassword_def updateSpec_def onData_def newCalls_def
        resourceAlicloudMongoDBInstanceRead_def issue_def setAttrs_def Let_def
        exampleWorld_def exampleData_def exampleProvider_def HasChange_def IsNewResource_def
        Partial_def)


subsection \<open>The first reconciliation\<close>

lemma backup_calls:
  "calls (snd (updateBackupPolicy pv w)) = calls w \<or>
   calls (snd (updateBackupPolicy pv w)) = calls w @ [MotifyMongoDBBackupPolicy (rd w)]"
  by (simp add: updateBackupPolicy_def invoke_def issue_def onData_def split: option.splits)

lemma maintain_calls:
  "calls (snd (updateMaintainTime pv w)) = calls w \<or>
   (\<exists>request. calls (snd (updateMaintainTime pv w)) = calls w @ [ModifyDBInstanceMaintainTime request])"
  by (simp add: updateMaintainTime_def invoke_def issue_def onData_def Let_def split: option.splits)

lemma backup_isNew: "isNew (rd (snd (updateBackupPolicy pv w))) = isNew (rd w)"
  by (simp add: updateBackupPolicy_def invoke_def issue_def onData_def SetPartial_def split: option.splits)

lemma maintain_isNew: "isNew (rd (snd (updateMaintainTime pv w))) = isNew (rd w)"
  by (simp add: updateMaintainTime_def invoke_def issue_def onData_def SetPartial_def Let_def split: option.splits)

lemma update_new_eq:
  assumes "IsNewResource (rd w)"
  shows "resourceAlicloudMongoDBInstanceUpdate pv w = firstReconciliation pv w"
proof -
  have 1: "isNew (rd (snd (updateBackupPolicy pv (onData (Partial True) w))))"
    using assms by (simp add: backup_isNew IsNewResource_def onData_def Partial_def)
  show ?thesis
    unfolding resourceAlicloudMongoDBInstanceUpdate_def firstReconciliation_def
    using 1
    by (cases "updateBackupPolicy pv (onData (Partial True) w)";
        cases "fst (updateBackupPolicy pv (onData (Partial True) w))")
       (auto simp: andThen_def IsNewResource_def maintain_isNew split: prod.splits option.splits
          dest: arg_cong [where f = "\<lambda>r. isNew (rd (snd r))"])
qed


lemma onlyReads_afterBackup: "onlyReads rs \<Longrightarrow> afterBackup rs"
  by (cases rs) (auto simp: afterBackup_def onlyReads_def split: call.splits)

lemma afterBackup_firstPass: "afterBackup cs \<Longrightarrow> firstPass cs"
  by (cases cs) (auto simp: firstPass_def afterBackup_def onlyReads_def split: call.splits)

lemma firstPass_compose:
  assumes "bs = [] \<or> (\<exists>d. bs = [MotifyMongoDBBackupPolicy d])"
    and "ms = [] \<or> (\<exists>request. ms = [ModifyDBInstanceMaintainTime request])"
    and "onlyReads rs"
  shows "firstPass (bs @ ms @ rs)"
proof -
  have 1: "afterBackup rs" using assms(3) by (rule onlyReads_afterBackup)
  have 2: "firstPass rs" using 1 by (rule afterBackup_firstPass)
  have 3: "afterBackup (ms @ rs)"
  proof (cases "ms = []")
    case True
    then show ?thesis using 1 by simp
  next
    case False
    then obtain request where "ms = [ModifyDBInstanceMaintainTime request]"
      using assms(2) by auto
    then show ?thesis using assms(3) by (simp add: afterBackup_def)
  qed
  have 4: "firstPass (ms @ rs)" using 3 by (rule afterBackup_firstPass)
  show ?thesis
  proof (cases "bs = []")
    case True
    then show ?thesis using 4 by simp
  next
    case False
    then obtain d where "bs = [MotifyMongoDBBackupPolicy d]"
      using assms(1) by auto
    then show ?thesis using 3 by (simp add: firstPass_def)
  qed
qed

lemma backup_calls_ex:
  "\<exists>bs. calls (snd (updateBackupPolicy pv w)) = calls w @ bs \<and>
        (bs = [] \<or> (\<exists>d. bs = [MotifyMongoDBBackupPolicy d]))"
  using backup_calls [of pv w] by auto

lemma maintain_calls_ex:
  "\<exists>ms. calls (snd (updateMaintainTime pv w)) = calls w @ ms \<and>
        (ms = [] \<or> (\<exists>request. ms = [ModifyDBInstanceMaintainTime request]))"
  using maintain_calls [of pv w] by auto

lemma firstReconciliation_calls: "firstPass (newCalls w (firstReconciliation pv w))"
proof -
  let ?w0 = "onData (Partial True) w"
  let ?r1 = "updateBackupPolicy pv ?w0"
  let ?w1 = "snd ?r1"
  let ?r2 = "updateMaintainTime pv ?w1"
  let ?w2 = "onData (Partial False) (snd ?r2)"
  let ?r3 = "resourceAlicloudMongoDBInstanceRead pv ?w2"
  have c0: "calls ?w0 = calls w" by (simp add: onData_def)
  have c2: "calls ?w2 = calls (snd ?r2)" by (simp add: onData_def)
  obtain bs where bs: "calls ?w1 = calls w @ bs"
    and bsf: "bs = [] \<or> (\<exists>d. bs = [MotifyMongoDBBackupPolicy d])"
    using backup_calls_ex [of pv ?w0] c0 by auto
  obtain ms where ms: "calls (snd ?r2) = calls w @ bs @ ms"
    and msf: "ms = [] \<or> (\<exists>request. ms = [ModifyDBInstanceMaintainTime request])"
    using maintain_calls_ex [of pv ?w1] bs by auto
  obtain rs where rs: "calls (snd ?r3) = calls w @ bs @ ms @ rs" and reads: "onlyReads rs"
    using read_calls [of pv ?w2] c2 ms by (auto simp: onlyReads_def)
  have none: "onlyReads []" by (simp add: onlyReads_def)
  show ?thesis
  proof (cases "fst ?r1")
    case (Some e)
    then have "firstReconciliation pv w = ?r1"
      by (cases ?r1) (simp add: firstReconciliation_def andThen_def)
    then show ?thesis
      using firstPass_compose [OF bsf _ none, of "[]"] bs by (simp add: newCalls_def)
  next
    case None
    then have e1: "firstReconciliation pv w =
        andThen ?r2 (\<lambda>w. resourceAlicloudMongoDBInstanceRead pv (onData (Partial False) w))"
      by (cases ?r1) (simp add: firstReconciliation_def andThen_def)
    show ?thesis
    proof (cases "fst ?r2")
      case (Some e)
      then have "firstReconciliation pv w = ?r2"
        using e1 by (cases ?r2) (simp add: andThen_def)
      then show ?thesis
        using firstPass_compose [OF bsf msf none] ms by (simp add: newCalls_def)
    next
      case None
      then have "firstReconciliation pv w = ?r3"
        using e1 by (cases ?r2) (simp add: andThen_def)
      then show ?thesis
        using firstPass_compose [OF bsf msf reads] rs by (simp add: newCalls_def)
    qed
  qed
qed

text \<open>
  C9. On a new resource (the first reconciliation, right after Create) Update is the
  backup window block, the maintenance window block and a Read: its calls are at most
  one backup policy call, at most one maintenance window call, then lookups of Read.
  The name, allowed-IP, credential and capacity blocks issue nothing.
\<close>

theorem update_new_resource:
  assumes "IsNewResource (rd w)"
  shows "resourceAlicloudMongoDBInstanceUpdate pv w = firstReconciliation pv w \<and>
         firstPass (newCalls w (resourceAlicloudMongoDBInstanceUpdate pv w))"
  using update_new_eq [OF assms] firstReconciliation_calls by simp

theorem update_new_resource_witness:
  "IsNewResource (rd freshWorld) \<and>
   resourceAlicloudMongoDBInstanceUpdate exampleProvider freshWorld =
     firstReconciliation exampleProvider freshWorld \<and>
   firstPass (newCalls freshWorld (resourceAlicloudMongoDBInstanceUpdate exampleProvider freshWorld))"
proof -
  have h: "IsNewResource (rd freshWorld)"
    by (simp add: freshWorld_def onData_def IsNewResource_def)
  show ?thesis
    using h update_new_resource [OF h, of exampleProvider] by blast
qed

text \<open>The calls of that run: the changed name and storage size are not submitted.\<close>

lemma update_new_example_calls:
  "map callName (newCalls freshWorld (resourceAlicloudMongoDBInstanceUpdate exampleProvider freshWorld)) =
     [''MotifyMongoDBBackupPolicy'', ''DescribeMongoDBInstance'', ''DescribeMongoDBBackupPolicy'',
      ''GetSecurityIps'']"
  by (simp add: resourceAlicloudMongoDBInstanceUpdate_def andThen_def invoke_def
        updateBackupPolicy_def updateMaintainTime_def onData_def newCalls_def
        resourceAlicloudMongoDBInstanceRead_def issue_def setAttrs_def Let_def
        freshWorld_def exampleWorld_def exampleData_def exampleProvider_def HasChange_def
        IsNewResource_def Partial_def SetPartial_def)

subsection \<open>The builder, block by block\<close>

lemma createCredential_resolved:
  assumes "credentialResolved pv w"
  shows "\<exists>pw w1. createCredential pv request w = (Inr (request\<lparr>AccountPassword := pw\<rparr>), w1) \<and>
                  rd w1 = rd w"
  using assms
  by (auto simp: credentialResolved_def createCredential_def Let_def issue_def split: sum.splits if_splits)

lemma createCredential_rd: "rd (snd (createCredential pv request w)) = rd w"
  by (simp add: createCredential_def Let_def issue_def split: sum.splits)

lemma createNetwork_rd: "rd (snd (createNetwork pv request w)) = rd w"
  by (simp add: createNetwork_def Let_def issue_def split: sum.splits)

lemma build_Inr:
  assumes "fst (buildMongoDBCreateRequest pv w) = Inr request"
  shows "\<exists>r. request = createBillingAndIps pv r (rd w)"
proof -
  obtain r0 where r0: "buildMongoDBCreateRequest pv w =
     (case createCredential pv r0 w of
           (Inl err, w1) \<Rightarrow> (Inl err, w1)
         | (Inr request, w1) \<Rightarrow>
             (let request = request\<lparr>ZoneId := zone_id (attrs (rd w)), StorageEngine := storage_engine (attrs (rd w))\<rparr>;
                  request = (if replication_factor (attrs (rd w)) \<noteq> 0
                             then request\<lparr>ReplicationFactor := Itoa (replication_factor (attrs (rd w)))\<rparr>
                             else request)
              in case createNetwork pv request w1 of
                   (Inl err, w2) \<Rightarrow> (Inl err, w2)
                 | (Inr request, w2) \<Rightarrow> (Inr (createBillingAndIps pv request (rd w2)), w2)))"
    by (simp add: buildMongoDBCreateRequest_def Let_def)
  show ?thesis
    using assms createCredential_rd [of pv r0 w]
    apply (simp add: r0 Let_def split: prod.splits sum.splits if_splits)
    using createNetwork_rd
    apply (metis snd_conv)+
    done
qed


subsection \<open>The allowed-IP string\<close>

lemma createBillingAndIps_SecurityIPList:
  "SecurityIPList (createBillingAndIps pv r d) =
     (if security_ip_list (attrs d) = [] then LOCAL_HOST_IP pv
      else Join (security_ip_list (attrs d)) (COMMA_SEPARATED pv))"
  by (simp add: createBillingAndIps_def Let_def expandStringList_def)

text \<open>
  C7 as the code has it. Whenever the builder returns a request, the request carries
  the loopback default for the empty allowed-IP set and the comma-delimited join of
  the entries for any other set. Whenever the allowed-IP set has a change, the one call
  of Update's block carries the loopback default for the empty set, and for any other
  set the join, unless the join is the empty string, where it carries the loopback
  default again. Neither half depends on the other's condition.
\<close>

theorem allowed_ip_string:
  "(fst (buildMongoDBCreateRequest pv w) = Inr request \<longrightarrow>
      SecurityIPList request =
        (if security_ip_list (attrs (rd w)) = [] then LOCAL_HOST_IP pv
         else Join (security_ip_list (attrs (rd w))) (COMMA_SEPARATED pv))) \<and>
   (HasChange (rd w) ''security_ip_list'' \<longrightarrow>
      newCalls w (updateSecurityIps pv w) =
        [ModifyMongoDBSecurityIps (Id (rd w))
           (if security_ip_list (attrs (rd w)) = [] then LOCAL_HOST_IP pv
            else if Join (security_ip_list (attrs (rd w))) (COMMA_SEPARATED pv) = []
            then LOCAL_HOST_IP pv
            else Join (security_ip_list (attrs (rd w))) (COMMA_SEPARATED pv))])"
proof -
  have 1: "SecurityIPList request =
           (if security_ip_list (attrs (rd w)) = [] then LOCAL_HOST_IP pv
            else Join (security_ip_list (attrs (rd w))) (COMMA_SEPARATED pv))"
    if b: "fst (buildMongoDBCreateRequest pv w) = Inr request"
  proof -
    obtain r where "request = createBillingAndIps pv r (rd w)"
      using build_Inr [OF b] by blast
    then show ?thesis
      by (simp add: createBillingAndIps_SecurityIPList)
  qed
  have 2: "newCalls w (updateSecurityIps pv w) =
           [ModifyMongoDBSecurityIps (Id (rd w))
              (if security_ip_list (attrs (rd w)) = [] then LOCAL_HOST_IP pv
               else if Join (security_ip_list (attrs (rd w))) (COMMA_SEPARATED pv) = []
               then LOCAL_HOST_IP pv
               else Join (security_ip_list (attrs (rd w))) (COMMA_SEPARATED pv))]"
    if c: "HasChange (rd w) ''security_ip_list''"
    using c
    by (cases "security_ip_list (attrs (rd w)) = []")
       (simp_all add: updateSecurityIps_def updateIpString_def invoke_def issue_def onData_def
          newCalls_def expandStringList_def Let_def split: option.splits)
  show ?thesis using 1 2 by blast
qed

text \<open>
  The create half at a Create with an empty set (no key of the resource has a change)
  and with two addresses; the update half at a resource whose builder would fail (its
  subnet lies outside the declared zone) and at the empty set.
\<close>

theorem allowed_ip_string_witness:
  "\<not> HasChange (rd createWorld) ''security_ip_list'' \<and>
   security_ip_list (attrs (rd createWorld)) = [] \<and>
   (\<exists>request. fst (buildMongoDBCreateRequest exampleProvider createWorld) = Inr request \<and>
              SecurityIPList request = ''127.0.0.1'') \<and>
   (\<exists>request. fst (buildMongoDBCreateRequest exampleProvider ipWorld) = Inr request \<and>
              SecurityIPList request = ''10.0.0.1,10.0.0.2'') \<and>
   (\<exists>err. fst (buildMongoDBCreateRequest exampleProvider ipMismatchWorld) = Inl err) \<and>
   HasChange (rd ipMismatchWorld) ''security_ip_list'' \<and>
   newCalls ipMismatchWorld (updateSecurityIps exampleProvider ipMismatchWorld) =
     [ModifyMongoDBSecurityIps ''dds-1'' ''10.0.0.1,10.0.0.2''] \<and>
   HasChange (rd emptyIpWorld) ''security_ip_list'' \<and>
   newCalls emptyIpWorld (updateSecurityIps exampleProvider emptyIpWorld) =
     [ModifyMongoDBSecurityIps ''dds-1'' ''127.0.0.1'']"
proof -
  have n0: "\<not> HasChange (rd createWorld) ''security_ip_list''"
    by (simp add: createWorld_def onData_def exampleWorld_def exampleData_def HasChange_def)
  have f0: "security_ip_list (attrs (rd createWorld)) = []"
    by (simp add: createWorld_def onData_def exampleWorld_def exampleData_def exampleAttrs_def)
  have h1: "HasChange (rd ipMismatchWorld) ''security_ip_list''"
    by (simp add: ipMismatchWorld_def ipWorld_def emptyIpWorld_def setAttrs_def onData_def
        HasChange_def)
  have h2: "HasChange (rd emptyIpWorld) ''security_ip_list''"
    by (simp add: emptyIpWorld_def onData_def HasChange_def)
  obtain r0 where r0: "fst (buildMongoDBCreateRequest exampleProvider createWorld) = Inr r0"
    by (simp add: buildMongoDBCreateRequest_def createCredential_def createNetwork_def
        checkZone_def createWorld_def onData_def exampleWorld_def
        exampleData_def exampleAttrs_def exampleProvider_def issue_def trimSpaces_def Let_def
        CreateCreateDBInstanceRequest_def)
  obtain r1 where r1: "fst (buildMongoDBCreateRequest exampleProvider ipWorld) = Inr r1"
    by (simp add: buildMongoDBCreateRequest_def createCredential_def createNetwork_def
        checkZone_def ipWorld_def emptyIpWorld_def setAttrs_def onData_def exampleWorld_def
        exampleData_def exampleAttrs_def exampleProvider_def issue_def trimSpaces_def Let_def
        CreateCreateDBInstanceRequest_def)
  have e: "\<exists>err. fst (buildMongoDBCreateRequest exampleProvider ipMismatchWorld) = Inl err"
    by (simp add: buildMongoDBCreateRequest_def createCredential_def createNetwork_def
        checkZone_def ipMismatchWorld_def ipWorld_def emptyIpWorld_def setAttrs_def onData_def
        exampleWorld_def exampleData_def exampleAttrs_def exampleProvider_def issue_def
        trimSpaces_def Let_def HasPrefix_def CreateCreateDBInstanceRequest_def)
  have f1: "security_ip_list (attrs (rd ipWorld)) = [''10.0.0.1'', ''10.0.0.2'']"
    by (simp add: ipWorld_def setAttrs_def)
  have f2: "security_ip_list (attrs (rd ipMismatchWorld)) = [''10.0.0.1'', ''10.0.0.2''] \<and>
            Id (rd ipMismatchWorld) = ''dds-1''"
    by (simp add: ipMismatchWorld_def ipWorld_def emptyIpWorld_def setAttrs_def onData_def
        exampleWorld_def exampleData_def)
  have f3: "security_ip_list (attrs (rd emptyIpWorld)) = [] \<and> Id (rd emptyIpWorld) = ''dds-1''"
    by (simp add: emptyIpWorld_def onData_def exampleWorld_def exampleData_def exampleAttrs_def)
  have c: "COMMA_SEPARATED exampleProvider = '','' \<and> LOCAL_HOST_IP exampleProvider = ''127.0.0.1''"
    by (simp add: exampleProvider_def)
  have a0: "SecurityIPList r0 = ''127.0.0.1''"
    using allowed_ip_string [of exampleProvider createWorld r0] r0 f0 c by simp
  have a1: "SecurityIPList r1 = ''10.0.0.1,10.0.0.2''"
    using allowed_ip_string [of exampleProvider ipWorld r1] r1 f1 c by simp
  have a2: "newCalls ipMismatchWorld (updateSecurityIps exampleProvider ipMismatchWorld) =
              [ModifyMongoDBSecurityIps ''dds-1'' ''10.0.0.1,10.0.0.2'']"
    using allowed_ip_string [of exampleProvider ipMismatchWorld r0] h1 f2 c by simp
  have a3: "newCalls emptyIpWorld (updateSecurityIps exampleProvider emptyIpWorld) =
              [ModifyMongoDBSecurityIps ''dds-1'' ''127.0.0.1'']"
    using allowed_ip_string [of exampleProvider emptyIpWorld r0] h2 f3 c by simp
  show ?thesis
    using n0 f0 r0 a0 r1 a1 e h1 a2 h2 a3 by blast
qed

text \<open>
  C7 as stated fails in Update for a set that is not empty and whose join is empty: the
  set that holds the empty string alone. The call carries the loopback default, not
  the (empty) join of the entries.
\<close>

theorem update_ip_string_counterexample:
  "security_ip_list (attrs (rd blankIpWorld)) \<noteq> [] \<and>
   newCalls blankIpWorld (updateSecurityIps exampleProvider blankIpWorld) =
     [ModifyMongoDBSecurityIps ''dds-1'' ''127.0.0.1''] \<and>
   Join (security_ip_list (attrs (rd blankIpWorld))) (COMMA_SEPARATED exampleProvider) = []"
  by (simp add: blankIpWorld_def emptyIpWorld_def setAttrs_def onData_def exampleWorld_def exampleData_def
      exampleAttrs_def exampleProvider_def updateSecurityIps_def updateIpString_def invoke_def
      issue_def newCalls_def expandStringList_def HasChange_def Let_def)



subsection \<open>Splitting and searching strings\<close>

lemma HasPrefix_Nil [simp]: "HasPrefix s []"
  by (simp add: HasPrefix_def)

lemma HasPrefix_Cons [simp]: "HasPrefix (c # cs) (c' # p) = (c = c' \<and> HasPrefix cs p)"
  by (auto simp: HasPrefix_def)

lemma Contains_Nil [simp]: "Contains s []"
  by (cases s) simp_all

lemma Split_nonempty [simp]: "Split s sep \<noteq> []"
  by (induction s) (auto split: list.splits)

lemma Split_hd: "Split s sep = p # ps \<Longrightarrow> HasPrefix s p"
proof (induction s arbitrary: p ps)
  case Nil
  then show ?case by simp
next
  case (Cons c cs)
  show ?case
  proof (cases "c = sep")
    case True
    then show ?thesis using Cons.prems by simp
  next
    case False
    then obtain p' ps' where sp: "Split cs sep = p' # ps'" and p: "p = c # p'"
      using Cons.prems by (auto split: list.splits)
    then show ?thesis using Cons.IH [OF sp] by simp
  qed
qed

lemma Split_member_Contains: "x \<in> set (Split s sep) \<Longrightarrow> Contains s x"
proof (induction s arbitrary: x)
  case Nil
  then show ?case by simp
next
  case (Cons c cs)
  show ?case
  proof (cases "c = sep")
    case True
    then have "x = [] \<or> x \<in> set (Split cs sep)" using Cons.prems by simp
    then show ?thesis using Cons.IH by auto
  next
    case False
    then obtain p ps where sp: "Split cs sep = p # ps"
      and x: "x = c # p \<or> x \<in> set ps"
      using Cons.prems by (auto split: list.splits)
    show ?thesis
    proof (cases "x = c # p")
      case True
      then show ?thesis using Split_hd [OF sp] by simp
    next
      case False
      then have "x \<in> set (Split cs sep)" using x sp by simp
      then show ?thesis using Cons.IH by simp
    qed
  qed
qed

lemma Split_first: "sep \<notin> set body \<Longrightarrow> Split (body @ sep # post) sep = body # Split post sep"
  by (induction body) auto

lemma SplitAfter_first:
  "sep \<notin> set pre \<Longrightarrow> SplitAfter (pre @ sep # rest) sep = (pre @ [sep]) # SplitAfter rest sep"
  by (induction pre) auto

lemma SplitAfter_nonempty [simp]: "SplitAfter s sep \<noteq> []"
  by (induction s) (auto split: list.splits)

lemma SplitAfter_head:
  "sep \<notin> set body \<Longrightarrow> c \<noteq> sep \<Longrightarrow>
   \<exists>rest qs. SplitAfter (body @ c # post) sep = (body @ c # rest) # qs"
proof (induction body)
  case Nil
  then show ?case
    using SplitAfter_nonempty [of post sep] by (cases "SplitAfter post sep") auto
next
  case (Cons b body)
  then show ?case by auto
qed

lemma zonestr_of_group:
  assumes "CHR ''('' \<notin> set pre" and "CHR ''('' \<notin> set body" and "CHR '')'' \<notin> set body"
  shows "\<exists>q ps rs. SplitAfter (pre @ CHR ''('' # body @ CHR '')'' # post) CHR ''('' = (pre @ ''('') # q # ps \<and>
                  Split q CHR '')'' = body # rs"
proof -
  obtain rest qs where q: "SplitAfter (body @ CHR '')'' # post) CHR ''('' = (body @ CHR '')'' # rest) # qs"
    using SplitAfter_head [OF assms(2), of "CHR '')''" post] by auto
  have "SplitAfter (pre @ CHR ''('' # body @ CHR '')'' # post) CHR ''('' =
          (pre @ ''('') # (body @ CHR '')'' # rest) # qs"
    using SplitAfter_first [OF assms(1), of "body @ CHR '')'' # post"] q by simp
  moreover have "Split (body @ CHR '')'' # rest) CHR '')'' = body # Split rest CHR '')''"
    using Split_first [OF assms(3)] by simp
  ultimately show ?thesis by blast
qed



subsection \<open>The zone of the subnet\<close>

lemma checkZone_empty:
  "ZoneId request = [] \<Longrightarrow> checkZone pv request vsw = Inr (request\<lparr>ZoneId := vsw_ZoneId vsw\<rparr>)"
  by (simp add: checkZone_def)

lemma checkZone_multi:
  assumes "ZoneId request = pre @ CHR ''('' # body @ CHR '')'' # post"
    and "Contains (ZoneId request) (MULTI_IZ_SYMBOL pv)"
    and "CHR ''('' \<notin> set pre" and "CHR ''('' \<notin> set body" and "CHR '')'' \<notin> set body"
    and "vsw_ZoneId vsw \<noteq> []"
    and "byteToString (last (vsw_ZoneId vsw)) \<in> set (Split body CHR '','')"
  shows "checkZone pv request vsw = Inr request"
proof -
  obtain q ps rs where sa: "SplitAfter (ZoneId request) CHR ''('' = (pre @ ''('') # q # ps"
    and sp: "Split q CHR '')'' = body # rs"
    using zonestr_of_group [OF assms(3) assms(4) assms(5), of post] assms(1) by auto
  have c: "Contains body (byteToString (last (vsw_ZoneId vsw)))"
    using assms(7) by (rule Split_member_Contains)
  have ne: "ZoneId request \<noteq> []" using assms(1) by simp
  show ?thesis
    using sa sp c ne assms(2) assms(6) by (simp add: checkZone_def)
qed

lemma checkZone_plain:
  assumes "ZoneId request \<noteq> []" and "\<not> Contains (ZoneId request) (MULTI_IZ_SYMBOL pv)"
    and "ZoneId request \<noteq> vsw_ZoneId vsw"
  shows "checkZone pv request vsw =
           Inl (Wrapped (Errorf ''The specified vswitch %s isn't in the zone %s.''
                  [vsw_VSwitchId vsw, ZoneId request]))"
  using assms by (simp add: checkZone_def)

lemma createBillingAndIps_keeps:
  "ZoneId (createBillingAndIps pv r d) = ZoneId r \<and>
   VSwitchId (createBillingAndIps pv r d) = VSwitchId r \<and>
   VpcId (createBillingAndIps pv r d) = VpcId r \<and>
   NetworkType (createBillingAndIps pv r d) = NetworkType r"
  by (simp add: createBillingAndIps_def Let_def)

text \<open>The builder once the credential is resolved and the subnet is found.\<close>

lemma build_with_subnet:
  assumes "credentialResolved pv w"
    and "Trim pv (vswitch_id (attrs (rd w))) \<noteq> []"
    and "\<forall>h. DescribeVSwitch_result pv h (Trim pv (vswitch_id (attrs (rd w)))) = Inr vsw"
  shows "\<exists>r. ZoneId r = zone_id (attrs (rd w)) \<and>
          fst (buildMongoDBCreateRequest pv w) =
            (case checkZone pv r vsw of
               Inl err \<Rightarrow> Inl err
             | Inr r' \<Rightarrow>
                 Inr (createBillingAndIps pv
                        (r'\<lparr>VSwitchId := Trim pv (vswitch_id (attrs (rd w))),
                            NetworkType := ToUpper (Vpc pv), VpcId := vsw_VpcId vsw\<rparr>) (rd w)))"
proof -
  let ?r0 = "CreateCreateDBInstanceRequest
            \<lparr>RegionId := client_Region pv,
             EngineVersion := Trim pv (engine_version (attrs (rd w))),
             Engine := ''MongoDB'',
             DBInstanceStorage := NewInteger (db_instance_storage (attrs (rd w))),
             DBInstanceClass := Trim pv (db_instance_class (attrs (rd w))),
             DBInstanceDescription := name (attrs (rd w))\<rparr>"
  obtain pw w1 where c: "createCredential pv ?r0 w = (Inr (?r0\<lparr>AccountPassword := pw\<rparr>), w1)"
    and w1: "rd w1 = rd w"
    using createCredential_resolved [OF assms(1), of ?r0] by blast
  show ?thesis
  proof (cases "replication_factor (attrs (rd w)) = 0")
    case True
    let ?r = "?r0\<lparr>AccountPassword := pw, ZoneId := zone_id (attrs (rd w)),
                   StorageEngine := storage_engine (attrs (rd w)), NetworkType := Classic pv\<rparr>"
    have "fst (buildMongoDBCreateRequest pv w) =
            (case checkZone pv ?r vsw of
               Inl err \<Rightarrow> Inl err
             | Inr r' \<Rightarrow>
                 Inr (createBillingAndIps pv
                        (r'\<lparr>VSwitchId := Trim pv (vswitch_id (attrs (rd w))),
                            NetworkType := ToUpper (Vpc pv), VpcId := vsw_VpcId vsw\<rparr>) (rd w)))"
      using True assms(2) assms(3) c w1
      by (simp add: buildMongoDBCreateRequest_def createNetwork_def Let_def issue_def
          split: sum.splits)
    moreover have "ZoneId ?r = zone_id (attrs (rd w))" by simp
    ultimately show ?thesis by blast
  next
    case False
    let ?r = "?r0\<lparr>AccountPassword := pw, ZoneId := zone_id (attrs (rd w)),
                   StorageEngine := storage_engine (attrs (rd w)),
                   ReplicationFactor := Itoa (replication_factor (attrs (rd w))),
                   NetworkType := Classic pv\<rparr>"
    have "fst (buildMongoDBCreateRequest pv w) =
            (case checkZone pv ?r vsw of
               Inl err \<Rightarrow> Inl err
             | Inr r' \<Rightarrow>
                 Inr (createBillingAndIps pv
                        (r'\<lparr>VSwitchId := Trim pv (vswitch_id (attrs (rd w))),
                            NetworkType := ToUpper (Vpc pv), VpcId := vsw_VpcId vsw\<rparr>) (rd w)))"
      using False assms(2) assms(3) c w1
      by (simp add: buildMongoDBCreateRequest_def createNetwork_def Let_def issue_def
          split: sum.splits)
    moreover have "ZoneId ?r = zone_id (attrs (rd w))" by simp
    ultimately show ?thesis by blast
  qed
qed


text \<open>
  C5 as the code has it. The configuration supplies a subnet, the credential block
  does not fail and the subnet lookup finds the subnet. With an empty declared zone the
  builder returns a request with the subnet's zone, the subnet, its network and the
  VPC network type. With a declared multi-zone group (it contains \<^verbatim>\<open>MULTI_IZ_SYMBOL\<close>
  and lists, between its first \<^verbatim>\<open>(\<close> and the following \<^verbatim>\<open>)\<close>, the last byte of the
  subnet's zone among its comma-separated entries) the builder returns a request with
  the subnet, its network and the VPC network type, and with the declared group as
  its zone: the subnet's zone is checked, not adopted.
\<close>

theorem build_adopts_subnet:
  assumes "credentialResolved pv w"
    and "Trim pv (vswitch_id (attrs (rd w))) \<noteq> []"
    and "\<forall>h. DescribeVSwitch_result pv h (Trim pv (vswitch_id (attrs (rd w)))) = Inr vsw"
  shows "(zone_id (attrs (rd w)) = [] \<longrightarrow>
            (\<exists>request. fst (buildMongoDBCreateRequest pv w) = Inr request \<and>
                       ZoneId request = vsw_ZoneId vsw \<and> adoptsNetwork pv w vsw request)) \<and>
         (zone_id (attrs (rd w)) = pre @ CHR ''('' # body @ CHR '')'' # post \<and>
          Contains (zone_id (attrs (rd w))) (MULTI_IZ_SYMBOL pv) \<and>
          CHR ''('' \<notin> set pre \<and> CHR ''('' \<notin> set body \<and> CHR '')'' \<notin> set body \<and>
          vsw_ZoneId vsw \<noteq> [] \<and>
          byteToString (last (vsw_ZoneId vsw)) \<in> set (Split body CHR '','') \<longrightarrow>
            (\<exists>request. fst (buildMongoDBCreateRequest pv w) = Inr request \<and>
                       ZoneId request = zone_id (attrs (rd w)) \<and> adoptsNetwork pv w vsw request))"
proof -
  obtain r where z: "ZoneId r = zone_id (attrs (rd w))"
    and b: "fst (buildMongoDBCreateRequest pv w) =
            (case checkZone pv r vsw of
               Inl err \<Rightarrow> Inl err
             | Inr r' \<Rightarrow>
                 Inr (createBillingAndIps pv
                        (r'\<lparr>VSwitchId := Trim pv (vswitch_id (attrs (rd w))),
                            NetworkType := ToUpper (Vpc pv), VpcId := vsw_VpcId vsw\<rparr>) (rd w)))"
    using build_with_subnet [OF assms] by blast
  have 1: "\<exists>request. fst (buildMongoDBCreateRequest pv w) = Inr request \<and>
                       ZoneId request = vsw_ZoneId vsw \<and> adoptsNetwork pv w vsw request"
    if "zone_id (attrs (rd w)) = []"
  proof -
    have "checkZone pv r vsw = Inr (r\<lparr>ZoneId := vsw_ZoneId vsw\<rparr>)"
      using that z by (simp add: checkZone_empty)
    then show ?thesis
      by (simp add: b adoptsNetwork_def createBillingAndIps_keeps)
  qed
  have 2: "\<exists>request. fst (buildMongoDBCreateRequest pv w) = Inr request \<and>
                       ZoneId request = zone_id (attrs (rd w)) \<and> adoptsNetwork pv w vsw request"
    if g: "zone_id (attrs (rd w)) = pre @ CHR ''('' # body @ CHR '')'' # post"
      "Contains (zone_id (attrs (rd w))) (MULTI_IZ_SYMBOL pv)"
      "CHR ''('' \<notin> set pre" "CHR ''('' \<notin> set body" "CHR '')'' \<notin> set body"
      "vsw_ZoneId vsw \<noteq> []"
      "byteToString (last (vsw_ZoneId vsw)) \<in> set (Split body CHR '','')"
  proof -
    have "checkZone pv r vsw = Inr r"
      using checkZone_multi [of r pre body post pv vsw] g z by simp
    then show ?thesis
      using z by (simp add: b adoptsNetwork_def createBillingAndIps_keeps)
  qed
  show ?thesis using 1 2 by blast
qed

lemma example_resolved: "credentialResolved exampleProvider exampleWorld"
  by (simp add: credentialResolved_def createCredential_def exampleWorld_def exampleData_def
      exampleAttrs_def Let_def)

lemma example_lookup:
  "\<forall>h. DescribeVSwitch_result exampleProvider h ''vsw-A'' = Inr exampleVSwitch"
  by (simp add: exampleProvider_def exampleVSwitch_def)

theorem build_adopts_subnet_witness:
  "credentialResolved exampleProvider exampleWorld \<and>
   Trim exampleProvider (vswitch_id (attrs (rd exampleWorld))) = ''vsw-A'' \<and>
   (\<forall>h. DescribeVSwitch_result exampleProvider h ''vsw-A'' = Inr exampleVSwitch) \<and>
   zone_id (attrs (rd exampleWorld)) = [] \<and>
   (\<exists>request. fst (buildMongoDBCreateRequest exampleProvider exampleWorld) = Inr request \<and>
              ZoneId request = ''cn-hangzhou-b'' \<and> VpcId request = ''vpc-1'' \<and>
              VSwitchId request = ''vsw-A'' \<and> NetworkType request = ''VPC'') \<and>
   credentialResolved exampleProvider multiZoneWorld \<and>
   zone_id (attrs (rd multiZoneWorld)) = ''cn-hangzhou-MAZ1'' @ CHR ''('' # ''b,c'' @ CHR '')'' # [] \<and>
   byteToString (last (vsw_ZoneId exampleVSwitch)) \<in> set (Split ''b,c'' CHR '','') \<and>
   (\<exists>request. fst (buildMongoDBCreateRequest exampleProvider multiZoneWorld) = Inr request \<and>
              ZoneId request = ''cn-hangzhou-MAZ1(b,c)'' \<and> VpcId request = ''vpc-1'' \<and>
              VSwitchId request = ''vsw-A'' \<and> NetworkType request = ''VPC'')"
proof -
  have t: "Trim exampleProvider (vswitch_id (attrs (rd exampleWorld))) = ''vsw-A''"
    by (simp add: exampleProvider_def exampleWorld_def exampleData_def exampleAttrs_def trimSpaces_def)
  have t2: "Trim exampleProvider (vswitch_id (attrs (rd multiZoneWorld))) = ''vsw-A''"
    by (simp add: exampleProvider_def multiZoneWorld_def setAttrs_def exampleWorld_def
        exampleData_def exampleAttrs_def trimSpaces_def)
  have z: "zone_id (attrs (rd exampleWorld)) = []"
    by (simp add: exampleWorld_def exampleData_def exampleAttrs_def)
  have r2: "credentialResolved exampleProvider multiZoneWorld"
    by (simp add: credentialResolved_def createCredential_def multiZoneWorld_def setAttrs_def
        exampleWorld_def exampleData_def exampleAttrs_def Let_def)
  have z2: "zone_id (attrs (rd multiZoneWorld)) = ''cn-hangzhou-MAZ1'' @ CHR ''('' # ''b,c'' @ CHR '')'' # []"
    by (simp add: multiZoneWorld_def setAttrs_def)
  have m: "Contains (zone_id (attrs (rd multiZoneWorld))) (MULTI_IZ_SYMBOL exampleProvider)"
    by (simp add: multiZoneWorld_def setAttrs_def exampleProvider_def HasPrefix_def)
  have s: "byteToString (last (vsw_ZoneId exampleVSwitch)) \<in> set (Split ''b,c'' CHR '','')"
    by (simp add: exampleVSwitch_def byteToString_def)
  have v: "vsw_ZoneId exampleVSwitch = ''cn-hangzhou-b'' \<and> vsw_VpcId exampleVSwitch = ''vpc-1''"
    by (simp add: exampleVSwitch_def)
  have u: "ToUpper (Vpc exampleProvider) = ''VPC''"
    by code_simp
  have a1: "\<exists>request. fst (buildMongoDBCreateRequest exampleProvider exampleWorld) = Inr request \<and>
              ZoneId request = ''cn-hangzhou-b'' \<and> VpcId request = ''vpc-1'' \<and>
              VSwitchId request = ''vsw-A'' \<and> NetworkType request = ''VPC''"
    using build_adopts_subnet [of exampleProvider exampleWorld exampleVSwitch]
      example_resolved example_lookup t z v u
    by (auto simp: adoptsNetwork_def)
  have a2: "\<exists>request. fst (buildMongoDBCreateRequest exampleProvider multiZoneWorld) = Inr request \<and>
              ZoneId request = ''cn-hangzhou-MAZ1(b,c)'' \<and> VpcId request = ''vpc-1'' \<and>
              VSwitchId request = ''vsw-A'' \<and> NetworkType request = ''VPC''"
    using build_adopts_subnet [of exampleProvider multiZoneWorld exampleVSwitch
        "''cn-hangzhou-MAZ1''" "''b,c''" "[]"]
      r2 example_lookup t2 z2 m s v u
    by (auto simp: adoptsNetwork_def)
  show ?thesis
    using example_resolved t example_lookup z a1 r2 z2 s a2 by blast
qed

text \<open>
  C5 as stated fails on its second half: for a multi-zone group the request does not
  adopt the subnet's zone. Here the subnet lies in \<^verbatim>\<open>cn-hangzhou-b\<close> and the request
  keeps the declared group.
\<close>

theorem multi_zone_keeps_declared_zone:
  "map_sum id ZoneId (fst (buildMongoDBCreateRequest exampleProvider multiZoneWorld)) =
     Inr ''cn-hangzhou-MAZ1(b,c)'' \<and>
   map_sum id vsw_ZoneId (DescribeVSwitch_result exampleProvider [] ''vsw-A'') = Inr ''cn-hangzhou-b''"
  by (simp add: buildMongoDBCreateRequest_def createCredential_def createNetwork_def checkZone_def
      createBillingAndIps_def multiZoneWorld_def setAttrs_def exampleWorld_def exampleData_def
      exampleAttrs_def exampleProvider_def issue_def trimSpaces_def Let_def HasPrefix_def
      byteToString_def CreateCreateDBInstanceRequest_def)



subsection \<open>A subnet outside the declared zone\<close>

lemma createCredential_unresolved:
  assumes "\<not> credentialResolved pv w"
  shows "\<exists>err w1. createCredential pv request w = (Inl err, w1)"
  using assms
  by (auto simp: credentialResolved_def createCredential_def Let_def issue_def split: sum.splits if_splits)

lemma build_unresolved:
  assumes "\<not> credentialResolved pv w"
  shows "\<exists>err. fst (buildMongoDBCreateRequest pv w) = Inl err"
proof -
  let ?r0 = "CreateCreateDBInstanceRequest
            \<lparr>RegionId := client_Region pv,
             EngineVersion := Trim pv (engine_version (attrs (rd w))),
             Engine := ''MongoDB'',
             DBInstanceStorage := NewInteger (db_instance_storage (attrs (rd w))),
             DBInstanceClass := Trim pv (db_instance_class (attrs (rd w))),
             DBInstanceDescription := name (attrs (rd w))\<rparr>"
  obtain err w1 where "createCredential pv ?r0 w = (Inl err, w1)"
    using createCredential_unresolved [OF assms, of ?r0] by blast
  then show ?thesis
    by (simp add: buildMongoDBCreateRequest_def Let_def)
qed

lemma createCredential_calls:
  "\<exists>cs. calls (snd (createCredential pv request w)) = calls w @ cs \<and>
        list_all (\<lambda>c. \<not> isCreateCall c) cs"
  by (simp add: createCredential_def Let_def issue_def split: sum.splits)

lemma createNetwork_calls:
  "\<exists>cs. calls (snd (createNetwork pv request w)) = calls w @ cs \<and>
        list_all (\<lambda>c. \<not> isCreateCall c) cs"
  by (simp add: createNetwork_def Let_def issue_def split: sum.splits)

lemma build_calls:
  "\<exists>cs. calls (snd (buildMongoDBCreateRequest pv w)) = calls w @ cs \<and>
        list_all (\<lambda>c. \<not> isCreateCall c) cs"
proof -
  let ?r0 = "CreateCreateDBInstanceRequest
            \<lparr>RegionId := client_Region pv,
             EngineVersion := Trim pv (engine_version (attrs (rd w))),
             Engine := ''MongoDB'',
             DBInstanceStorage := NewInteger (db_instance_storage (attrs (rd w))),
             DBInstanceClass := Trim pv (db_instance_class (attrs (rd w))),
             DBInstanceDescription := name (attrs (rd w))\<rparr>"
  obtain cs where cs: "calls (snd (createCredential pv ?r0 w)) = calls w @ cs"
    and n1: "list_all (\<lambda>c. \<not> isCreateCall c) cs"
    using createCredential_calls by blast
  show ?thesis
  proof (cases "createCredential pv ?r0 w")
    case (Pair res w1)
    show ?thesis
    proof (cases res)
      case (Inl err)
      then show ?thesis
        using Pair cs n1 by (simp add: buildMongoDBCreateRequest_def Let_def)
    next
      case (Inr r1)
      let ?r2 = "if replication_factor (attrs (rd w)) \<noteq> 0
                 then r1\<lparr>ZoneId := zone_id (attrs (rd w)), StorageEngine := storage_engine (attrs (rd w)),
                        ReplicationFactor := Itoa (replication_factor (attrs (rd w)))\<rparr>
                 else r1\<lparr>ZoneId := zone_id (attrs (rd w)), StorageEngine := storage_engine (attrs (rd w))\<rparr>"
      obtain ds where ds: "calls (snd (createNetwork pv ?r2 w1)) = calls w1 @ ds"
        and n2: "list_all (\<lambda>c. \<not> isCreateCall c) ds"
        using createNetwork_calls by blast
      have "calls (snd (buildMongoDBCreateRequest pv w)) = calls (snd (createNetwork pv ?r2 w1))"
        using Pair Inr
        by (simp add: buildMongoDBCreateRequest_def Let_def split: prod.splits sum.splits)
      then show ?thesis
        using Pair cs ds n1 n2 by auto
    qed
  qed
qed

lemma create_build_fails:
  assumes "fst (buildMongoDBCreateRequest pv w) = Inl err"
  shows "resourceAlicloudMongoDBInstanceCreate pv w =
           (Some (WrapError err), snd (buildMongoDBCreateRequest pv w))"
  using assms
  by (cases "buildMongoDBCreateRequest pv w") (simp add: resourceAlicloudMongoDBInstanceCreate_def)

text \<open>
  The declared zone is a plain single zone (not empty, without \<^verbatim>\<open>MULTI_IZ_SYMBOL\<close>), a
  subnet is supplied, and its lookup answers a subnet of another zone. Then the builder
  returns an error, Create returns it wrapped, and Create issues no create call. When
  the credential block before the lookup does not fail, the builder's error is the
  validation error that names the subnet and the declared zone.
\<close>

theorem zone_mismatch_rejected:
  assumes "zone_id (attrs (rd w)) \<noteq> []"
    and "\<not> Contains (zone_id (attrs (rd w))) (MULTI_IZ_SYMBOL pv)"
    and "Trim pv (vswitch_id (attrs (rd w))) \<noteq> []"
    and "\<forall>h. DescribeVSwitch_result pv h (Trim pv (vswitch_id (attrs (rd w)))) = Inr vsw"
    and "vsw_ZoneId vsw \<noteq> zone_id (attrs (rd w))"
  shows "(\<exists>err. fst (buildMongoDBCreateRequest pv w) = Inl err \<and>
               fst (resourceAlicloudMongoDBInstanceCreate pv w) = Some (WrapError err)) \<and>
         list_all (\<lambda>c. \<not> isCreateCall c) (newCalls w (resourceAlicloudMongoDBInstanceCreate pv w)) \<and>
         (credentialResolved pv w \<longrightarrow>
            fst (buildMongoDBCreateRequest pv w) =
              Inl (Wrapped (Errorf ''The specified vswitch %s isn't in the zone %s.''
                     [vsw_VSwitchId vsw, zone_id (attrs (rd w))])))"
proof -
  have v: "fst (buildMongoDBCreateRequest pv w) =
              Inl (Wrapped (Errorf ''The specified vswitch %s isn't in the zone %s.''
                     [vsw_VSwitchId vsw, zone_id (attrs (rd w))]))"
    if cr: "credentialResolved pv w"
  proof -
    obtain r where z: "ZoneId r = zone_id (attrs (rd w))"
      and b: "fst (buildMongoDBCreateRequest pv w) =
            (case checkZone pv r vsw of
               Inl err \<Rightarrow> Inl err
             | Inr r' \<Rightarrow>
                 Inr (createBillingAndIps pv
                        (r'\<lparr>VSwitchId := Trim pv (vswitch_id (attrs (rd w))),
                            NetworkType := ToUpper (Vpc pv), VpcId := vsw_VpcId vsw\<rparr>) (rd w)))"
      using build_with_subnet [OF cr assms(3) assms(4)] by blast
    have "checkZone pv r vsw =
           Inl (Wrapped (Errorf ''The specified vswitch %s isn't in the zone %s.''
                  [vsw_VSwitchId vsw, ZoneId r]))"
      using checkZone_plain [of r pv vsw] assms(1) assms(2) assms(5) z by simp
    then show ?thesis using z by (simp add: b)
  qed
  obtain err where e: "fst (buildMongoDBCreateRequest pv w) = Inl err"
    using v build_unresolved [of pv w] by (cases "credentialResolved pv w") auto
  have c: "resourceAlicloudMongoDBInstanceCreate pv w =
           (Some (WrapError err), snd (buildMongoDBCreateRequest pv w))"
    using e by (rule create_build_fails)
  obtain cs where "calls (snd (buildMongoDBCreateRequest pv w)) = calls w @ cs"
    and "list_all (\<lambda>c. \<not> isCreateCall c) cs"
    using build_calls by blast
  then have n: "list_all (\<lambda>c. \<not> isCreateCall c) (newCalls w (resourceAlicloudMongoDBInstanceCreate pv w))"
    by (simp add: c newCalls_def)
  show ?thesis using e c n v by auto
qed

theorem zone_mismatch_rejected_witness:
  "zone_id (attrs (rd plainZoneWorld)) = ''cn-hangzhou-c'' \<and>
   \<not> Contains ''cn-hangzhou-c'' (MULTI_IZ_SYMBOL exampleProvider) \<and>
   Trim exampleProvider (vswitch_id (attrs (rd plainZoneWorld))) = ''vsw-A'' \<and>
   (\<forall>h. DescribeVSwitch_result exampleProvider h ''vsw-A'' = Inr exampleVSwitch) \<and>
   vsw_ZoneId exampleVSwitch = ''cn-hangzhou-b'' \<and>
   credentialResolved exampleProvider plainZoneWorld \<and>
   fst (buildMongoDBCreateRequest exampleProvider plainZoneWorld) =
     Inl (Wrapped (Errorf ''The specified vswitch %s isn't in the zone %s.''
            [''vsw-A'', ''cn-hangzhou-c''])) \<and>
   fst (resourceAlicloudMongoDBInstanceCreate exampleProvider plainZoneWorld) =
     Some (Wrapped (Wrapped (Errorf ''The specified vswitch %s isn't in the zone %s.''
                      [''vsw-A'', ''cn-hangzhou-c'']))) \<and>
   list_all (\<lambda>c. \<not> isCreateCall c)
     (newCalls plainZoneWorld (resourceAlicloudMongoDBInstanceCreate exampleProvider plainZoneWorld))"
proof -
  have z: "zone_id (attrs (rd plainZoneWorld)) = ''cn-hangzhou-c''"
    by (simp add: plainZoneWorld_def setAttrs_def)
  have m: "\<not> Contains ''cn-hangzhou-c'' (MULTI_IZ_SYMBOL exampleProvider)"
    by (simp add: exampleProvider_def HasPrefix_def)
  have t: "Trim exampleProvider (vswitch_id (attrs (rd plainZoneWorld))) = ''vsw-A''"
    by (simp add: exampleProvider_def plainZoneWorld_def setAttrs_def exampleWorld_def
        exampleData_def exampleAttrs_def trimSpaces_def)
  have v: "vsw_ZoneId exampleVSwitch = ''cn-hangzhou-b'' \<and> vsw_VSwitchId exampleVSwitch = ''vsw-A''"
    by (simp add: exampleVSwitch_def)
  have r: "credentialResolved exampleProvider plainZoneWorld"
    by (simp add: credentialResolved_def createCredential_def plainZoneWorld_def setAttrs_def
        exampleWorld_def exampleData_def exampleAttrs_def Let_def)
  have z': "zone_id (attrs (rd plainZoneWorld)) \<noteq> []"
    using z by simp
  have m': "\<not> Contains (zone_id (attrs (rd plainZoneWorld))) (MULTI_IZ_SYMBOL exampleProvider)"
    unfolding z by (rule m)
  have t': "Trim exampleProvider (vswitch_id (attrs (rd plainZoneWorld))) \<noteq> []"
    using t by simp
  have l': "\<forall>h. DescribeVSwitch_result exampleProvider h
                  (Trim exampleProvider (vswitch_id (attrs (rd plainZoneWorld)))) = Inr exampleVSwitch"
    unfolding t by (rule example_lookup)
  have d': "vsw_ZoneId exampleVSwitch \<noteq> zone_id (attrs (rd plainZoneWorld))"
    using z v by simp
  note a = zone_mismatch_rejected [OF z' m' t' l' d']
  have b: "fst (buildMongoDBCreateRequest exampleProvider plainZoneWorld) =
              Inl (Wrapped (Errorf ''The specified vswitch %s isn't in the zone %s.''
                     [''vsw-A'', ''cn-hangzhou-c'']))"
    using a r z v by simp
  have n: "list_all (\<lambda>c. \<not> isCreateCall c)
     (newCalls plainZoneWorld (resourceAlicloudMongoDBInstanceCreate exampleProvider plainZoneWorld))"
    using a by blast
  obtain err where e: "fst (buildMongoDBCreateRequest exampleProvider plainZoneWorld) = Inl err"
    and c: "fst (resourceAlicloudMongoDBInstanceCreate exampleProvider plainZoneWorld) =
              Some (WrapError err)"
    using a by blast
  have "err = Wrapped (Errorf ''The specified vswitch %s isn't in the zone %s.''
                     [''vsw-A'', ''cn-hangzhou-c''])"
    using e b by simp
  then have "fst (resourceAlicloudMongoDBInstanceCreate exampleProvider plainZoneWorld) =
     Some (Wrapped (Wrapped (Errorf ''The specified vswitch %s isn't in the zone %s.''
                      [''vsw-A'', ''cn-hangzhou-c''])))"
    using c by simp
  then show ?thesis
    using z m t v r b n example_lookup by blast
qed

text \<open>
  C6. A subnet outside the declared plain zone must give the validation error that
  names the mismatch. The builder departs from it where the configuration has neither
  a password nor a ciphertext: the credential block, guarded by \<^verbatim>\<open>v == ""\<close> (see C1),
  then calls the decryption service on the empty ciphertext, and when that call fails
  the builder returns the decryption error before it looks at the subnet or the zone.
  Create returns that error wrapped and issues no other call. The theorem states what
  the code does there.
\<close>

theorem zone_check_behind_decryption:
  assumes "account_password (attrs (rd w)) = []"
    and "kms_encrypted_password (attrs (rd w)) = []"
    and "Decrypt_result pv (calls w) [] (kms_encryption_context (attrs (rd w))) = Inl e"
  shows "buildMongoDBCreateRequest pv w =
           (Inl (WrapError e), issue (Decrypt [] (kms_encryption_context (attrs (rd w)))) w) \<and>
         resourceAlicloudMongoDBInstanceCreate pv w =
           (Some (WrapError (WrapError e)),
            issue (Decrypt [] (kms_encryption_context (attrs (rd w)))) w)"
proof -
  have b: "buildMongoDBCreateRequest pv w =
           (Inl (WrapError e), issue (Decrypt [] (kms_encryption_context (attrs (rd w)))) w)"
    using assms by (simp add: buildMongoDBCreateRequest_def createCredential_def Let_def)
  then show ?thesis
    by (simp add: resourceAlicloudMongoDBInstanceCreate_def)
qed

theorem zone_check_behind_decryption_witness:
  "account_password (attrs (rd bareZoneWorld)) = [] \<and>
   kms_encrypted_password (attrs (rd bareZoneWorld)) = [] \<and>
   Decrypt_result strictKmsProvider (calls bareZoneWorld) []
     (kms_encryption_context (attrs (rd bareZoneWorld))) = Inl emptyCiphertext \<and>
   zone_id (attrs (rd bareZoneWorld)) = ''cn-hangzhou-c'' \<and>
   \<not> Contains ''cn-hangzhou-c'' (MULTI_IZ_SYMBOL strictKmsProvider) \<and>
   Trim strictKmsProvider (vswitch_id (attrs (rd bareZoneWorld))) = ''vsw-A'' \<and>
   (\<forall>h. DescribeVSwitch_result strictKmsProvider h ''vsw-A'' = Inr exampleVSwitch) \<and>
   vsw_ZoneId exampleVSwitch = ''cn-hangzhou-b'' \<and>
   fst (buildMongoDBCreateRequest strictKmsProvider bareZoneWorld) = Inl (Wrapped emptyCiphertext) \<and>
   Wrapped emptyCiphertext \<noteq>
     Wrapped (Errorf ''The specified vswitch %s isn't in the zone %s.'' [''vsw-A'', ''cn-hangzhou-c'']) \<and>
   fst (resourceAlicloudMongoDBInstanceCreate strictKmsProvider bareZoneWorld) =
     Some (Wrapped (Wrapped emptyCiphertext)) \<and>
   calls (snd (resourceAlicloudMongoDBInstanceCreate strictKmsProvider bareZoneWorld)) = [Decrypt [] []]"
proof -
  have a: "account_password (attrs (rd bareZoneWorld)) = [] \<and>
           kms_encrypted_password (attrs (rd bareZoneWorld)) = [] \<and>
           kms_encryption_context (attrs (rd bareZoneWorld)) = [] \<and>
           zone_id (attrs (rd bareZoneWorld)) = ''cn-hangzhou-c'' \<and>
           calls bareZoneWorld = []"
    by (simp add: bareZoneWorld_def createWorld_def setAttrs_def onData_def exampleWorld_def
        exampleData_def exampleAttrs_def)
  have k: "Decrypt_result strictKmsProvider (calls bareZoneWorld) []
     (kms_encryption_context (attrs (rd bareZoneWorld))) = Inl emptyCiphertext"
    by (simp add: strictKmsProvider_def)
  have m: "\<not> Contains ''cn-hangzhou-c'' (MULTI_IZ_SYMBOL strictKmsProvider)"
    by (simp add: strictKmsProvider_def exampleProvider_def HasPrefix_def)
  have t: "Trim strictKmsProvider (vswitch_id (attrs (rd bareZoneWorld))) = ''vsw-A''"
    by (simp add: strictKmsProvider_def exampleProvider_def bareZoneWorld_def createWorld_def
        setAttrs_def onData_def exampleWorld_def exampleData_def exampleAttrs_def trimSpaces_def)
  have l: "\<forall>h. DescribeVSwitch_result strictKmsProvider h ''vsw-A'' = Inr exampleVSwitch"
    by (simp add: strictKmsProvider_def exampleProvider_def exampleVSwitch_def)
  have v: "vsw_ZoneId exampleVSwitch = ''cn-hangzhou-b''"
    by (simp add: exampleVSwitch_def)
  have w: "WrapError emptyCiphertext = Wrapped emptyCiphertext \<and>
           WrapError (Wrapped emptyCiphertext) = Wrapped (Wrapped emptyCiphertext)"
    by (simp add: emptyCiphertext_def)
  have d: "Wrapped emptyCiphertext \<noteq>
     Wrapped (Errorf ''The specified vswitch %s isn't in the zone %s.'' [''vsw-A'', ''cn-hangzhou-c''])"
    by (simp add: emptyCiphertext_def)
  note r = zone_check_behind_decryption [of bareZoneWorld strictKmsProvider emptyCiphertext]
  have b: "fst (buildMongoDBCreateRequest strictKmsProvider bareZoneWorld) = Inl (Wrapped emptyCiphertext)"
    using r a k w by simp
  have c: "fst (resourceAlicloudMongoDBInstanceCreate strictKmsProvider bareZoneWorld) =
     Some (Wrapped (Wrapped emptyCiphertext))"
    using r a k w by simp
  have e: "calls (snd (resourceAlicloudMongoDBInstanceCreate strictKmsProvider bareZoneWorld)) =
     [Decrypt [] []]"
    using r a k by (simp add: issue_def)
  show ?thesis
    using a k m t l v b d c e by blast
qed

subsection \<open>Read of an absent instance\<close>

lemma read_not_found:
  assumes "DescribeMongoDBInstance_result pv (calls w) (Id (rd w)) = Inl e"
    and "NotFoundError pv e"
  shows "resourceAlicloudMongoDBInstanceRead pv w =
           (None, onData (SetId []) (issue (DescribeMongoDBInstance (Id (rd w))) w))"
  using assms by (simp add: resourceAlicloudMongoDBInstanceRead_def Let_def)

lemma read_error_cause:
  assumes "fst (resourceAlicloudMongoDBInstanceRead pv w) = Some err"
  shows "\<exists>c. err = WrapError c \<and>
          ((DescribeMongoDBInstance_result pv (calls w) (Id (rd w)) = Inl c \<and> \<not> NotFoundError pv c) \<or>
           DescribeMongoDBBackupPolicy_result pv
             (calls w @ [DescribeMongoDBInstance (Id (rd w))]) (Id (rd w)) = Inl c \<or>
           GetSecurityIps_result pv
             (calls w @ [DescribeMongoDBInstance (Id (rd w)), DescribeMongoDBBackupPolicy (Id (rd w))])
             (Id (rd w)) = Inl c)"
  using assms
  by (auto simp: resourceAlicloudMongoDBInstanceRead_def Let_def issue_def setAttrs_def onData_def
      split: sum.splits if_splits)

text \<open>
  C4 as the code has it. When the instance lookup fails with an error that
  \<^verbatim>\<open>NotFoundError\<close> accepts, Read clears the identifier and returns no error; a second
  Read, whose lookup of the cleared (empty) identifier again reports not found, returns
  no error and leaves the resource data as it is. When Read returns an error, it is
  the wrapped error of the instance lookup, which \<^verbatim>\<open>NotFoundError\<close> then does not
  accept, or the wrapped error of the backup policy lookup or of the allowed-IP
  lookup, whatever that error is.
\<close>

theorem read_absent_instance:
  "(DescribeMongoDBInstance_result pv (calls w) (Id (rd w)) = Inl e \<and> NotFoundError pv e \<longrightarrow>
      resourceAlicloudMongoDBInstanceRead pv w =
        (None, onData (SetId []) (issue (DescribeMongoDBInstance (Id (rd w))) w)) \<and>
      (DescribeMongoDBInstance_result pv (calls w @ [DescribeMongoDBInstance (Id (rd w))]) [] = Inl e' \<and>
       NotFoundError pv e' \<longrightarrow>
         fst (resourceAlicloudMongoDBInstanceRead pv (snd (resourceAlicloudMongoDBInstanceRead pv w))) = None \<and>
         rd (snd (resourceAlicloudMongoDBInstanceRead pv (snd (resourceAlicloudMongoDBInstanceRead pv w)))) =
           rd (snd (resourceAlicloudMongoDBInstanceRead pv w)))) \<and>
   (fst (resourceAlicloudMongoDBInstanceRead pv w) = Some err \<longrightarrow>
      (\<exists>c. err = WrapError c \<and>
        ((DescribeMongoDBInstance_result pv (calls w) (Id (rd w)) = Inl c \<and> \<not> NotFoundError pv c) \<or>
         DescribeMongoDBBackupPolicy_result pv
           (calls w @ [DescribeMongoDBInstance (Id (rd w))]) (Id (rd w)) = Inl c \<or>
         GetSecurityIps_result pv
           (calls w @ [DescribeMongoDBInstance (Id (rd w)), DescribeMongoDBBackupPolicy (Id (rd w))])
           (Id (rd w)) = Inl c)))"
proof -
  let ?w1 = "onData (SetId []) (issue (DescribeMongoDBInstance (Id (rd w))) w)"
  have 1: "resourceAlicloudMongoDBInstanceRead pv w = (None, ?w1)"
    if "DescribeMongoDBInstance_result pv (calls w) (Id (rd w)) = Inl e" and "NotFoundError pv e"
    using that by (rule read_not_found)
  have c1: "calls ?w1 = calls w @ [DescribeMongoDBInstance (Id (rd w))]" and i1: "Id (rd ?w1) = []"
    by (simp_all add: onData_def issue_def SetId_def)
  have 2: "fst (resourceAlicloudMongoDBInstanceRead pv ?w1) = None \<and>
           rd (snd (resourceAlicloudMongoDBInstanceRead pv ?w1)) = rd ?w1"
    if again: "DescribeMongoDBInstance_result pv (calls w @ [DescribeMongoDBInstance (Id (rd w))]) [] = Inl e'"
      "NotFoundError pv e'"
  proof -
    have "resourceAlicloudMongoDBInstanceRead pv ?w1 =
            (None, onData (SetId []) (issue (DescribeMongoDBInstance (Id (rd ?w1))) ?w1))"
      using again c1 i1 by (intro read_not_found [of pv ?w1 e']) simp_all
    then show ?thesis
      by (simp add: onData_def issue_def SetId_def)
  qed
  have 3: "\<exists>c. err = WrapError c \<and>
        ((DescribeMongoDBInstance_result pv (calls w) (Id (rd w)) = Inl c \<and> \<not> NotFoundError pv c) \<or>
         DescribeMongoDBBackupPolicy_result pv
           (calls w @ [DescribeMongoDBInstance (Id (rd w))]) (Id (rd w)) = Inl c \<or>
         GetSecurityIps_result pv
           (calls w @ [DescribeMongoDBInstance (Id (rd w)), DescribeMongoDBBackupPolicy (Id (rd w))])
           (Id (rd w)) = Inl c)"
    if "fst (resourceAlicloudMongoDBInstanceRead pv w) = Some err"
    using that by (rule read_error_cause)
  show ?thesis
  proof (intro conjI impI)
    assume a: "DescribeMongoDBInstance_result pv (calls w) (Id (rd w)) = Inl e \<and> NotFoundError pv e"
    show "resourceAlicloudMongoDBInstanceRead pv w = (None, ?w1)"
      using a 1 by blast
    assume b: "DescribeMongoDBInstance_result pv (calls w @ [DescribeMongoDBInstance (Id (rd w))]) [] = Inl e' \<and>
       NotFoundError pv e'"
    have r: "snd (resourceAlicloudMongoDBInstanceRead pv w) = ?w1"
      using a 1 by simp
    show "fst (resourceAlicloudMongoDBInstanceRead pv (snd (resourceAlicloudMongoDBInstanceRead pv w))) = None"
      unfolding r using b 2 by blast
    show "rd (snd (resourceAlicloudMongoDBInstanceRead pv (snd (resourceAlicloudMongoDBInstanceRead pv w)))) =
           rd (snd (resourceAlicloudMongoDBInstanceRead pv w))"
      unfolding r using b 2 by blast
  next
    assume "fst (resourceAlicloudMongoDBInstanceRead pv w) = Some err"
    then show "\<exists>c. err = WrapError c \<and>
        ((DescribeMongoDBInstance_result pv (calls w) (Id (rd w)) = Inl c \<and> \<not> NotFoundError pv c) \<or>
         DescribeMongoDBBackupPolicy_result pv
           (calls w @ [DescribeMongoDBInstance (Id (rd w))]) (Id (rd w)) = Inl c \<or>
         GetSecurityIps_result pv
           (calls w @ [DescribeMongoDBInstance (Id (rd w)), DescribeMongoDBBackupPolicy (Id (rd w))])
           (Id (rd w)) = Inl c)"
      by (rule 3)
  qed
qed

theorem read_absent_instance_witness:
  "DescribeMongoDBInstance_result absentProvider (calls exampleWorld) (Id (rd exampleWorld)) = Inl gone \<and>
   NotFoundError absentProvider gone \<and>
   fst (resourceAlicloudMongoDBInstanceRead absentProvider exampleWorld) = None \<and>
   Id (rd (snd (resourceAlicloudMongoDBInstanceRead absentProvider exampleWorld))) = [] \<and>
   DescribeMongoDBInstance_result absentProvider
     (calls exampleWorld @ [DescribeMongoDBInstance (Id (rd exampleWorld))]) [] = Inl gone \<and>
   fst (resourceAlicloudMongoDBInstanceRead absentProvider
          (snd (resourceAlicloudMongoDBInstanceRead absentProvider exampleWorld))) = None \<and>
   rd (snd (resourceAlicloudMongoDBInstanceRead absentProvider
          (snd (resourceAlicloudMongoDBInstanceRead absentProvider exampleWorld)))) =
     rd (snd (resourceAlicloudMongoDBInstanceRead absentProvider exampleWorld)) \<and>
   fst (resourceAlicloudMongoDBInstanceRead busyProvider exampleWorld) = Some (Wrapped busy) \<and>
   DescribeMongoDBInstance_result busyProvider (calls exampleWorld) (Id (rd exampleWorld)) = Inl busy \<and>
   \<not> NotFoundError busyProvider busy"
proof -
  have h1: "DescribeMongoDBInstance_result absentProvider (calls exampleWorld) (Id (rd exampleWorld)) = Inl gone"
    by (simp add: absentProvider_def)
  have h2: "NotFoundError absentProvider gone"
    by (simp add: absentProvider_def exampleProvider_def gone_def)
  have h3: "DescribeMongoDBInstance_result absentProvider
     (calls exampleWorld @ [DescribeMongoDBInstance (Id (rd exampleWorld))]) [] = Inl gone"
    by (simp add: absentProvider_def)
  note t = read_absent_instance [of absentProvider exampleWorld gone gone]
  have a: "resourceAlicloudMongoDBInstanceRead absentProvider exampleWorld =
        (None, onData (SetId []) (issue (DescribeMongoDBInstance (Id (rd exampleWorld))) exampleWorld))"
    using t h1 h2 by blast
  have i: "Id (rd (snd (resourceAlicloudMongoDBInstanceRead absentProvider exampleWorld))) = []"
    by (simp add: a onData_def SetId_def)
  have b: "fst (resourceAlicloudMongoDBInstanceRead absentProvider
          (snd (resourceAlicloudMongoDBInstanceRead absentProvider exampleWorld))) = None \<and>
      rd (snd (resourceAlicloudMongoDBInstanceRead absentProvider
          (snd (resourceAlicloudMongoDBInstanceRead absentProvider exampleWorld)))) =
     rd (snd (resourceAlicloudMongoDBInstanceRead absentProvider exampleWorld))"
    using t h1 h2 h3 by blast
  have e1: "fst (resourceAlicloudMongoDBInstanceRead busyProvider exampleWorld) = Some (Wrapped busy)"
    by (simp add: resourceAlicloudMongoDBInstanceRead_def busyProvider_def exampleProvider_def
        busy_def issue_def Let_def)
  have e2: "DescribeMongoDBInstance_result busyProvider (calls exampleWorld) (Id (rd exampleWorld)) = Inl busy"
    by (simp add: busyProvider_def)
  have e3: "\<not> NotFoundError busyProvider busy"
    by (simp add: busyProvider_def exampleProvider_def busy_def)
  show ?thesis
    using h1 h2 h3 a i b e1 e2 e3 by simp
qed

text \<open>
  C4 as stated fails on its last part: a lookup of Read other than the instance lookup
  may fail with a not-found error, and Read returns it. Here the instance is found and
  the backup policy lookup reports it gone.
\<close>

theorem read_reports_not_found:
  "fst (resourceAlicloudMongoDBInstanceRead policyGoneProvider exampleWorld) = Some (Wrapped gone) \<and>
   NotFoundError policyGoneProvider gone"
  by (simp add: resourceAlicloudMongoDBInstanceRead_def policyGoneProvider_def exampleProvider_def
      exampleWorld_def exampleData_def gone_def issue_def Let_def)

subsection \<open>Delete and its retry loop\<close>

lemma retryDelete_not_found:
  assumes "retried pv ident (calls w) k"
    and "Invoke_result pv (calls w @ replicate k (DeleteDBInstance ident)) (DeleteDBInstance ident) = Some e"
    and "NotFoundMongoDBInstance pv e"
  shows "retryDelete (Suc (k + m)) pv ident lastErr w =
           (Some e, w\<lparr>calls := calls w @ replicate (Suc k) (DeleteDBInstance ident)\<rparr>)"
  using assms
proof (induction k arbitrary: w lastErr)
  case 0
  then show ?case by (simp add: invoke_def issue_def)
next
  case (Suc k)
  let ?w1 = "issue (DeleteDBInstance ident) w"
  obtain e0 where e0: "Invoke_result pv (calls w) (DeleteDBInstance ident) = Some e0"
    and nf: "\<not> NotFoundMongoDBInstance pv e0"
    using Suc.prems(1) by (auto split: option.splits)
  have r: "retried pv ident (calls ?w1) k"
    using Suc.prems(1) by (simp add: issue_def)
  have a: "Invoke_result pv (calls ?w1 @ replicate k (DeleteDBInstance ident)) (DeleteDBInstance ident) = Some e"
    using Suc.prems(2) by (simp add: issue_def replicate_app_Cons_same)
  have "retryDelete (Suc (Suc k + m)) pv ident lastErr w =
          retryDelete (Suc (k + m)) pv ident (Some e0) ?w1"
    using e0 nf by (simp add: invoke_def)
  also have "\<dots> = (Some e, ?w1\<lparr>calls := calls ?w1 @ replicate (Suc k) (DeleteDBInstance ident)\<rparr>)"
    using Suc.IH [OF r a Suc.prems(3)] .
  finally show ?case
    by (simp add: issue_def replicate_app_Cons_same)
qed

lemma retryDelete_success:
  assumes "retried pv ident (calls w) k"
    and "Invoke_result pv (calls w @ replicate k (DeleteDBInstance ident)) (DeleteDBInstance ident) = None"
  shows "retryDelete (Suc (k + m)) pv ident lastErr w =
           (None, w\<lparr>calls := calls w @ replicate (Suc k) (DeleteDBInstance ident)\<rparr>)"
  using assms
proof (induction k arbitrary: w lastErr)
  case 0
  then show ?case by (simp add: invoke_def issue_def)
next
  case (Suc k)
  let ?w1 = "issue (DeleteDBInstance ident) w"
  obtain e0 where e0: "Invoke_result pv (calls w) (DeleteDBInstance ident) = Some e0"
    and nf: "\<not> NotFoundMongoDBInstance pv e0"
    using Suc.prems(1) by (auto split: option.splits)
  have r: "retried pv ident (calls ?w1) k"
    using Suc.prems(1) by (simp add: issue_def)
  have a: "Invoke_result pv (calls ?w1 @ replicate k (DeleteDBInstance ident)) (DeleteDBInstance ident) = None"
    using Suc.prems(2) by (simp add: issue_def replicate_app_Cons_same)
  have "retryDelete (Suc (Suc k + m)) pv ident lastErr w =
          retryDelete (Suc (k + m)) pv ident (Some e0) ?w1"
    using e0 nf by (simp add: invoke_def)
  also have "\<dots> = (None, ?w1\<lparr>calls := calls ?w1 @ replicate (Suc k) (DeleteDBInstance ident)\<rparr>)"
    using Suc.IH [OF r a] .
  finally show ?case
    by (simp add: issue_def replicate_app_Cons_same)
qed

lemma retryDelete_bounded:
  "\<exists>j \<le> n. snd (retryDelete n pv ident lastErr w) =
             w\<lparr>calls := calls w @ replicate j (DeleteDBInstance ident)\<rparr>"
proof (induction n arbitrary: w lastErr)
  case 0
  then show ?case by (simp split: option.splits)
next
  case (Suc n)
  let ?w1 = "issue (DeleteDBInstance ident) w"
  show ?case
  proof (cases "Invoke_result pv (calls w) (DeleteDBInstance ident)")
    case None
    then have "snd (retryDelete (Suc n) pv ident lastErr w) =
                 w\<lparr>calls := calls w @ replicate 1 (DeleteDBInstance ident)\<rparr>"
      by (simp add: invoke_def issue_def)
    then show ?thesis by (intro exI [of _ 1]) simp
  next
    case (Some e0)
    show ?thesis
    proof (cases "NotFoundMongoDBInstance pv e0")
      case True
      then have "snd (retryDelete (Suc n) pv ident lastErr w) =
                 w\<lparr>calls := calls w @ replicate 1 (DeleteDBInstance ident)\<rparr>"
        using Some by (simp add: invoke_def issue_def)
      then show ?thesis by (intro exI [of _ 1]) simp
    next
      case False
      obtain j where j: "j \<le> n"
        and s: "snd (retryDelete n pv ident (Some e0) ?w1) =
                  ?w1\<lparr>calls := calls ?w1 @ replicate j (DeleteDBInstance ident)\<rparr>"
        using Suc.IH [of "Some e0" ?w1] by blast
      have "snd (retryDelete (Suc n) pv ident lastErr w) =
              w\<lparr>calls := calls w @ replicate (Suc j) (DeleteDBInstance ident)\<rparr>"
        using Some False s by (simp add: invoke_def issue_def replicate_app_Cons_same)
      then show ?thesis using j by (intro exI [of _ "Suc j"]) simp
    qed
  qed
qed


text \<open>
  C3. Delete hands \<^verbatim>\<open>resource.Retry\<close> a budget of 50 minutes. Let the first \<open>k\<close> delete
  calls fail with errors that are not "not found", with \<open>k\<close> below the number of attempts
  the budget allows. Then the call is repeated after each of them, and:
  \<^item> if call \<open>k + 1\<close> fails with a not-found error (one that \<^verbatim>\<open>NotFoundMongoDBInstance\<close>
    accepts and that carries the code \<^verbatim>\<open>InvalidDBInstanceId.NotFound\<close> for
    \<^verbatim>\<open>IsExceptedErrors\<close>), the loop ends there and Delete returns no error, with no
    further call; \<open>k = 0\<close> is the first attempt;
  \<^item> if call \<open>k + 1\<close> succeeds, Delete waits for the state configuration with pending
    states \<^verbatim>\<open>Creating\<close>, \<^verbatim>\<open>Deleting\<close> and no target state, and returns what the wait
    returns.
  In every run the number of delete calls is at most the number of attempts the budget
  allows.
\<close>

theorem delete_retries_until_gone:
  assumes "retried pv (Id (rd w)) (calls w) k"
    and "k < Retry_attempts pv (calls w) (50 * minute)"
  shows "(deleteAnswer pv w k = Some e \<and> NotFoundMongoDBInstance pv e \<and>
          IsExceptedErrors pv e [''InvalidDBInstanceId.NotFound''] \<longrightarrow>
            resourceAlicloudMongoDBInstanceDelete pv w =
              (None, w\<lparr>calls := calls w @ replicate (Suc k) (DeleteDBInstance (Id (rd w)))\<rparr>)) \<and>
         (deleteAnswer pv w k = None \<longrightarrow>
            resourceAlicloudMongoDBInstanceDelete pv w =
              (map_option WrapError
                 (Invoke_result pv (calls w @ replicate (Suc k) (DeleteDBInstance (Id (rd w))))
                    (WaitForState (deleteStateConf (rd w)))),
               w\<lparr>calls := calls w @ replicate (Suc k) (DeleteDBInstance (Id (rd w))) @
                              [WaitForState (deleteStateConf (rd w))]\<rparr>) \<and>
            Pending (deleteStateConf (rd w)) = [''Creating'', ''Deleting''] \<and>
            Target (deleteStateConf (rd w)) = []) \<and>
         length (filter isDeleteCall (newCalls w (resourceAlicloudMongoDBInstanceDelete pv w))) \<le>
           Retry_attempts pv (calls w) (50 * minute)"
proof -
  let ?n = "Retry_attempts pv (calls w) (50 * minute)"
  let ?ev = "DeleteDBInstance (Id (rd w))"
  have budget: "Retry_attempts pv (calls w) (10 * 5 * minute) = ?n" by simp
  obtain m where n: "?n = Suc (k + m)"
    using assms(2) less_iff_Suc_add by auto
  have 1: "resourceAlicloudMongoDBInstanceDelete pv w =
              (None, w\<lparr>calls := calls w @ replicate (Suc k) ?ev\<rparr>)"
    if a: "deleteAnswer pv w k = Some e" "NotFoundMongoDBInstance pv e"
      "IsExceptedErrors pv e [''InvalidDBInstanceId.NotFound'']"
  proof -
    have "retryDelete ?n pv (Id (rd w)) None w = (Some e, w\<lparr>calls := calls w @ replicate (Suc k) ?ev\<rparr>)"
      unfolding n using assms(1) a(1) a(2)
      by (intro retryDelete_not_found) (simp_all add: deleteAnswer_def)
    then show ?thesis
      using a(3) by (simp add: resourceAlicloudMongoDBInstanceDelete_def budget)
  qed
  have 2: "resourceAlicloudMongoDBInstanceDelete pv w =
              (map_option WrapError
                 (Invoke_result pv (calls w @ replicate (Suc k) ?ev) (WaitForState (deleteStateConf (rd w)))),
               w\<lparr>calls := calls w @ replicate (Suc k) ?ev @ [WaitForState (deleteStateConf (rd w))]\<rparr>)"
    if a: "deleteAnswer pv w k = None"
  proof -
    have "retryDelete ?n pv (Id (rd w)) None w = (None, w\<lparr>calls := calls w @ replicate (Suc k) ?ev\<rparr>)"
      unfolding n using assms(1) a
      by (intro retryDelete_success) (simp_all add: deleteAnswer_def)
    then show ?thesis
      by (simp add: resourceAlicloudMongoDBInstanceDelete_def budget invoke_def issue_def
          split: option.splits)
  qed
  have 3: "Pending (deleteStateConf (rd w)) = [''Creating'', ''Deleting''] \<and>
           Target (deleteStateConf (rd w)) = []"
    by (simp add: deleteStateConf_def BuildStateConf_def)
  obtain j where j: "j \<le> ?n"
    and s: "snd (retryDelete ?n pv (Id (rd w)) None w) = w\<lparr>calls := calls w @ replicate j ?ev\<rparr>"
    using retryDelete_bounded by blast
  have "filter isDeleteCall (newCalls w (resourceAlicloudMongoDBInstanceDelete pv w)) = replicate j ?ev"
    using s
    by (cases "retryDelete ?n pv (Id (rd w)) None w")
       (auto simp: resourceAlicloudMongoDBInstanceDelete_def budget newCalls_def invoke_def issue_def
          split: option.splits)
  then have 4: "length (filter isDeleteCall (newCalls w (resourceAlicloudMongoDBInstanceDelete pv w))) \<le> ?n"
    using j by simp
  show ?thesis using 1 2 3 4 by blast
qed

theorem delete_retries_until_gone_witness:
  "retried staleProvider (Id (rd exampleWorld)) (calls exampleWorld) (Suc (Suc 0)) \<and>
   Suc (Suc 0) < Retry_attempts staleProvider (calls exampleWorld) (50 * minute) \<and>
   deleteAnswer staleProvider exampleWorld (Suc (Suc 0)) = Some gone \<and>
   NotFoundMongoDBInstance staleProvider gone \<and>
   IsExceptedErrors staleProvider gone [''InvalidDBInstanceId.NotFound''] \<and>
   resourceAlicloudMongoDBInstanceDelete staleProvider exampleWorld =
     (None, exampleWorld\<lparr>calls := [DeleteDBInstance ''dds-1'', DeleteDBInstance ''dds-1'',
                                    DeleteDBInstance ''dds-1'']\<rparr>) \<and>
   retried exampleProvider (Id (rd exampleWorld)) (calls exampleWorld) 0 \<and>
   0 < Retry_attempts exampleProvider (calls exampleWorld) (50 * minute) \<and>
   deleteAnswer exampleProvider exampleWorld 0 = None \<and>
   resourceAlicloudMongoDBInstanceDelete exampleProvider exampleWorld =
     (None, exampleWorld\<lparr>calls := [DeleteDBInstance ''dds-1'',
                                    WaitForState (deleteStateConf (rd exampleWorld))]\<rparr>)"
proof -
  have i: "Id (rd exampleWorld) = ''dds-1'' \<and> calls exampleWorld = []"
    by (simp add: exampleWorld_def exampleData_def)
  have h1: "retried staleProvider (Id (rd exampleWorld)) (calls exampleWorld) (Suc (Suc 0))"
    by (simp add: i staleProvider_def exampleProvider_def busy_def)
  have h2: "Suc (Suc 0) < Retry_attempts staleProvider (calls exampleWorld) (50 * minute)"
    by (simp add: staleProvider_def exampleProvider_def minute_def)
  have h3: "deleteAnswer staleProvider exampleWorld (Suc (Suc 0)) = Some gone"
    by (simp add: deleteAnswer_def i staleProvider_def)
  have h4: "NotFoundMongoDBInstance staleProvider gone"
    by (simp add: staleProvider_def exampleProvider_def gone_def)
  have h5: "IsExceptedErrors staleProvider gone [''InvalidDBInstanceId.NotFound'']"
    by (simp add: staleProvider_def exampleProvider_def gone_def)
  have a: "resourceAlicloudMongoDBInstanceDelete staleProvider exampleWorld =
     (None, exampleWorld\<lparr>calls := [DeleteDBInstance ''dds-1'', DeleteDBInstance ''dds-1'',
                                    DeleteDBInstance ''dds-1'']\<rparr>)"
    using delete_retries_until_gone [OF h1 h2, of gone] h3 h4 h5 by (simp add: i)
  have g1: "retried exampleProvider (Id (rd exampleWorld)) (calls exampleWorld) 0"
    by simp
  have g2: "0 < Retry_attempts exampleProvider (calls exampleWorld) (50 * minute)"
    by (simp add: exampleProvider_def minute_def)
  have g3: "deleteAnswer exampleProvider exampleWorld 0 = None"
    by (simp add: deleteAnswer_def exampleProvider_def)
  have g4: "Invoke_result exampleProvider h c = None" for h c
    by (simp add: exampleProvider_def)
  have b: "resourceAlicloudMongoDBInstanceDelete exampleProvider exampleWorld =
     (None, exampleWorld\<lparr>calls := [DeleteDBInstance ''dds-1'',
                                    WaitForState (deleteStateConf (rd exampleWorld))]\<rparr>)"
    using delete_retries_until_gone [OF g1 g2, of gone] g3 g4 by (simp add: i)
  show ?thesis
    using h1 h2 h3 h4 h5 a g1 g2 g3 b by blast
qed

subsection \<open>The capacity block of Update\<close>

lemma nextIsWait_append: "nextIsWait xs \<Longrightarrow> nextIsWait (xs @ ys)"
  by (cases xs) (simp_all add: nextIsWait_def)

lemma specGuarded_append:
  "specGuarded pv h xs \<Longrightarrow> specGuarded pv (h @ xs) ys \<Longrightarrow> specGuarded pv h (xs @ ys)"
proof (induction xs arbitrary: h)
  case Nil
  then show ?case by simp
next
  case (Cons x xs)
  then show ?case by (auto simp: nextIsWait_append)
qed

lemma specGuarded_noSpec: "list_all (\<lambda>c. \<not> isSpecCall c) xs \<Longrightarrow> specGuarded pv h xs"
  by (induction xs arbitrary: h) auto

lemma guarded_trans: "guarded pv a b \<Longrightarrow> guarded pv b c \<Longrightarrow> guarded pv a c"
  unfolding guarded_def using specGuarded_append by fastforce

lemma noSpec_guarded: "noSpec w w' \<Longrightarrow> guarded pv w w'"
  unfolding noSpec_def guarded_def using specGuarded_noSpec by blast

lemma guarded_same_calls: "calls w0 = calls w \<Longrightarrow> guarded pv w w' \<Longrightarrow> guarded pv w0 w'"
  by (simp add: guarded_def)

lemma andThen_rel:
  assumes "\<And>a b c. P a b \<Longrightarrow> P b c \<Longrightarrow> P a c"
    and "P w (snd r)"
    and "\<And>w1. P w1 (snd (k w1))"
  shows "P w (snd (andThen r k))"
proof (cases r)
  case (Pair res w1)
  show ?thesis
  proof (cases res)
    case None
    then have "andThen r k = k w1" using Pair by (simp add: andThen_def)
    then show ?thesis using assms(1) [OF _ assms(3) [of w1]] assms(2) Pair by simp
  next
    case (Some e)
    then have "andThen r k = r" using Pair by (simp add: andThen_def)
    then show ?thesis using assms(2) by simp
  qed
qed

lemma backup_noSpec: "noSpec w (snd (updateBackupPolicy pv w))"
  by (simp add: noSpec_def updateBackupPolicy_def invoke_def issue_def onData_def split: option.splits)

lemma maintain_noSpec: "noSpec w (snd (updateMaintainTime pv w))"
  by (simp add: noSpec_def updateMaintainTime_def invoke_def issue_def onData_def Let_def
      split: option.splits)

lemma name_noSpec: "noSpec w (snd (updateName pv w))"
  by (simp add: noSpec_def updateName_def invoke_def issue_def onData_def split: option.splits)

lemma ips_noSpec: "noSpec w (snd (updateSecurityIps pv w))"
  by (simp add: noSpec_def updateSecurityIps_def invoke_def issue_def onData_def split: option.splits)

lemma password_noSpec: "noSpec w (snd (updateAccountPassword pv w))"
  by (simp add: noSpec_def updateAccountPassword_def updateCredential_def invoke_def issue_def
      onData_def Let_def split: option.splits sum.splits)

lemma read_noSpec: "noSpec w (snd (resourceAlicloudMongoDBInstanceRead pv w))"
  by (simp add: noSpec_def resourceAlicloudMongoDBInstanceRead_def issue_def onData_def
      setAttrs_def Let_def split: sum.splits)

lemma spec_calls:
  assumes "HasChange (rd w) ''db_instance_storage'' \<or> HasChange (rd w) ''db_instance_class'' \<or>
           HasChange (rd w) ''replication_factor''"
  shows "newCalls w (updateSpec pv w) =
     (case Invoke_result pv (calls w) (WaitForState (specStateConf (rd w))) of
        Some err \<Rightarrow> [WaitForState (specStateConf (rd w))]
      | None \<Rightarrow>
          (case Invoke_result pv (calls w @ [WaitForState (specStateConf (rd w))])
                  (ModifyDBInstanceSpec (specRequest (rd w))) of
             Some err \<Rightarrow> [WaitForState (specStateConf (rd w)), ModifyDBInstanceSpec (specRequest (rd w))]
           | None \<Rightarrow>
               WaitForState (specStateConf (rd w)) # ModifyDBInstanceSpec (specRequest (rd w)) #
               WaitForState (specStateConf (rd w)) #
               (case Invoke_result pv
                       (calls w @ [WaitForState (specStateConf (rd w)),
                                   ModifyDBInstanceSpec (specRequest (rd w))])
                       (WaitForState (specStateConf (rd w))) of
                  Some err \<Rightarrow> []
                | None \<Rightarrow> [WaitForState (specStateConf (rd w))])))"
  using assms
  by (simp add: updateSpec_def invoke_def issue_def onData_def newCalls_def Let_def
      split: option.splits)

lemma spec_target: "Target (specStateConf d) = [''Running'']"
  by (simp add: specStateConf_def BuildStateConf_def)

lemma spec_extends: "\<exists>S. calls (snd (updateSpec pv w)) = calls w @ S"
  by (simp add: updateSpec_def invoke_def issue_def onData_def Let_def split: option.splits)

lemma spec_guarded: "guarded pv w (snd (updateSpec pv w))"
proof (cases "HasChange (rd w) ''db_instance_storage'' \<or> HasChange (rd w) ''db_instance_class'' \<or>
           HasChange (rd w) ''replication_factor''")
  case False
  then show ?thesis by (simp add: updateSpec_def guarded_def)
next
  case True
  obtain S where S: "calls (snd (updateSpec pv w)) = calls w @ S"
    using spec_extends by blast
  then have n: "newCalls w (updateSpec pv w) = S" by (simp add: newCalls_def)
  have "specGuarded pv (calls w) S"
    using spec_calls [OF True, of pv] n
    by (auto simp: precededByWait_def nextIsWait_def spec_target split: option.splits)
  then show ?thesis using S by (auto simp: guarded_def)
qed


lemma existing_guarded: "guarded pv w (snd (updateExisting pv w))"
  unfolding updateExisting_def
proof (intro andThen_rel [where P = "guarded pv"])
  show "guarded pv w (snd (updateName pv w))" by (simp add: noSpec_guarded name_noSpec)
  show "guarded pv w1 (snd (updateSecurityIps pv w1))" for w1
    by (simp add: noSpec_guarded ips_noSpec)
  show "guarded pv w1 (snd (updateAccountPassword pv w1))" for w1
    by (simp add: noSpec_guarded password_noSpec)
  show "guarded pv w1 (snd (updateSpec pv w1))" for w1
    by (rule spec_guarded)
  show "guarded pv w1 (snd (resourceAlicloudMongoDBInstanceRead pv (onData (Partial False) w1)))" for w1
    by (rule guarded_same_calls [of _ "onData (Partial False) w1"])
       (simp_all add: onData_def noSpec_guarded read_noSpec)
qed (blast intro: guarded_trans)+

lemma update_guarded: "guarded pv w (snd (resourceAlicloudMongoDBInstanceUpdate pv w))"
  unfolding resourceAlicloudMongoDBInstanceUpdate_def
proof (intro andThen_rel [where P = "guarded pv"])
  show "guarded pv w (snd (updateBackupPolicy pv (onData (Partial True) w)))"
    by (rule guarded_same_calls [of _ "onData (Partial True) w"])
       (simp_all add: onData_def noSpec_guarded backup_noSpec)
  show "guarded pv w1 (snd (updateMaintainTime pv w1))" for w1
    by (simp add: noSpec_guarded maintain_noSpec)
  show "guarded pv w1 (snd (if IsNewResource (rd w1)
          then resourceAlicloudMongoDBInstanceRead pv (onData (Partial False) w1)
          else updateExisting pv w1))" for w1
  proof (cases "IsNewResource (rd w1)")
    case True
    then show ?thesis
      using guarded_same_calls [of w1 "onData (Partial False) w1" pv
          "snd (resourceAlicloudMongoDBInstanceRead pv (onData (Partial False) w1))"]
      by (simp add: onData_def noSpec_guarded read_noSpec)
  next
    case False
    then show ?thesis by (simp add: existing_guarded)
  qed
qed (blast intro: guarded_trans)+

text \<open>A changed storage size with every call succeeding, and with every wait timing out.\<close>

lemma resize_calls:
  "map callName (newCalls resizeWorld (resourceAlicloudMongoDBInstanceUpdate exampleProvider resizeWorld)) =
     [''WaitForState'', ''ModifyDBInstanceSpec'', ''WaitForState'', ''WaitForState'',
      ''DescribeMongoDBInstance'', ''DescribeMongoDBBackupPolicy'', ''GetSecurityIps'']"
  by (simp add: resourceAlicloudMongoDBInstanceUpdate_def updateExisting_def andThen_def invoke_def
        updateBackupPolicy_def updateMaintainTime_def updateName_def updateSecurityIps_def
        updateAccountPassword_def updateSpec_def onData_def newCalls_def
        resourceAlicloudMongoDBInstanceRead_def issue_def setAttrs_def Let_def
        resizeWorld_def exampleWorld_def exampleData_def exampleProvider_def HasChange_def
        IsNewResource_def Partial_def SetPartial_def)

lemma resize_timeout_calls:
  "resourceAlicloudMongoDBInstanceUpdate timeoutProvider resizeWorld =
     (Some (Wrapped waitTimeout),
      onData (Partial True) (issue (WaitForState (specStateConf (rd resizeWorld))) resizeWorld))"
  by (simp add: resourceAlicloudMongoDBInstanceUpdate_def updateExisting_def andThen_def invoke_def
        updateBackupPolicy_def updateMaintainTime_def updateName_def updateSecurityIps_def
        updateAccountPassword_def updateSpec_def onData_def specStateConf_def
        issue_def setAttrs_def Let_def timeoutProvider_def waitTimeout_def
        resizeWorld_def exampleWorld_def exampleData_def exampleProvider_def HasChange_def
        IsNewResource_def Partial_def SetPartial_def)

lemma andThen_assoc: "andThen (andThen r f) g = andThen r (\<lambda>w. andThen (f w) g)"
  by (cases r; cases "fst r") (auto simp: andThen_def split: option.splits)

lemma andThen_cong_on:
  assumes "\<And>w'. r = (None, w') \<Longrightarrow> k w' = k' w'"
  shows "andThen r k = andThen r k'"
  using assms by (cases r; cases "fst r") (auto simp: andThen_def)

lemma sameResource_trans: "sameResource a b \<Longrightarrow> sameResource b c \<Longrightarrow> sameResource a c"
  by (simp add: sameResource_def)

lemma noSpec_trans: "noSpec a b \<Longrightarrow> noSpec b c \<Longrightarrow> noSpec a c"
  unfolding noSpec_def by fastforce

lemma SetPartial_keeps:
  "Id (SetPartial k d) = Id d"
  "attrs (SetPartial k d) = attrs d"
  "changed (SetPartial k d) = changed d"
  "isNew (SetPartial k d) = isNew d"
  "timeoutUpdate (SetPartial k d) = timeoutUpdate d"
  by (simp_all add: SetPartial_def)

lemma backup_same: "sameResource w (snd (updateBackupPolicy pv w))"
  by (simp add: sameResource_def updateBackupPolicy_def invoke_def issue_def onData_def
      SetPartial_keeps split: option.splits)

lemma maintain_same: "sameResource w (snd (updateMaintainTime pv w))"
  by (simp add: sameResource_def updateMaintainTime_def invoke_def issue_def onData_def
      SetPartial_keeps Let_def split: option.splits)

lemma name_same: "sameResource w (snd (updateName pv w))"
  by (simp add: sameResource_def updateName_def invoke_def issue_def onData_def
      SetPartial_keeps split: option.splits)

lemma ips_same: "sameResource w (snd (updateSecurityIps pv w))"
  by (simp add: sameResource_def updateSecurityIps_def invoke_def issue_def onData_def
      SetPartial_keeps split: option.splits)

lemma password_same: "sameResource w (snd (updateAccountPassword pv w))"
  by (simp add: sameResource_def updateAccountPassword_def updateCredential_def invoke_def
      issue_def onData_def SetPartial_keeps Let_def split: option.splits sum.splits)

lemma before_same: "sameResource w (snd (updateBeforeSpec pv w))"
  unfolding updateBeforeSpec_def
proof (intro andThen_rel [where P = sameResource])
  show "sameResource w (snd (updateBackupPolicy pv (onData (Partial True) w)))"
    using backup_same [of "onData (Partial True) w" pv]
    by (simp add: sameResource_def onData_def Partial_def)
  show "sameResource w1 (snd (updateMaintainTime pv w1))" for w1 by (rule maintain_same)
  show "sameResource w1 (snd (updateName pv w1))" for w1 by (rule name_same)
  show "sameResource w1 (snd (updateSecurityIps pv w1))" for w1 by (rule ips_same)
  show "sameResource w1 (snd (updateAccountPassword pv w1))" for w1 by (rule password_same)
qed (blast intro: sameResource_trans)+

lemma before_noSpec: "noSpec w (snd (updateBeforeSpec pv w))"
  unfolding updateBeforeSpec_def
proof (intro andThen_rel [where P = noSpec])
  show "noSpec w (snd (updateBackupPolicy pv (onData (Partial True) w)))"
    using backup_noSpec [of "onData (Partial True) w" pv]
    by (simp add: noSpec_def onData_def)
  show "noSpec w1 (snd (updateMaintainTime pv w1))" for w1 by (rule maintain_noSpec)
  show "noSpec w1 (snd (updateName pv w1))" for w1 by (rule name_noSpec)
  show "noSpec w1 (snd (updateSecurityIps pv w1))" for w1 by (rule ips_noSpec)
  show "noSpec w1 (snd (updateAccountPassword pv w1))" for w1 by (rule password_noSpec)
qed (blast intro: noSpec_trans)+

lemma update_stored_eq:
  assumes "\<not> IsNewResource (rd w)"
  shows "resourceAlicloudMongoDBInstanceUpdate pv w =
           andThen (updateBeforeSpec pv w) (\<lambda>w.
           andThen (updateSpec pv w) (\<lambda>w.
           resourceAlicloudMongoDBInstanceRead pv (onData (Partial False) w)))"
proof -
  let ?w0 = "onData (Partial True) w"
  have n0: "\<not> isNew (rd ?w0)"
    using assms by (simp add: IsNewResource_def onData_def Partial_def)
  have inner: "(if IsNewResource (rd w2)
          then resourceAlicloudMongoDBInstanceRead pv (onData (Partial False) w2)
          else updateExisting pv w2) = updateExisting pv w2"
    if "updateBackupPolicy pv ?w0 = (None, w1)" and "updateMaintainTime pv w1 = (None, w2)" for w1 w2
  proof -
    have "isNew (rd w1) = isNew (rd ?w0)"
      using backup_isNew [of pv ?w0] that(1) by simp
    moreover have "isNew (rd w2) = isNew (rd w1)"
      using maintain_isNew [of pv w1] that(2) by simp
    ultimately show ?thesis using n0 by (simp add: IsNewResource_def)
  qed
  have "resourceAlicloudMongoDBInstanceUpdate pv w =
          andThen (updateBackupPolicy pv ?w0) (\<lambda>w1.
          andThen (updateMaintainTime pv w1) (\<lambda>w2. updateExisting pv w2))"
    unfolding resourceAlicloudMongoDBInstanceUpdate_def
    by (intro andThen_cong_on) (use inner in blast)
  then show ?thesis
    by (simp add: updateBeforeSpec_def updateExisting_def andThen_assoc)
qed


lemma andThen_extends:
  assumes "\<And>w'. \<exists>T. calls (snd (k w')) = calls w' @ T"
  shows "\<exists>T. calls (snd (andThen r k)) = calls (snd r) @ T"
proof (cases r)
  case (Pair res w')
  then show ?thesis
    using assms [of w'] by (cases res) (auto simp: andThen_def)
qed

lemma read_after_partial_extends:
  "\<exists>T. calls (snd (resourceAlicloudMongoDBInstanceRead pv (onData (Partial False) w))) = calls w @ T"
  using read_calls [of pv "onData (Partial False) w"] by (auto simp: onData_def)

lemma spec_wait_fails:
  assumes "HasChange (rd w) ''db_instance_storage'' \<or> HasChange (rd w) ''db_instance_class'' \<or>
           HasChange (rd w) ''replication_factor''"
    and "Invoke_result pv (calls w) (WaitForState (specStateConf (rd w))) = Some e"
  shows "updateSpec pv w = (Some (WrapError e), issue (WaitForState (specStateConf (rd w))) w)"
  using assms by (simp add: updateSpec_def invoke_def Let_def)

lemma spec_rejected:
  assumes "HasChange (rd w) ''db_instance_storage'' \<or> HasChange (rd w) ''db_instance_class'' \<or>
           HasChange (rd w) ''replication_factor''"
    and "Invoke_result pv (calls w) (WaitForState (specStateConf (rd w))) = None"
    and "Invoke_result pv (calls w @ [WaitForState (specStateConf (rd w))])
           (ModifyDBInstanceSpec (specRequest (rd w))) = Some e"
  shows "updateSpec pv w =
           (Some (WrapErrorf e [Id (rd w), ''ModifyDBInstanceSpec'']),
            issue (ModifyDBInstanceSpec (specRequest (rd w)))
              (issue (WaitForState (specStateConf (rd w))) w))"
  using assms by (simp add: updateSpec_def invoke_def issue_def Let_def)

lemma spec_accepted:
  assumes "HasChange (rd w) ''db_instance_storage'' \<or> HasChange (rd w) ''db_instance_class'' \<or>
           HasChange (rd w) ''replication_factor''"
    and "Invoke_result pv (calls w) (WaitForState (specStateConf (rd w))) = None"
    and "Invoke_result pv (calls w @ [WaitForState (specStateConf (rd w))])
           (ModifyDBInstanceSpec (specRequest (rd w))) = None"
  shows "\<exists>rest. calls (snd (updateSpec pv w)) =
           calls w @ WaitForState (specStateConf (rd w)) # ModifyDBInstanceSpec (specRequest (rd w)) #
             WaitForState (specStateConf (rd w)) # rest"
  using assms
  by (simp add: updateSpec_def invoke_def issue_def onData_def Let_def split: option.splits)

lemma update_capacity_block:
  assumes "\<not> IsNewResource (rd w)"
    and "HasChange (rd w) ''db_instance_storage'' \<or> HasChange (rd w) ''db_instance_class'' \<or>
         HasChange (rd w) ''replication_factor''"
    and "updateBeforeSpec pv w = (None, w1)"
  shows "Target (specStateConf (rd w)) = [''Running''] \<and>
         (\<exists>S. calls w1 = calls w @ S \<and> list_all (\<lambda>c. \<not> isSpecCall c) S) \<and>
         (Invoke_result pv (calls w1) (WaitForState (specStateConf (rd w))) = Some e \<longrightarrow>
            resourceAlicloudMongoDBInstanceUpdate pv w =
              (Some (WrapError e), issue (WaitForState (specStateConf (rd w))) w1) \<and>
            list_all (\<lambda>c. \<not> isSpecCall c) (newCalls w (resourceAlicloudMongoDBInstanceUpdate pv w))) \<and>
         (Invoke_result pv (calls w1) (WaitForState (specStateConf (rd w))) = None \<longrightarrow>
            (\<exists>post. calls (snd (resourceAlicloudMongoDBInstanceUpdate pv w)) =
                      calls w1 @ WaitForState (specStateConf (rd w)) #
                        ModifyDBInstanceSpec (specRequest (rd w)) # post \<and>
               (Invoke_result pv (calls w1 @ [WaitForState (specStateConf (rd w))])
                  (ModifyDBInstanceSpec (specRequest (rd w))) = None \<longrightarrow>
                  (\<exists>rest. post = WaitForState (specStateConf (rd w)) # rest)) \<and>
               (Invoke_result pv (calls w1 @ [WaitForState (specStateConf (rd w))])
                  (ModifyDBInstanceSpec (specRequest (rd w))) = Some e' \<longrightarrow>
                  post = [] \<and>
                  fst (resourceAlicloudMongoDBInstanceUpdate pv w) =
                    Some (WrapErrorf e' [Id (rd w), ''ModifyDBInstanceSpec'']))))"
proof -
  let ?W = "WaitForState (specStateConf (rd w))"
  let ?M = "ModifyDBInstanceSpec (specRequest (rd w))"
  let ?U = "resourceAlicloudMongoDBInstanceUpdate pv w"
  let ?k = "\<lambda>w. resourceAlicloudMongoDBInstanceRead pv (onData (Partial False) w)"
  have same: "sameResource w w1"
    using before_same [of w pv] assms(3) by simp
  obtain S where S: "calls w1 = calls w @ S" and nS: "list_all (\<lambda>c. \<not> isSpecCall c) S"
    using before_noSpec [of w pv] assms(3) by (auto simp: noSpec_def)
  have conf: "specStateConf (rd w1) = specStateConf (rd w)"
    and req: "specRequest (rd w1) = specRequest (rd w)"
    and cap: "HasChange (rd w1) ''db_instance_storage'' \<or> HasChange (rd w1) ''db_instance_class'' \<or>
              HasChange (rd w1) ''replication_factor''"
    and ident: "Id (rd w1) = Id (rd w)"
    using same assms(2) by (simp_all add: sameResource_def specStateConf_def specRequest_def HasChange_def)
  have u: "?U = andThen (updateSpec pv w1) ?k"
    using update_stored_eq [OF assms(1), of pv] assms(3) by (simp add: andThen_def)
  have 0: "Target (specStateConf (rd w)) = [''Running'']"
    by (rule spec_target)
  have 1: "?U = (Some (WrapError e), issue ?W w1) \<and> list_all (\<lambda>c. \<not> isSpecCall c) (newCalls w ?U)"
    if f: "Invoke_result pv (calls w1) ?W = Some e"
  proof -
    have "updateSpec pv w1 = (Some (WrapError e), issue ?W w1)"
      using spec_wait_fails [OF cap, of pv e] f conf by simp
    then have r: "?U = (Some (WrapError e), issue ?W w1)"
      using u by (simp add: andThen_def)
    then show ?thesis
      using S nS by (simp add: newCalls_def issue_def)
  qed
  have 2: "\<exists>post. calls (snd ?U) = calls w1 @ ?W # ?M # post \<and>
               (Invoke_result pv (calls w1 @ [?W]) ?M = None \<longrightarrow> (\<exists>rest. post = ?W # rest)) \<and>
               (Invoke_result pv (calls w1 @ [?W]) ?M = Some e' \<longrightarrow>
                  post = [] \<and> fst ?U = Some (WrapErrorf e' [Id (rd w), ''ModifyDBInstanceSpec'']))"
    if ok: "Invoke_result pv (calls w1) ?W = None"
  proof (cases "Invoke_result pv (calls w1 @ [?W]) ?M")
    case None
    obtain rest where r: "calls (snd (updateSpec pv w1)) = calls w1 @ ?W # ?M # ?W # rest"
      using spec_accepted [OF cap, of pv] ok None conf req by auto
    obtain T where "calls (snd ?U) = calls (snd (updateSpec pv w1)) @ T"
      using andThen_extends [of ?k "updateSpec pv w1"] read_after_partial_extends u by metis
    then have "calls (snd ?U) = calls w1 @ ?W # ?M # (?W # rest @ T)"
      using r by simp
    then show ?thesis using None by (intro exI [of _ "?W # rest @ T"]) simp
  next
    case (Some x)
    have "updateSpec pv w1 =
           (Some (WrapErrorf x [Id (rd w1), ''ModifyDBInstanceSpec'']), issue ?M (issue ?W w1))"
      using spec_rejected [OF cap, of pv x] ok Some conf req by simp
    then have "?U = (Some (WrapErrorf x [Id (rd w), ''ModifyDBInstanceSpec'']), issue ?M (issue ?W w1))"
      using u ident by (simp add: andThen_def)
    then show ?thesis using Some by (intro exI [of _ "[]"]) (simp add: issue_def)
  qed
  show ?thesis
    using 0 S nS 1 2 by blast
qed

text \<open>
  C2 as the code has it. In every run of Update, each modify-spec call stands right
  after a wait for \<^verbatim>\<open>Running\<close> that succeeded and, once accepted, right before another
  wait for \<^verbatim>\<open>Running\<close>. Let Update run on a stored (not new) resource, a capacity key
  have a change, and the blocks before the capacity block have succeeded, leaving the
  world \<open>w1\<close> (they issue no modify-spec call). Then the next call is the wait for
  \<^verbatim>\<open>Running\<close>. If that wait fails, Update returns its error at once and issues no
  modify-spec call at all. If it succeeds, the modify-spec call follows; when the
  service accepts it, the next call is the wait for \<^verbatim>\<open>Running\<close> again, and when the
  service refuses it, Update returns that error with no further call.
\<close>

theorem update_spec_waits_for_running:
  "specGuarded pv (calls w) (newCalls w (resourceAlicloudMongoDBInstanceUpdate pv w)) \<and>
   (\<not> IsNewResource (rd w) \<and>
    (HasChange (rd w) ''db_instance_storage'' \<or> HasChange (rd w) ''db_instance_class'' \<or>
     HasChange (rd w) ''replication_factor'') \<and>
    updateBeforeSpec pv w = (None, w1) \<longrightarrow>
         Target (specStateConf (rd w)) = [''Running''] \<and>
         (\<exists>S. calls w1 = calls w @ S \<and> list_all (\<lambda>c. \<not> isSpecCall c) S) \<and>
         (Invoke_result pv (calls w1) (WaitForState (specStateConf (rd w))) = Some e \<longrightarrow>
            resourceAlicloudMongoDBInstanceUpdate pv w =
              (Some (WrapError e), issue (WaitForState (specStateConf (rd w))) w1) \<and>
            list_all (\<lambda>c. \<not> isSpecCall c) (newCalls w (resourceAlicloudMongoDBInstanceUpdate pv w))) \<and>
         (Invoke_result pv (calls w1) (WaitForState (specStateConf (rd w))) = None \<longrightarrow>
            (\<exists>post. calls (snd (resourceAlicloudMongoDBInstanceUpdate pv w)) =
                      calls w1 @ WaitForState (specStateConf (rd w)) #
                        ModifyDBInstanceSpec (specRequest (rd w)) # post \<and>
               (Invoke_result pv (calls w1 @ [WaitForState (specStateConf (rd w))])
                  (ModifyDBInstanceSpec (specRequest (rd w))) = None \<longrightarrow>
                  (\<exists>rest. post = WaitForState (specStateConf (rd w)) # rest)) \<and>
               (Invoke_result pv (calls w1 @ [WaitForState (specStateConf (rd w))])
                  (ModifyDBInstanceSpec (specRequest (rd w))) = Some e' \<longrightarrow>
                  post = [] \<and>
                  fst (resourceAlicloudMongoDBInstanceUpdate pv w) =
                    Some (WrapErrorf e' [Id (rd w), ''ModifyDBInstanceSpec''])))))"
proof -
  obtain G where G: "calls (snd (resourceAlicloudMongoDBInstanceUpdate pv w)) = calls w @ G"
    and g: "specGuarded pv (calls w) G"
    using update_guarded [of pv w] by (auto simp: guarded_def)
  have "specGuarded pv (calls w) (newCalls w (resourceAlicloudMongoDBInstanceUpdate pv w))"
    using G g by (simp add: newCalls_def)
  then show ?thesis
    using update_capacity_block [of w pv w1 e e'] by blast
qed

lemma before_rename_resize:
  "fst (updateBeforeSpec exampleProvider renameResizeWorld) = None \<and>
   map callName (calls (snd (updateBeforeSpec exampleProvider renameResizeWorld))) =
     [''ModifyDBInstanceDescription'']"
  by (simp add: updateBeforeSpec_def andThen_def invoke_def
        updateBackupPolicy_def updateMaintainTime_def updateName_def updateSecurityIps_def
        updateAccountPassword_def onData_def issue_def setAttrs_def Let_def
        renameResizeWorld_def exampleWorld_def exampleData_def exampleProvider_def HasChange_def
        Partial_def SetPartial_def)

lemma before_resize_timeout:
  "updateBeforeSpec timeoutProvider resizeWorld = (None, onData (Partial True) resizeWorld)"
  by (simp add: updateBeforeSpec_def andThen_def invoke_def
        updateBackupPolicy_def updateMaintainTime_def updateName_def updateSecurityIps_def
        updateAccountPassword_def onData_def issue_def setAttrs_def Let_def
        resizeWorld_def exampleWorld_def exampleData_def HasChange_def
        Partial_def SetPartial_def)

theorem update_spec_waits_for_running_witness:
  "\<not> IsNewResource (rd renameResizeWorld) \<and>
   HasChange (rd renameResizeWorld) ''db_instance_storage'' \<and>
   fst (updateBeforeSpec exampleProvider renameResizeWorld) = None \<and>
   map callName (calls (snd (updateBeforeSpec exampleProvider renameResizeWorld))) =
     [''ModifyDBInstanceDescription''] \<and>
   (\<exists>rest. calls (snd (resourceAlicloudMongoDBInstanceUpdate exampleProvider renameResizeWorld)) =
      calls (snd (updateBeforeSpec exampleProvider renameResizeWorld)) @
      WaitForState (specStateConf (rd renameResizeWorld)) #
      ModifyDBInstanceSpec (specRequest (rd renameResizeWorld)) #
      WaitForState (specStateConf (rd renameResizeWorld)) # rest) \<and>
   \<not> IsNewResource (rd resizeWorld) \<and>
   HasChange (rd resizeWorld) ''db_instance_storage'' \<and>
   updateBeforeSpec timeoutProvider resizeWorld = (None, onData (Partial True) resizeWorld) \<and>
   Invoke_result timeoutProvider (calls (onData (Partial True) resizeWorld))
     (WaitForState (specStateConf (rd resizeWorld))) = Some waitTimeout \<and>
   resourceAlicloudMongoDBInstanceUpdate timeoutProvider resizeWorld =
     (Some (Wrapped waitTimeout),
      issue (WaitForState (specStateConf (rd resizeWorld))) (onData (Partial True) resizeWorld)) \<and>
   list_all (\<lambda>c. \<not> isSpecCall c)
     (newCalls resizeWorld (resourceAlicloudMongoDBInstanceUpdate timeoutProvider resizeWorld))"
proof -
  let ?wA = "snd (updateBeforeSpec exampleProvider renameResizeWorld)"
  have n1: "\<not> IsNewResource (rd renameResizeWorld)"
    by (simp add: renameResizeWorld_def setAttrs_def onData_def exampleWorld_def exampleData_def
        IsNewResource_def)
  have h1: "HasChange (rd renameResizeWorld) ''db_instance_storage''"
    by (simp add: renameResizeWorld_def setAttrs_def onData_def HasChange_def)
  have b1: "updateBeforeSpec exampleProvider renameResizeWorld = (None, ?wA)"
    using before_rename_resize by (simp add: prod_eq_iff)
  have ok: "Invoke_result exampleProvider h c = None" for h c
    by (simp add: exampleProvider_def)
  have a: "\<exists>rest. calls (snd (resourceAlicloudMongoDBInstanceUpdate exampleProvider renameResizeWorld)) =
      calls ?wA @
      WaitForState (specStateConf (rd renameResizeWorld)) #
      ModifyDBInstanceSpec (specRequest (rd renameResizeWorld)) #
      WaitForState (specStateConf (rd renameResizeWorld)) # rest"
    using update_spec_waits_for_running [of exampleProvider renameResizeWorld ?wA busy busy]
      n1 h1 b1
    by (auto simp: ok)
  have n2: "\<not> IsNewResource (rd resizeWorld)"
    by (simp add: resizeWorld_def setAttrs_def onData_def exampleWorld_def exampleData_def
        IsNewResource_def)
  have h2: "HasChange (rd resizeWorld) ''db_instance_storage''"
    by (simp add: resizeWorld_def setAttrs_def onData_def HasChange_def)
  have t: "Invoke_result timeoutProvider (calls (onData (Partial True) resizeWorld))
     (WaitForState (specStateConf (rd resizeWorld))) = Some waitTimeout"
    by (simp add: timeoutProvider_def)
  have w: "WrapError waitTimeout = Wrapped waitTimeout"
    by (simp add: waitTimeout_def)
  have b: "resourceAlicloudMongoDBInstanceUpdate timeoutProvider resizeWorld =
     (Some (Wrapped waitTimeout),
      issue (WaitForState (specStateConf (rd resizeWorld))) (onData (Partial True) resizeWorld)) \<and>
     list_all (\<lambda>c. \<not> isSpecCall c)
       (newCalls resizeWorld (resourceAlicloudMongoDBInstanceUpdate timeoutProvider resizeWorld))"
  proof -
    have "resourceAlicloudMongoDBInstanceUpdate timeoutProvider resizeWorld =
       (Some (WrapError waitTimeout),
        issue (WaitForState (specStateConf (rd resizeWorld))) (onData (Partial True) resizeWorld)) \<and>
       list_all (\<lambda>c. \<not> isSpecCall c)
         (newCalls resizeWorld (resourceAlicloudMongoDBInstanceUpdate timeoutProvider resizeWorld))"
      using update_spec_waits_for_running
          [of timeoutProvider resizeWorld "onData (Partial True) resizeWorld" waitTimeout busy]
        n2 h2 before_resize_timeout t
      by blast
    then show ?thesis unfolding w .
  qed
  show ?thesis
    using n1 h1 before_rename_resize a n2 h2 before_resize_timeout t b by blast
qed

text \<open>The calls of the run with a changed name and storage size, every call succeeding.\<close>

lemma rename_resize_calls:
  "map callName (newCalls renameResizeWorld
     (resourceAlicloudMongoDBInstanceUpdate exampleProvider renameResizeWorld)) =
     [''ModifyDBInstanceDescription'', ''WaitForState'', ''ModifyDBInstanceSpec'', ''WaitForState'',
      ''WaitForState'', ''DescribeMongoDBInstance'', ''DescribeMongoDBBackupPolicy'', ''GetSecurityIps'']"
  by (simp add: resourceAlicloudMongoDBInstanceUpdate_def updateExisting_def andThen_def invoke_def
        updateBackupPolicy_def updateMaintainTime_def updateName_def updateSecurityIps_def
        updateAccountPassword_def updateSpec_def onData_def newCalls_def
        resourceAlicloudMongoDBInstanceRead_def issue_def setAttrs_def Let_def
        renameResizeWorld_def exampleWorld_def exampleData_def exampleProvider_def HasChange_def
        IsNewResource_def Partial_def SetPartial_def)

text \<open>
  C2 as stated fails where a capacity key has a change and the capacity block is not
  reached or not completed: on a new resource (the first reconciliation changes every
  configured key) Update neither waits nor submits; on a stored resource whose name
  change is refused Update stops there; and when the service refuses the modify-spec
  call, no wait follows it.
\<close>

theorem capacity_change_not_reached:
  "HasChange (rd freshWorld) ''db_instance_storage'' \<and>
   IsNewResource (rd freshWorld) \<and>
   fst (resourceAlicloudMongoDBInstanceUpdate exampleProvider freshWorld) = None \<and>
   map callName (newCalls freshWorld (resourceAlicloudMongoDBInstanceUpdate exampleProvider freshWorld)) =
     [''MotifyMongoDBBackupPolicy'', ''DescribeMongoDBInstance'', ''DescribeMongoDBBackupPolicy'',
      ''GetSecurityIps''] \<and>
   HasChange (rd renameResizeWorld) ''db_instance_storage'' \<and>
   fst (resourceAlicloudMongoDBInstanceUpdate nameRejectProvider renameResizeWorld) =
     Some (WrappedMsg busy [''dds-1'', ''ModifyDBInstanceDescription'']) \<and>
   map callName (newCalls renameResizeWorld
     (resourceAlicloudMongoDBInstanceUpdate nameRejectProvider renameResizeWorld)) =
     [''ModifyDBInstanceDescription''] \<and>
   HasChange (rd resizeWorld) ''db_instance_storage'' \<and>
   fst (resourceAlicloudMongoDBInstanceUpdate specRejectProvider resizeWorld) =
     Some (WrappedMsg busy [''dds-1'', ''ModifyDBInstanceSpec'']) \<and>
   map callName (newCalls resizeWorld
     (resourceAlicloudMongoDBInstanceUpdate specRejectProvider resizeWorld)) =
     [''WaitForState'', ''ModifyDBInstanceSpec'']"
proof -
  have 1: "HasChange (rd freshWorld) ''db_instance_storage'' \<and> IsNewResource (rd freshWorld) \<and>
   fst (resourceAlicloudMongoDBInstanceUpdate exampleProvider freshWorld) = None \<and>
   map callName (newCalls freshWorld (resourceAlicloudMongoDBInstanceUpdate exampleProvider freshWorld)) =
     [''MotifyMongoDBBackupPolicy'', ''DescribeMongoDBInstance'', ''DescribeMongoDBBackupPolicy'',
      ''GetSecurityIps'']"
    by (simp add: resourceAlicloudMongoDBInstanceUpdate_def andThen_def invoke_def
        updateBackupPolicy_def updateMaintainTime_def onData_def newCalls_def
        resourceAlicloudMongoDBInstanceRead_def issue_def setAttrs_def Let_def
        freshWorld_def exampleWorld_def exampleData_def exampleProvider_def HasChange_def
        IsNewResource_def Partial_def SetPartial_def)
  have 2: "HasChange (rd renameResizeWorld) ''db_instance_storage'' \<and>
   fst (resourceAlicloudMongoDBInstanceUpdate nameRejectProvider renameResizeWorld) =
     Some (WrappedMsg busy [''dds-1'', ''ModifyDBInstanceDescription'']) \<and>
   map callName (newCalls renameResizeWorld
     (resourceAlicloudMongoDBInstanceUpdate nameRejectProvider renameResizeWorld)) =
     [''ModifyDBInstanceDescription'']"
    by (simp add: resourceAlicloudMongoDBInstanceUpdate_def updateExisting_def andThen_def invoke_def
        updateBackupPolicy_def updateMaintainTime_def updateName_def onData_def newCalls_def
        issue_def setAttrs_def Let_def nameRejectProvider_def busy_def
        renameResizeWorld_def exampleWorld_def exampleData_def HasChange_def
        IsNewResource_def Partial_def SetPartial_def)
  have 3: "HasChange (rd resizeWorld) ''db_instance_storage'' \<and>
   fst (resourceAlicloudMongoDBInstanceUpdate specRejectProvider resizeWorld) =
     Some (WrappedMsg busy [''dds-1'', ''ModifyDBInstanceSpec'']) \<and>
   map callName (newCalls resizeWorld
     (resourceAlicloudMongoDBInstanceUpdate specRejectProvider resizeWorld)) =
     [''WaitForState'', ''ModifyDBInstanceSpec'']"
    by (simp add: resourceAlicloudMongoDBInstanceUpdate_def updateExisting_def andThen_def invoke_def
        updateBackupPolicy_def updateMaintainTime_def updateName_def updateSecurityIps_def
        updateAccountPassword_def updateSpec_def onData_def newCalls_def
        issue_def setAttrs_def Let_def specRejectProvider_def busy_def
        resizeWorld_def exampleWorld_def exampleData_def HasChange_def
        IsNewResource_def Partial_def SetPartial_def)
  show ?thesis using 1 2 3 by blast
qed

subsection \<open>The identifier\<close>

lemma read_idKept: "idKept pv w (resourceAlicloudMongoDBInstanceRead pv w)"
  by (simp add: idKept_def absentSeen_def resourceAlicloudMongoDBInstanceRead_def issue_def
      onData_def setAttrs_def SetId_def Let_def split: sum.splits)

lemma SetPartial_Id [simp]: "Id (SetPartial k d) = Id d"
  by (simp add: SetPartial_def)

lemma Partial_Id [simp]: "Id (Partial on d) = Id d"
  by (simp add: Partial_def)

lemma backup_Id: "Id (rd (snd (updateBackupPolicy pv w))) = Id (rd w)"
  by (simp add: updateBackupPolicy_def invoke_def issue_def onData_def split: option.splits)

lemma maintain_Id: "Id (rd (snd (updateMaintainTime pv w))) = Id (rd w)"
  by (simp add: updateMaintainTime_def invoke_def issue_def onData_def Let_def split: option.splits)

lemma name_Id: "Id (rd (snd (updateName pv w))) = Id (rd w)"
  by (simp add: updateName_def invoke_def issue_def onData_def split: option.splits)

lemma ips_Id: "Id (rd (snd (updateSecurityIps pv w))) = Id (rd w)"
  by (simp add: updateSecurityIps_def invoke_def issue_def onData_def split: option.splits)

lemma password_Id: "Id (rd (snd (updateAccountPassword pv w))) = Id (rd w)"
  by (simp add: updateAccountPassword_def updateCredential_def invoke_def issue_def
      onData_def Let_def split: option.splits sum.splits)

lemma spec_Id: "Id (rd (snd (updateSpec pv w))) = Id (rd w)"
  by (simp add: updateSpec_def invoke_def issue_def onData_def Let_def split: option.splits)

lemma andThen_idKept:
  assumes "Id (rd (snd r)) = Id (rd w)"
    and "\<And>w1. idKept pv w1 (k w1)"
  shows "idKept pv w (andThen r k)"
proof (cases r)
  case (Pair res w1)
  show ?thesis
  proof (cases res)
    case None
    then have "andThen r k = k w1" using Pair by (simp add: andThen_def)
    then show ?thesis using assms(2) [of w1] assms(1) Pair by (simp add: idKept_def)
  next
    case (Some e)
    then have "andThen r k = r" using Pair by (simp add: andThen_def)
    then show ?thesis using assms(1) by (simp add: idKept_def)
  qed
qed

lemma idKept_same_Id: "Id (rd w0) = Id (rd w) \<Longrightarrow> idKept pv w r \<Longrightarrow> idKept pv w0 r"
  by (simp add: idKept_def)

lemma read_after_partial_idKept:
  "idKept pv w (resourceAlicloudMongoDBInstanceRead pv (onData (Partial False) w))"
  by (rule idKept_same_Id [of _ "onData (Partial False) w"]) (simp_all add: onData_def read_idKept)

lemma existing_idKept: "idKept pv w (updateExisting pv w)"
  unfolding updateExisting_def
  by (intro andThen_idKept name_Id ips_Id password_Id spec_Id read_after_partial_idKept)

lemma update_idKept: "idKept pv w (resourceAlicloudMongoDBInstanceUpdate pv w)"
  unfolding resourceAlicloudMongoDBInstanceUpdate_def
proof (intro andThen_idKept maintain_Id)
  show "Id (rd (snd (updateBackupPolicy pv (onData (Partial True) w)))) = Id (rd w)"
    by (simp add: backup_Id onData_def)
  show "idKept pv w1 (if IsNewResource (rd w1)
          then resourceAlicloudMongoDBInstanceRead pv (onData (Partial False) w1)
          else updateExisting pv w1)" for w1
    by (simp add: read_after_partial_idKept existing_idKept)
qed

lemma delete_Id: "Id (rd (snd (resourceAlicloudMongoDBInstanceDelete pv w))) = Id (rd w)"
proof -
  obtain j where "snd (retryDelete (Retry_attempts pv (calls w) (10 * 5 * minute)) pv (Id (rd w)) None w) =
             w\<lparr>calls := calls w @ replicate j (DeleteDBInstance (Id (rd w)))\<rparr>"
    using retryDelete_bounded by blast
  then show ?thesis
    by (cases "retryDelete (Retry_attempts pv (calls w) (10 * 5 * minute)) pv (Id (rd w)) None w")
       (auto simp: resourceAlicloudMongoDBInstanceDelete_def invoke_def issue_def split: option.splits)
qed

lemma build_rd: "rd (snd (buildMongoDBCreateRequest pv w)) = rd w"
proof -
  let ?r0 = "CreateCreateDBInstanceRequest
            \<lparr>RegionId := client_Region pv,
             EngineVersion := Trim pv (engine_version (attrs (rd w))),
             Engine := ''MongoDB'',
             DBInstanceStorage := NewInteger (db_instance_storage (attrs (rd w))),
             DBInstanceClass := Trim pv (db_instance_class (attrs (rd w))),
             DBInstanceDescription := name (attrs (rd w))\<rparr>"
  show ?thesis
  proof (cases "createCredential pv ?r0 w")
    case (Pair res w1)
    have w1: "rd w1 = rd w"
      using createCredential_rd [of pv ?r0 w] Pair by simp
    show ?thesis
    proof (cases res)
      case (Inl err)
      then show ?thesis
        using Pair w1 by (simp add: buildMongoDBCreateRequest_def Let_def)
    next
      case (Inr r1)
      let ?r2 = "if replication_factor (attrs (rd w)) \<noteq> 0
                 then r1\<lparr>ZoneId := zone_id (attrs (rd w)), StorageEngine := storage_engine (attrs (rd w)),
                        ReplicationFactor := Itoa (replication_factor (attrs (rd w)))\<rparr>
                 else r1\<lparr>ZoneId := zone_id (attrs (rd w)), StorageEngine := storage_engine (attrs (rd w))\<rparr>"
      have "snd (buildMongoDBCreateRequest pv w) = snd (createNetwork pv ?r2 w1)"
        using Pair Inr
        by (simp add: buildMongoDBCreateRequest_def Let_def split: prod.splits sum.splits)
      then show ?thesis
        using createNetwork_rd [of pv ?r2 w1] w1 by simp
    qed
  qed
qed

lemma create_after_call:
  assumes "fst (buildMongoDBCreateRequest pv w) = Inr request"
    and "CreateDBInstance_result pv (calls (snd (buildMongoDBCreateRequest pv w))) request = Inr ident"
  shows "resourceAlicloudMongoDBInstanceCreate pv w =
           (case invoke pv (WaitForState (createStateConf ((rd w)\<lparr>Id := ident\<rparr>)))
                   (onData (SetId ident) (issue (CreateDBInstance request)
                      (snd (buildMongoDBCreateRequest pv w)))) of
              (Some err, w3) \<Rightarrow> (Some (WrapError err), w3)
            | (None, w3) \<Rightarrow> resourceAlicloudMongoDBInstanceUpdate pv w3)"
  using assms build_rd [of pv w]
  by (cases "buildMongoDBCreateRequest pv w")
     (simp add: resourceAlicloudMongoDBInstanceCreate_def Let_def onData_def issue_def SetId_def)

lemma update_extends:
  "\<exists>S. calls (snd (resourceAlicloudMongoDBInstanceUpdate pv w)) = calls w @ S"
  using update_guarded [of pv w] by (auto simp: guarded_def)

text \<open>
  C10. When the builder returns a request and the create call answers with an
  identifier, Create stores it before the poll: the poll is the call right after the
  create call and refreshes that identifier. If Create then returns an error (the poll
  timed out, or the Update that follows failed), the resource has that identifier; in
  any case it has that identifier or it was cleared by a Read that saw the instance
  absent. Update and Read keep the identifier they start with, unless their (final)
  Read sees the instance absent, clears it and returns no error. Delete keeps it.
\<close>

theorem identifier_kept:
  "(fst (buildMongoDBCreateRequest pv w) = Inr request \<and>
    CreateDBInstance_result pv (calls (snd (buildMongoDBCreateRequest pv w))) request = Inr ident \<longrightarrow>
      (\<exists>post. calls (snd (resourceAlicloudMongoDBInstanceCreate pv w)) =
               calls (snd (buildMongoDBCreateRequest pv w)) @
               CreateDBInstance request # WaitForState (createStateConf ((rd w)\<lparr>Id := ident\<rparr>)) # post) \<and>
      RefreshId (createStateConf ((rd w)\<lparr>Id := ident\<rparr>)) = ident \<and>
      (fst (resourceAlicloudMongoDBInstanceCreate pv w) \<noteq> None \<longrightarrow>
         Id (rd (snd (resourceAlicloudMongoDBInstanceCreate pv w))) = ident) \<and>
      (Id (rd (snd (resourceAlicloudMongoDBInstanceCreate pv w))) = ident \<or>
       Id (rd (snd (resourceAlicloudMongoDBInstanceCreate pv w))) = [] \<and>
       absentSeen pv (calls (snd (resourceAlicloudMongoDBInstanceCreate pv w))))) \<and>
   idKept pv w (resourceAlicloudMongoDBInstanceUpdate pv w) \<and>
   idKept pv w (resourceAlicloudMongoDBInstanceRead pv w) \<and>
   Id (rd (snd (resourceAlicloudMongoDBInstanceDelete pv w))) = Id (rd w)"
proof -
  have c: "(\<exists>post. calls (snd (resourceAlicloudMongoDBInstanceCreate pv w)) =
               calls (snd (buildMongoDBCreateRequest pv w)) @
               CreateDBInstance request # WaitForState (createStateConf ((rd w)\<lparr>Id := ident\<rparr>)) # post) \<and>
      RefreshId (createStateConf ((rd w)\<lparr>Id := ident\<rparr>)) = ident \<and>
      (fst (resourceAlicloudMongoDBInstanceCreate pv w) \<noteq> None \<longrightarrow>
         Id (rd (snd (resourceAlicloudMongoDBInstanceCreate pv w))) = ident) \<and>
      (Id (rd (snd (resourceAlicloudMongoDBInstanceCreate pv w))) = ident \<or>
       Id (rd (snd (resourceAlicloudMongoDBInstanceCreate pv w))) = [] \<and>
       absentSeen pv (calls (snd (resourceAlicloudMongoDBInstanceCreate pv w))))"
    if a: "fst (buildMongoDBCreateRequest pv w) = Inr request"
      "CreateDBInstance_result pv (calls (snd (buildMongoDBCreateRequest pv w))) request = Inr ident"
  proof -
    let ?w1 = "snd (buildMongoDBCreateRequest pv w)"
    let ?w2 = "onData (SetId ident) (issue (CreateDBInstance request) ?w1)"
    let ?conf = "createStateConf ((rd w)\<lparr>Id := ident\<rparr>)"
    let ?w3 = "issue (WaitForState ?conf) ?w2"
    have e: "resourceAlicloudMongoDBInstanceCreate pv w =
           (case invoke pv (WaitForState ?conf) ?w2 of
              (Some err, w3) \<Rightarrow> (Some (WrapError err), w3)
            | (None, w3) \<Rightarrow> resourceAlicloudMongoDBInstanceUpdate pv w3)"
      using a by (rule create_after_call)
    have c3: "calls ?w3 = calls ?w1 @ [CreateDBInstance request, WaitForState ?conf]"
      and i3: "Id (rd ?w3) = ident"
      by (simp_all add: issue_def onData_def SetId_def)
    have r: "RefreshId ?conf = ident"
      by (simp add: createStateConf_def BuildStateConf_def RdsMongodbDBInstanceStateRefreshFunc_def)
    show ?thesis
    proof (cases "Invoke_result pv (calls ?w2) (WaitForState ?conf)")
      case (Some err)
      then have "resourceAlicloudMongoDBInstanceCreate pv w = (Some (WrapError err), ?w3)"
        using e by (simp add: invoke_def)
      then show ?thesis using c3 i3 r by simp
    next
      case None
      then have u: "resourceAlicloudMongoDBInstanceCreate pv w = resourceAlicloudMongoDBInstanceUpdate pv ?w3"
        using e by (simp add: invoke_def)
      obtain S where S: "calls (snd (resourceAlicloudMongoDBInstanceUpdate pv ?w3)) = calls ?w3 @ S"
        using update_extends by blast
      have k: "idKept pv ?w3 (resourceAlicloudMongoDBInstanceUpdate pv ?w3)"
        by (rule update_idKept)
      have 1: "\<exists>post. calls (snd (resourceAlicloudMongoDBInstanceCreate pv w)) =
               calls ?w1 @ CreateDBInstance request # WaitForState ?conf # post"
        using S c3 u by simp
      show ?thesis
        using 1 r k i3 unfolding u idKept_def by auto
    qed
  qed
  show ?thesis
    using c update_idKept read_idKept delete_Id by blast
qed


theorem identifier_kept_witness:
  "(\<exists>request. fst (buildMongoDBCreateRequest timeoutProvider createWorld) = Inr request \<and>
      CreateDBInstance_result timeoutProvider
        (calls (snd (buildMongoDBCreateRequest timeoutProvider createWorld))) request = Inr ''dds-new'') \<and>
   fst (resourceAlicloudMongoDBInstanceCreate timeoutProvider createWorld) = Some (Wrapped waitTimeout) \<and>
   Id (rd createWorld) = [] \<and>
   Id (rd (snd (resourceAlicloudMongoDBInstanceCreate timeoutProvider createWorld))) = ''dds-new'' \<and>
   Id (rd (snd (resourceAlicloudMongoDBInstanceUpdate timeoutProvider resizeWorld))) = ''dds-1'' \<and>
   Id (rd (snd (resourceAlicloudMongoDBInstanceDelete exampleProvider exampleWorld))) = ''dds-1'' \<and>
   Id (rd (snd (resourceAlicloudMongoDBInstanceRead absentProvider exampleWorld))) = [] \<and>
   absentSeen absentProvider (calls (snd (resourceAlicloudMongoDBInstanceRead absentProvider exampleWorld)))"
proof -
  obtain request where b: "fst (buildMongoDBCreateRequest timeoutProvider createWorld) = Inr request"
    by (simp add: buildMongoDBCreateRequest_def createCredential_def createNetwork_def
        checkZone_def createWorld_def onData_def exampleWorld_def timeoutProvider_def
        exampleData_def exampleAttrs_def exampleProvider_def issue_def trimSpaces_def Let_def
        CreateCreateDBInstanceRequest_def)
  have c: "CreateDBInstance_result timeoutProvider
        (calls (snd (buildMongoDBCreateRequest timeoutProvider createWorld))) request = Inr ''dds-new''"
    by (simp add: timeoutProvider_def exampleProvider_def)
  have i0: "Id (rd createWorld) = []"
    by (simp add: createWorld_def onData_def)
  have f: "fst (resourceAlicloudMongoDBInstanceCreate timeoutProvider createWorld) = Some (Wrapped waitTimeout)"
    using create_after_call [OF b c]
    by (simp add: invoke_def timeoutProvider_def waitTimeout_def)
  note t = identifier_kept [of timeoutProvider createWorld request "''dds-new''"]
  have i1: "Id (rd (snd (resourceAlicloudMongoDBInstanceCreate timeoutProvider createWorld))) = ''dds-new''"
    using t b c f by simp
  have i2: "Id (rd (snd (resourceAlicloudMongoDBInstanceUpdate timeoutProvider resizeWorld))) = ''dds-1''"
    unfolding resize_timeout_calls
    by (simp add: onData_def issue_def resizeWorld_def setAttrs_def exampleWorld_def
        exampleData_def Partial_def)
  have i3: "Id (rd (snd (resourceAlicloudMongoDBInstanceDelete exampleProvider exampleWorld))) = ''dds-1''"
    using identifier_kept [of exampleProvider exampleWorld request "''dds-new''"]
    by (simp add: exampleWorld_def exampleData_def)
  have g: "resourceAlicloudMongoDBInstanceRead absentProvider exampleWorld =
        (None, onData (SetId []) (issue (DescribeMongoDBInstance (Id (rd exampleWorld))) exampleWorld))"
    by (rule read_not_found [of absentProvider exampleWorld gone])
       (simp_all add: absentProvider_def exampleProvider_def gone_def)
  have i4: "Id (rd (snd (resourceAlicloudMongoDBInstanceRead absentProvider exampleWorld))) = []"
    by (simp add: g onData_def SetId_def)
  have "Id (rd exampleWorld) \<noteq> []"
    by (simp add: exampleWorld_def exampleData_def)
  then have i5: "absentSeen absentProvider
                   (calls (snd (resourceAlicloudMongoDBInstanceRead absentProvider exampleWorld)))"
    using identifier_kept [of absentProvider exampleWorld request "''dds-new''"] i4
    by (simp add: idKept_def)
  show ?thesis
    using b c f i0 i1 i2 i3 i4 i5 by blast
qed

end
